theory Spec2Isabelle
  imports Complex_Main "HOL-Library.FSet"
begin

section \<open>Errors, arrays and vectors\<close>

text \<open>
  \<^verbatim>\<open>MFEM_VERIFY(cond, msg)\<close> aborts the process when \<open>cond\<close> is false; the model returns
  \<open>Inl VerifyFailed\<close>.  \<^verbatim>\<open>Vector::operator[]\<close>, \<^verbatim>\<open>std::vector::operator[]\<close> and a raw
  \<^verbatim>\<open>int *\<close> do not check their index; an access outside the container is undefined
  behaviour in the source and the value \<open>Inl OutOfBounds\<close> in the model; a call through a
  null pointer is \<open>Inl NullPointer\<close>.
\<close>

datatype error = VerifyFailed | OutOfBounds | NullPointer

fun bind_err :: "error + 'a \<Rightarrow> ('a \<Rightarrow> error + 'b) \<Rightarrow> error + 'b" where
  "bind_err (Inl e) f = Inl e"
| "bind_err (Inr a) f = f a"

text \<open>
  The entries of a \<^verbatim>\<open>Vector\<close> are kept as real numbers: the operators below copy them and
  form linear combinations of them.  The comparison of vertex coordinates, where the
  rounding of a \<^verbatim>\<open>double\<close> decides the result, is modelled with the rounding written out.
\<close>

type_synonym Vector = "real list"

text \<open>
  An \<^verbatim>\<open>int\<close> of the source has 32 bits.  The sizes and offsets that the constructor
  accumulates are sums of \<^verbatim>\<open>int\<close>s, and sums of an \<^verbatim>\<open>int\<close> and a \<^verbatim>\<open>size_t\<close> stored back into
  an \<^verbatim>\<open>int\<close>; a sum outside the range wraps around on the two's complement machines the
  program runs on (the signed overflow is undefined behaviour in the language).  The
  model keeps these values as integers and writes the wrap-around out: \<open>int32 x\<close> is the
  number in \<open>[-2\<^sup>3\<^sup>1, 2\<^sup>3\<^sup>1)\<close> that is congruent to \<open>x\<close> modulo \<open>2\<^sup>3\<^sup>2\<close>.
\<close>

definition int32 :: "int \<Rightarrow> int" where
  "int32 x = (x + 2 ^ 31) mod 2 ^ 32 - 2 ^ 31"

definition vec_get :: "'a list \<Rightarrow> int \<Rightarrow> error + 'a" where
  "vec_get v i = (if 0 \<le> i \<and> i < int (length v) then Inr (v ! nat i) else Inl OutOfBounds)"

definition deref :: "'a option \<Rightarrow> error + 'a" where
  "deref p = (case p of None \<Rightarrow> Inl NullPointer | Some a \<Rightarrow> Inr a)"

text \<open>A loop over the elements of a list that threads a state and stops at the first failure.\<close>

fun fold_err :: "('a \<Rightarrow> 's \<Rightarrow> error + 's) \<Rightarrow> 'a list \<Rightarrow> 's \<Rightarrow> error + 's" where
  "fold_err f [] s = Inr s"
| "fold_err f (x # xs) s = bind_err (f x s) (fold_err f xs)"

definition vec_set :: "'a list \<Rightarrow> int \<Rightarrow> 'a \<Rightarrow> error + 'a list" where
  "vec_set v i a = (if 0 \<le> i \<and> i < int (length v) then Inr (v[nat i := a]) else Inl OutOfBounds)"

section \<open>External collaborators: meshes and finite element spaces\<close>

text \<open>
  The mesh and finite element space classes are consumed through their query methods
  only.  Each is a record of the methods the code under verification calls; a method
  is a total function of its index arguments.  \<^verbatim>\<open>GetVertex\<close> returns a pointer to the
  three coordinates of a vertex; \<open>coord v k\<close> is \<^verbatim>\<open>v[k]\<close> for \<open>k < 3\<close>.
\<close>

type_synonym Vertex = "real \<times> real \<times> real"

definition coord :: "Vertex \<Rightarrow> nat \<Rightarrow> real" where
  "coord v k = (case v of (a, b, c) \<Rightarrow> if k = 0 then a else if k = 1 then b else c)"

datatype Geometry = POINT | SEGMENT | TRIANGLE | SQUARE | TETRAHEDRON | CUBE

record ParMesh =
  GetNE :: int
  GetNBE :: int
  GetAttribute :: "int \<Rightarrow> int"
  GetElementFaces :: "int \<Rightarrow> int list"
  GetElementVertices :: "int \<Rightarrow> int list"
  GetElementEdges :: "int \<Rightarrow> int list"
  GetFaceVertices :: "int \<Rightarrow> int list"
  GetFaceEdges :: "int \<Rightarrow> int list"
  GetEdgeVertices :: "int \<Rightarrow> int list"
  GetVertex :: "int \<Rightarrow> Vertex"
  GetFaceGeometryType :: "int \<Rightarrow> Geometry"

text \<open>
  \<open>SetFromTrueDofs\<close> and \<open>GetTrueDofs\<close> stand for the two methods of a
  \<^verbatim>\<open>ParGridFunction\<close> built on the space: the expansion of a true-DOF vector to the
  full-DOF vector of the space, and the reduction back.
\<close>

record ParFiniteElementSpace =
  GetParMesh :: ParMesh
  GetVSize :: int
  GetTrueVSize :: int
  GetVertexDofs :: "int \<Rightarrow> int list"
  GetEdgeDofs :: "int \<Rightarrow> int list"
  GetFaceDofs :: "int \<Rightarrow> int list"
  GetBdrElementDofs :: "int \<Rightarrow> int list"
  GetLocalTDofNumber :: "int \<Rightarrow> int"
  SetFromTrueDofs :: "Vector \<Rightarrow> Vector"
  GetTrueDofs :: "Vector \<Rightarrow> Vector"

type_synonym FiniteElementCollection = "Geometry \<Rightarrow> int"

section \<open>FindBoundaryTrueDOFs\<close>

text \<open>
  The inner loop over the DOFs of one boundary element: a negative entry \<open>d\<close> encodes
  the DOF \<open>-1 - d\<close>; the DOF is inserted when it is a true DOF of this process.
\<close>

definition bdr_dofs_loop :: "ParFiniteElementSpace \<Rightarrow> int list \<Rightarrow> int fset \<Rightarrow> int fset" where
  "bdr_dofs_loop pfespace dofs tdofsBdry =
     foldl (\<lambda>tdofs d.
              let dof_i = (if d \<ge> 0 then d else - 1 - d);
                  ldof = GetLocalTDofNumber pfespace dof_i
              in if ldof \<ge> 0 then finsert ldof tdofs else tdofs) tdofsBdry dofs"

definition FindBoundaryTrueDOFs :: "ParFiniteElementSpace \<Rightarrow> int fset \<Rightarrow> int fset" where
  "FindBoundaryTrueDOFs pfespace tdofsBdry =
     foldl (\<lambda>tdofs be. bdr_dofs_loop pfespace (GetBdrElementDofs pfespace be) tdofs) tdofsBdry
           [0..GetNBE (GetParMesh pfespace) - 1]"

section \<open>Double precision arithmetic\<close>

text \<open>
  A finite \<^verbatim>\<open>double\<close> is modelled by the real number it denotes; the coordinates of the mesh
  vertices are finite doubles.  The source subtracts two coordinates and compares the
  absolute value of the result with a tolerance, in IEEE 754 binary64 arithmetic with
  rounding to nearest, ties to even: the exact difference \<open>x\<close> is replaced by the nearest
  multiple of the spacing of the doubles at the magnitude of \<open>x\<close>, which is
  \<open>2\<^sup>e\<^sup>-\<^sup>5\<^sup>2\<close> for \<open>2\<^sup>e \<le> \<bar>x\<bar> < 2\<^sup>e\<^sup>+\<^sup>1\<close> and \<open>2\<^sup>-\<^sup>1\<^sup>0\<^sup>7\<^sup>4\<close> below \<open>2\<^sup>-\<^sup>1\<^sup>0\<^sup>2\<^sup>2\<close>.  A difference
  that overflows is an infinity in the source and a real number above every double
  here; both are greater than every tolerance.
\<close>

definition round_half_even :: "real \<Rightarrow> int" where
  "round_half_even q =
     (let n = \<lfloor>q\<rfloor>; r = q - of_int n
      in if r < 1 / 2 then n else if r > 1 / 2 then n + 1 else if even n then n else n + 1)"

definition double_ulp :: "real \<Rightarrow> real" where
  "double_ulp a = 2 powr (of_int (max \<lfloor>log 2 a\<rfloor> (- 1022)) - 52)"

definition round_double :: "real \<Rightarrow> real" where
  "round_double x =
     (if x = 0 then 0
      else sgn x * of_int (round_half_even (\<bar>x\<bar> / double_ulp \<bar>x\<bar>)) * double_ulp \<bar>x\<bar>)"

text \<open>
  The literal \<^verbatim>\<open>1.0e-12\<close> denotes the double nearest to \<open>10\<^sup>-\<^sup>1\<^sup>2\<close>, which is
  \<open>4951760157141521 / 2\<^sup>9\<^sup>2\<close>; it is the tolerance of \<^verbatim>\<open>FacesCoincideGeometrically\<close> and
  the value of \<^verbatim>\<open>const double vertexTol = 1.0e-12\<close> in \<^verbatim>\<open>SetInterfaceToSurfaceDOFMap\<close>.
\<close>

definition vertexTol :: real where
  "vertexTol = 4951760157141521 / 2 ^ 92"

section \<open>FacesCoincideGeometrically\<close>

text \<open>
  The innermost loop
  \<^verbatim>\<open>verticesEqual = true; for (k=0; k<3; ++k) if (fabs(vi[k] - vj[k]) > tol) verticesEqual = false;\<close>
  occurs three times in the source (with the literal \<^verbatim>\<open>1.0e-12\<close> in
  \<^verbatim>\<open>FacesCoincideGeometrically\<close> and with \<^verbatim>\<open>vertexTol = 1.0e-12\<close> in the vertex and the edge
  matching of \<^verbatim>\<open>SetInterfaceToSurfaceDOFMap\<close>).
\<close>

definition verticesEqual :: "Vertex \<Rightarrow> Vertex \<Rightarrow> real \<Rightarrow> bool" where
  "verticesEqual vi vj tol =
     foldl (\<lambda>eq k. if \<bar>round_double (coord vi k - coord vj k)\<bar> > tol then False else eq)
       True [0..<3]"

text \<open>The loop over \<open>j\<close>: it runs to \<^verbatim>\<open>faceVert.Size()\<close> and reads \<^verbatim>\<open>elemVert[j]\<close>.\<close>

definition vertexFound_loop :: "ParMesh \<Rightarrow> int list \<Rightarrow> nat \<Rightarrow> Vertex \<Rightarrow> bool" where
  "vertexFound_loop surfaceMesh elemVert n vi =
     foldl (\<lambda>vertexFound j.
              if verticesEqual vi (GetVertex surfaceMesh (elemVert ! j)) vertexTol
              then True else vertexFound) False [0..<n]"

text \<open>The loop over \<open>i\<close>, on the entries of \<^verbatim>\<open>faceVert\<close> still to visit; it returns early.\<close>

fun faceVert_loop :: "ParMesh \<Rightarrow> ParMesh \<Rightarrow> int list \<Rightarrow> nat \<Rightarrow> int list \<Rightarrow> bool" where
  "faceVert_loop volumeMesh surfaceMesh elemVert n [] = True"
| "faceVert_loop volumeMesh surfaceMesh elemVert n (fv # rest) =
     (if \<not> vertexFound_loop surfaceMesh elemVert n (GetVertex volumeMesh fv) then False
      else faceVert_loop volumeMesh surfaceMesh elemVert n rest)"

definition FacesCoincideGeometrically :: "ParMesh \<Rightarrow> int \<Rightarrow> ParMesh \<Rightarrow> int \<Rightarrow> bool" where
  "FacesCoincideGeometrically volumeMesh face surfaceMesh elem =
     (let faceVert = GetFaceVertices volumeMesh face;
          elemVert = GetElementVertices surfaceMesh elem
      in if length faceVert \<noteq> length elemVert then False
         else faceVert_loop volumeMesh surfaceMesh elemVert (length faceVert) faceVert)"

section \<open>SetInterfaceToSurfaceDOFMap\<close>

text \<open>
  First loop: for every element of \<open>pmesh\<close> with attribute \<open>sdAttribute\<close>, every face of
  the element that lies in \<open>pmeshFacesInInterface\<close> is entered into the map
  \<open>pmeshFaceToElem\<close> (a second element for the same face fails the \<^verbatim>\<open>MFEM_VERIFY\<close>) and
  the element into the set \<open>pmeshElemsByInterface\<close>.
\<close>

fun elFaces_loop ::
  "int fset \<Rightarrow> int \<Rightarrow> int list \<Rightarrow> (int \<rightharpoonup> int) \<times> int fset \<Rightarrow> error + ((int \<rightharpoonup> int) \<times> int fset)" where
  "elFaces_loop pmeshFacesInInterface elId [] st = Inr st"
| "elFaces_loop pmeshFacesInInterface elId (f # fs) (pmeshFaceToElem, pmeshElemsByInterface) =
     (if f |\<in>| pmeshFacesInInterface then
        (if pmeshFaceToElem f \<noteq> None then Inl VerifyFailed
         else elFaces_loop pmeshFacesInInterface elId fs
                (pmeshFaceToElem(f \<mapsto> elId), finsert elId pmeshElemsByInterface))
      else elFaces_loop pmeshFacesInInterface elId fs (pmeshFaceToElem, pmeshElemsByInterface))"

fun pmeshElem_loop ::
  "ParMesh \<Rightarrow> int \<Rightarrow> int fset \<Rightarrow> int list \<Rightarrow> (int \<rightharpoonup> int) \<times> int fset
     \<Rightarrow> error + ((int \<rightharpoonup> int) \<times> int fset)" where
  "pmeshElem_loop pmesh sdAttribute pmeshFacesInInterface [] st = Inr st"
| "pmeshElem_loop pmesh sdAttribute pmeshFacesInInterface (elId # rest) st =
     (if GetAttribute pmesh elId = sdAttribute then
        bind_err (elFaces_loop pmeshFacesInInterface elId (GetElementFaces pmesh elId) st)
          (pmeshElem_loop pmesh sdAttribute pmeshFacesInInterface rest)
      else pmeshElem_loop pmesh sdAttribute pmeshFacesInInterface rest st)"

text \<open>Second loop: the map from \<open>pmesh\<close> elements next to the interface to \<open>sdMesh\<close> elements.\<close>

definition sdElem_loop :: "ParMesh \<Rightarrow> int fset \<Rightarrow> (int \<rightharpoonup> int)" where
  "sdElem_loop sdMesh pmeshElemsByInterface =
     foldl (\<lambda>pmeshElemToSDmesh elId.
              let pmeshElemId = GetAttribute sdMesh elId - 1
              in if pmeshElemId |\<in>| pmeshElemsByInterface
                 then pmeshElemToSDmesh(pmeshElemId \<mapsto> elId) else pmeshElemToSDmesh)
           Map.empty [0..GetNE sdMesh - 1]"

text \<open>
  The search for the face of \<open>sdMeshElem\<close> that coincides with interface face \<open>i\<close>:
  \<^verbatim>\<open>sdMeshFace = -1; for (j...) if (FacesCoincideGeometrically(sdMesh, elFaces[j], ifMesh, i)) sdMeshFace = elFaces[j];\<close>
  followed by \<^verbatim>\<open>MFEM_VERIFY(sdMeshFace >= 0, "")\<close>.
\<close>

definition sdMeshFace_loop :: "ParMesh \<Rightarrow> ParMesh \<Rightarrow> int \<Rightarrow> int list \<Rightarrow> int" where
  "sdMeshFace_loop sdMesh ifMesh i elFaces =
     foldl (\<lambda>sdMeshFace f. if FacesCoincideGeometrically sdMesh f ifMesh i then f else sdMeshFace)
           (- 1) elFaces"

definition find_sdMeshFace :: "ParMesh \<Rightarrow> ParMesh \<Rightarrow> int \<Rightarrow> int \<Rightarrow> error + int" where
  "find_sdMeshFace sdMesh ifMesh i sdMeshElem =
     (let sdMeshFace = sdMeshFace_loop sdMesh ifMesh i (GetElementFaces sdMesh sdMeshElem)
      in if sdMeshFace \<ge> 0 then Inr sdMeshFace else Inl VerifyFailed)"

text \<open>
  The write of one DOF pair into the table, as it stands in the vertex, the edge and
  the face matching alike:
  \<^verbatim>\<open>sdtdof = fespace->GetLocalTDofNumber(sddofs[d]);
  if (sdtdof >= 0) { MFEM_VERIFY(dofmap[ifdofs[d]] == sdtdof || dofmap[ifdofs[d]] == -1, ""); dofmap[ifdofs[d]] = sdtdof; }\<close>
\<close>

definition write_dof :: "ParFiniteElementSpace \<Rightarrow> int \<Rightarrow> int \<Rightarrow> int list \<Rightarrow> error + int list" where
  "write_dof fespace ifdof sddof dofmap =
     (let sdtdof = GetLocalTDofNumber fespace sddof
      in if sdtdof \<ge> 0 then
           bind_err (vec_get dofmap ifdof) (\<lambda>old.
             if old = sdtdof \<or> old = - 1 then vec_set dofmap ifdof sdtdof else Inl VerifyFailed)
         else Inr dofmap)"

text \<open>The loop over \<open>d\<close>, on the pairs \<open>(ifdofs[d], sddofs[d])\<close> still to visit.\<close>

fun dofs_loop :: "ParFiniteElementSpace \<Rightarrow> (int \<times> int) list \<Rightarrow> int list \<Rightarrow> error + int list" where
  "dofs_loop fespace [] dofmap = Inr dofmap"
| "dofs_loop fespace ((ifdof, sddof) # rest) dofmap =
     bind_err (write_dof fespace ifdof sddof dofmap) (dofs_loop fespace rest)"

text \<open>\<^verbatim>\<open>MFEM_VERIFY(ifdofs.Size() == sddofs.Size(), "")\<close> and the loop over \<open>d\<close>.\<close>

definition map_dofs :: "ParFiniteElementSpace \<Rightarrow> int list \<Rightarrow> int list \<Rightarrow> int list \<Rightarrow> error + int list" where
  "map_dofs fespace ifdofs sddofs dofmap =
     (if length ifdofs = length sddofs then dofs_loop fespace (zip ifdofs sddofs) dofmap
      else Inl VerifyFailed)"

text \<open>Vertex DOFs: the loop over \<open>k\<close> (vertices of the subdomain face) for one interface vertex.\<close>

fun sdVert_loop ::
  "ParFiniteElementSpace \<Rightarrow> ParFiniteElementSpace \<Rightarrow> int \<Rightarrow> int list \<Rightarrow> bool \<times> int list
     \<Rightarrow> error + (bool \<times> int list)" where
  "sdVert_loop ifespace fespace ifVert_j [] st = Inr st"
| "sdVert_loop ifespace fespace ifVert_j (sdVert_k # rest) (vertexFound, dofmap) =
     (if verticesEqual (GetVertex (GetParMesh ifespace) ifVert_j)
                       (GetVertex (GetParMesh fespace) sdVert_k) vertexTol
      then bind_err (map_dofs fespace (GetVertexDofs ifespace ifVert_j)
                       (GetVertexDofs fespace sdVert_k) dofmap)
             (\<lambda>dofmap'. sdVert_loop ifespace fespace ifVert_j rest (True, dofmap'))
      else sdVert_loop ifespace fespace ifVert_j rest (vertexFound, dofmap))"

text \<open>The loop over \<open>j\<close> (vertices of the interface face), with \<^verbatim>\<open>MFEM_VERIFY(vertexFound, "")\<close>.\<close>

fun ifVert_loop ::
  "ParFiniteElementSpace \<Rightarrow> ParFiniteElementSpace \<Rightarrow> int list \<Rightarrow> int list \<Rightarrow> int list
     \<Rightarrow> error + int list" where
  "ifVert_loop ifespace fespace sdVert [] dofmap = Inr dofmap"
| "ifVert_loop ifespace fespace sdVert (ifVert_j # rest) dofmap =
     bind_err (sdVert_loop ifespace fespace ifVert_j sdVert (False, dofmap))
       (\<lambda>(vertexFound, dofmap').
          if vertexFound then ifVert_loop ifespace fespace sdVert rest dofmap'
          else Inl VerifyFailed)"

definition vertex_dofs :: "ParFiniteElementSpace \<Rightarrow> ParFiniteElementSpace \<Rightarrow> int \<Rightarrow> int \<Rightarrow> int list
     \<Rightarrow> error + int list" where
  "vertex_dofs ifespace fespace i sdMeshFace dofmap =
     (let ifVert = GetFaceVertices (GetParMesh ifespace) i;
          sdVert = GetFaceVertices (GetParMesh fespace) sdMeshFace
      in if length ifVert = length sdVert then ifVert_loop ifespace fespace sdVert ifVert dofmap
         else Inl VerifyFailed)"

text \<open>
  Edge DOFs: the loop over \<open>k\<close> (edges of the subdomain face) looks for the edge whose
  two end points equal, in order, those of the interface edge; a second match fails.
\<close>

definition edgesMatch :: "ParMesh \<Rightarrow> ParMesh \<Rightarrow> int list \<Rightarrow> int list \<Rightarrow> bool" where
  "edgesMatch ifMesh sdMesh ifVert sdVert =
     foldl (\<lambda>m v. if \<not> verticesEqual (GetVertex ifMesh (ifVert ! v)) (GetVertex sdMesh (sdVert ! v)) vertexTol
                   then False else m) True [0..<2]"

fun sdEdge_loop :: "ParMesh \<Rightarrow> ParMesh \<Rightarrow> int list \<Rightarrow> int list \<Rightarrow> nat list \<Rightarrow> int \<Rightarrow> error + int" where
  "sdEdge_loop ifMesh sdMesh ifVert sdEdge [] sd_k = Inr sd_k"
| "sdEdge_loop ifMesh sdMesh ifVert sdEdge (k # rest) sd_k =
     (let sdVert = GetEdgeVertices sdMesh (sdEdge ! k)
      in if length sdVert \<noteq> 2 then Inl VerifyFailed
         else if edgesMatch ifMesh sdMesh ifVert sdVert then
           (if sd_k = - 1 then sdEdge_loop ifMesh sdMesh ifVert sdEdge rest (int k)
            else Inl VerifyFailed)
         else sdEdge_loop ifMesh sdMesh ifVert sdEdge rest sd_k)"

fun ifEdge_loop ::
  "ParFiniteElementSpace \<Rightarrow> ParFiniteElementSpace \<Rightarrow> int list \<Rightarrow> int list \<Rightarrow> int list
     \<Rightarrow> error + int list" where
  "ifEdge_loop ifespace fespace sdEdge [] dofmap = Inr dofmap"
| "ifEdge_loop ifespace fespace sdEdge (ifEdge_j # rest) dofmap =
     (let ifVert = GetEdgeVertices (GetParMesh ifespace) ifEdge_j
      in if length ifVert \<noteq> 2 then Inl VerifyFailed
         else bind_err (sdEdge_loop (GetParMesh ifespace) (GetParMesh fespace) ifVert sdEdge
                          [0..<length sdEdge] (- 1))
                (\<lambda>sd_k. if sd_k \<ge> 0 then
                           bind_err (map_dofs fespace (GetEdgeDofs ifespace ifEdge_j)
                                       (GetEdgeDofs fespace (sdEdge ! nat sd_k)) dofmap)
                             (ifEdge_loop ifespace fespace sdEdge rest)
                         else Inl VerifyFailed))"

definition edge_dofs :: "ParFiniteElementSpace \<Rightarrow> ParFiniteElementSpace \<Rightarrow> int \<Rightarrow> int \<Rightarrow> int list
     \<Rightarrow> error + int list" where
  "edge_dofs ifespace fespace i sdMeshFace dofmap =
     (let ifEdge = GetElementEdges (GetParMesh ifespace) i;
          sdEdge = GetFaceEdges (GetParMesh fespace) sdMeshFace
      in if length ifEdge = length sdEdge then ifEdge_loop ifespace fespace sdEdge ifEdge dofmap
         else Inl VerifyFailed)"

text \<open>Face DOFs: direct correspondence.\<close>

definition face_dofs :: "ParFiniteElementSpace \<Rightarrow> ParFiniteElementSpace \<Rightarrow> int \<Rightarrow> int \<Rightarrow> int list
     \<Rightarrow> error + int list" where
  "face_dofs ifespace fespace i sdMeshFace dofmap =
     map_dofs fespace (GetFaceDofs ifespace i) (GetFaceDofs fespace sdMeshFace) dofmap"

text \<open>The three stages for interface face \<open>i\<close> and the matched face \<open>sdMeshFace\<close>.\<close>

definition face_stages ::
  "ParFiniteElementSpace \<Rightarrow> ParFiniteElementSpace \<Rightarrow> FiniteElementCollection \<Rightarrow> int \<Rightarrow> int
     \<Rightarrow> int list \<Rightarrow> error + int list" where
  "face_stages ifespace fespace fec i sdMeshFace dofmap =
     bind_err (if fec POINT > 0 then vertex_dofs ifespace fespace i sdMeshFace dofmap else Inr dofmap)
       (\<lambda>dofmap1.
     bind_err (if fec SEGMENT > 0 then edge_dofs ifespace fespace i sdMeshFace dofmap1 else Inr dofmap1)
       (\<lambda>dofmap2.
     if fec (GetFaceGeometryType (GetParMesh fespace) 0) > 0
     then face_dofs ifespace fespace i sdMeshFace dofmap2 else Inr dofmap2))"

text \<open>
  The loop over the interface faces, in the order of the set, with the counter \<open>i\<close>;
  a face with no neighbouring element on this process is skipped.
\<close>

fun interface_loop ::
  "ParFiniteElementSpace \<Rightarrow> ParFiniteElementSpace \<Rightarrow> FiniteElementCollection
     \<Rightarrow> (int \<rightharpoonup> int) \<Rightarrow> (int \<rightharpoonup> int) \<Rightarrow> int list \<Rightarrow> int \<Rightarrow> int list \<Rightarrow> error + int list" where
  "interface_loop ifespace fespace fec pmeshFaceToElem pmeshElemToSDmesh [] i dofmap = Inr dofmap"
| "interface_loop ifespace fespace fec pmeshFaceToElem pmeshElemToSDmesh (pmeshFace # rest) i dofmap =
     (case pmeshFaceToElem pmeshFace of
        None \<Rightarrow> interface_loop ifespace fespace fec pmeshFaceToElem pmeshElemToSDmesh rest (i + 1) dofmap
      | Some pmeshElem \<Rightarrow>
          (case pmeshElemToSDmesh pmeshElem of
             None \<Rightarrow> Inl VerifyFailed
           | Some sdMeshElem \<Rightarrow>
               bind_err (find_sdMeshFace (GetParMesh fespace) (GetParMesh ifespace) i sdMeshElem)
                 (\<lambda>sdMeshFace.
               bind_err (face_stages ifespace fespace fec i sdMeshFace dofmap)
                 (interface_loop ifespace fespace fec pmeshFaceToElem pmeshElemToSDmesh rest (i + 1)))))"

definition SetInterfaceToSurfaceDOFMap ::
  "ParFiniteElementSpace \<Rightarrow> ParFiniteElementSpace \<Rightarrow> ParMesh \<Rightarrow> int \<Rightarrow> int fset
     \<Rightarrow> FiniteElementCollection \<Rightarrow> error + int list" where
  "SetInterfaceToSurfaceDOFMap ifespace fespace pmesh sdAttribute pmeshFacesInInterface fec =
     (let ifSize = GetVSize ifespace;
          dofmap = replicate (nat ifSize) (- 1)
      in bind_err (pmeshElem_loop pmesh sdAttribute pmeshFacesInInterface [0..GetNE pmesh - 1]
                     (Map.empty, {||}))
           (\<lambda>(pmeshFaceToElem, pmeshElemsByInterface).
              interface_loop ifespace fespace fec pmeshFaceToElem
                (sdElem_loop (GetParMesh fespace) pmeshElemsByInterface)
                (sorted_list_of_fset pmeshFacesInInterface) 0 dofmap))"

section \<open>SetInjectionOperator\<close>

text \<open>
  \<^verbatim>\<open>class SetInjectionOperator\<close>: the member \<^verbatim>\<open>std::set<int> *id\<close> is a finite set of
  integers, iterated in ascending order; \<open>height\<close> and \<open>width\<close> are the members of the
  base class \<^verbatim>\<open>Operator\<close>.
\<close>

record SetInjectionOperator =
  set_height :: int
  set_width :: int
  set_id :: "int fset"

definition new_SetInjectionOperator :: "int \<Rightarrow> int fset \<Rightarrow> error + SetInjectionOperator" where
  "new_SetInjectionOperator height a =
     (let width = int (fcard a) in
      if height \<ge> width then Inr \<lparr>set_height = height, set_width = width, set_id = a\<rparr>
      else Inl VerifyFailed)"

text \<open>
  The loop \<^verbatim>\<open>for (it = id->begin(); it != id->end(); ++it, ++i) y[*it] = x[i];\<close>
  over the remaining elements of the set, with the counter \<open>i\<close>.
\<close>

fun set_mult_loop :: "int list \<Rightarrow> int \<Rightarrow> Vector \<Rightarrow> Vector \<Rightarrow> error + Vector" where
  "set_mult_loop [] i x y = Inr y"
| "set_mult_loop (it # its) i x y =
     bind_err (vec_get x i) (\<lambda>a.
     bind_err (vec_set y it a) (set_mult_loop its (i + 1) x))"

text \<open>\<^verbatim>\<open>Mult(x, y)\<close>: \<^verbatim>\<open>y = 0.0\<close> overwrites every entry of the caller's \<open>y\<close> and keeps its size.\<close>

definition SetInjectionOperator_Mult :: "SetInjectionOperator \<Rightarrow> Vector \<Rightarrow> Vector \<Rightarrow> error + Vector" where
  "SetInjectionOperator_Mult opr x y =
     set_mult_loop (sorted_list_of_fset (set_id opr)) 0 x (replicate (length y) 0)"

text \<open>The loop \<^verbatim>\<open>y[i] = x[*it]\<close> of \<^verbatim>\<open>MultTranspose\<close>; \<open>y\<close> is not cleared first.\<close>

fun set_multT_loop :: "int list \<Rightarrow> int \<Rightarrow> Vector \<Rightarrow> Vector \<Rightarrow> error + Vector" where
  "set_multT_loop [] i x y = Inr y"
| "set_multT_loop (it # its) i x y =
     bind_err (vec_get x it) (\<lambda>a.
     bind_err (vec_set y i a) (set_multT_loop its (i + 1) x))"

definition SetInjectionOperator_MultTranspose :: "SetInjectionOperator \<Rightarrow> Vector \<Rightarrow> Vector \<Rightarrow> error + Vector" where
  "SetInjectionOperator_MultTranspose opr x y =
     set_multT_loop (sorted_list_of_fset (set_id opr)) 0 x y"

section \<open>InjectionOperator\<close>

text \<open>
  \<^verbatim>\<open>class InjectionOperator\<close>: \<^verbatim>\<open>int *id\<close> points to the first entry of the table built by
  \<^verbatim>\<open>SetInterfaceToSurfaceDOFMap\<close>; the grid function \<open>gf\<close> lives on \<open>interfaceSpace\<close>.
\<close>

record InjectionOperator =
  inj_height :: int
  inj_width :: int
  inj_id :: "int list"
  inj_space :: ParFiniteElementSpace
  fullWidth :: int

definition new_InjectionOperator :: "int \<Rightarrow> ParFiniteElementSpace \<Rightarrow> int list \<Rightarrow> error + InjectionOperator" where
  "new_InjectionOperator height interfaceSpace a =
     (let width = GetTrueVSize interfaceSpace in
      if height \<ge> width
      then Inr \<lparr>inj_height = height, inj_width = width, inj_id = a,
                inj_space = interfaceSpace, fullWidth = GetVSize interfaceSpace\<rparr>
      else Inl VerifyFailed)"

text \<open>The loop \<^verbatim>\<open>for (int i=0; i<fullWidth; ++i) y[id[i]] = gf[i];\<close> on the indices still to visit.\<close>

fun inj_mult_loop :: "int list \<Rightarrow> int list \<Rightarrow> Vector \<Rightarrow> Vector \<Rightarrow> error + Vector" where
  "inj_mult_loop ids [] gf y = Inr y"
| "inj_mult_loop ids (i # rest) gf y =
     bind_err (vec_get ids i) (\<lambda>t.
     bind_err (vec_get gf i) (\<lambda>a.
     bind_err (vec_set y t a) (inj_mult_loop ids rest gf)))"

definition InjectionOperator_Mult :: "InjectionOperator \<Rightarrow> Vector \<Rightarrow> Vector \<Rightarrow> error + Vector" where
  "InjectionOperator_Mult opr x y =
     (let gf = SetFromTrueDofs (inj_space opr) x
      in inj_mult_loop (inj_id opr) [0..fullWidth opr - 1] gf (replicate (length y) 0))"

text \<open>The loop \<^verbatim>\<open>gf[i] = x[id[i]]\<close> of \<^verbatim>\<open>MultTranspose\<close>, then \<^verbatim>\<open>gf.GetTrueDofs(y)\<close>.\<close>

fun inj_multT_loop :: "int list \<Rightarrow> int list \<Rightarrow> Vector \<Rightarrow> Vector \<Rightarrow> error + Vector" where
  "inj_multT_loop ids [] x gf = Inr gf"
| "inj_multT_loop ids (i # rest) x gf =
     bind_err (vec_get ids i) (\<lambda>t.
     bind_err (vec_get x t) (\<lambda>a.
     bind_err (vec_set gf i a) (inj_multT_loop ids rest x)))"

definition InjectionOperator_MultTranspose :: "InjectionOperator \<Rightarrow> Vector \<Rightarrow> Vector \<Rightarrow> error + Vector" where
  "InjectionOperator_MultTranspose opr x gf =
     bind_err (inj_multT_loop (inj_id opr) [0..fullWidth opr - 1] x gf)
       (\<lambda>gf'. Inr (GetTrueDofs (inj_space opr) gf'))"

section \<open>Linear operators and their wrappers\<close>

text \<open>
  Modelled from the spec: the abstract class \<^verbatim>\<open>Operator\<close> of the linear algebra layer,
  which is not among the examined sources: ``a single abstract linear-operator base with
  \<^verbatim>\<open>Mult\<close>/\<^verbatim>\<open>MultTranspose\<close>'', with its \<open>height\<close> and \<open>width\<close>.  \<open>Mult A x\<close> is the vector that
  \<^verbatim>\<open>A.Mult(x, y)\<close> leaves in \<open>y\<close>.
\<close>

record Operator =
  Height :: int
  Width :: int
  Mult :: "Vector \<Rightarrow> error + Vector"
  MultTranspose :: "Vector \<Rightarrow> error + Vector"

text \<open>Modelled from the spec: the identity wrapper (\<^verbatim>\<open>IdentityOperator\<close>), not among the sources.\<close>

definition IdentityOperator :: "int \<Rightarrow> Operator" where
  "IdentityOperator n = \<lparr>Height = n, Width = n, Mult = Inr, MultTranspose = Inr\<rparr>"

text \<open>Modelled from the spec: the transpose wrapper (\<^verbatim>\<open>TransposeOperator\<close>), not among the sources.\<close>

definition TransposeOperator :: "Operator \<Rightarrow> Operator" where
  "TransposeOperator A =
     \<lparr>Height = Width A, Width = Height A, Mult = MultTranspose A, MultTranspose = Mult A\<rparr>"

text \<open>
  Modelled from the spec: the product wrapper (\<^verbatim>\<open>ProductOperator\<close>), not among the sources:
  \<open>A B\<close> applies \<open>B\<close> first.
\<close>

definition ProductOperator :: "Operator \<Rightarrow> Operator \<Rightarrow> Operator" where
  "ProductOperator A B =
     \<lparr>Height = Height A, Width = Width B,
      Mult = (\<lambda>x. bind_err (Mult B x) (Mult A)),
      MultTranspose = (\<lambda>x. bind_err (MultTranspose A x) (MultTranspose B))\<rparr>"

text \<open>
  Modelled from the spec: the triple-product wrapper (\<^verbatim>\<open>TripleProductOperator\<close>), not among
  the sources: \<open>A B C\<close> applies \<open>C\<close> first.
\<close>

definition TripleProductOperator :: "Operator \<Rightarrow> Operator \<Rightarrow> Operator \<Rightarrow> Operator" where
  "TripleProductOperator A B C =
     \<lparr>Height = Height A, Width = Width C,
      Mult = (\<lambda>x. bind_err (Mult C x) (\<lambda>t1. bind_err (Mult B t1) (Mult A))),
      MultTranspose = (\<lambda>x. bind_err (MultTranspose A x)
                         (\<lambda>t2. bind_err (MultTranspose B t2) (MultTranspose C)))\<rparr>"

text \<open>
  Modelled from the spec: the sum wrapper (\<^verbatim>\<open>SumOperator(A, B, ownA, ownB, alpha, beta)\<close>), not
  among the sources: the operator \<open>alpha A + beta B\<close>.
\<close>

definition SumOperator :: "Operator \<Rightarrow> Operator \<Rightarrow> real \<Rightarrow> real \<Rightarrow> Operator" where
  "SumOperator A B a b =
     \<lparr>Height = Height A, Width = Width A,
      Mult = (\<lambda>x. bind_err (Mult A x) (\<lambda>ya. bind_err (Mult B x)
                (\<lambda>yb. Inr (map2 (\<lambda>u v. a * u + b * v) ya yb)))),
      MultTranspose = (\<lambda>x. bind_err (MultTranspose A x) (\<lambda>ya. bind_err (MultTranspose B x)
                (\<lambda>yb. Inr (map2 (\<lambda>u v. a * u + b * v) ya yb))))\<rparr>"

text \<open>
  Modelled from the spec: the block wrapper (\<^verbatim>\<open>BlockOperator\<close>), not among the sources: ``a
  linear operator expressed as a grid of sub-operators acting on a partitioned vector
  space''.  The offsets partition the vectors; an unset block is null and contributes
  nothing; a set block carries a scalar coefficient.
\<close>

record BlockOperator =
  row_offsets :: "int list"
  col_offsets :: "int list"
  block_op :: "nat \<Rightarrow> nat \<Rightarrow> Operator option"
  block_coef :: "nat \<Rightarrow> nat \<Rightarrow> real"

text \<open>Modelled from the spec: the two constructors of \<^verbatim>\<open>BlockOperator\<close>, all blocks null.\<close>

definition new_BlockOperator2 :: "int list \<Rightarrow> int list \<Rightarrow> BlockOperator" where
  "new_BlockOperator2 roffs coffs =
     \<lparr>row_offsets = roffs, col_offsets = coffs, block_op = (\<lambda>i j. None), block_coef = (\<lambda>i j. 1)\<rparr>"

definition new_BlockOperator :: "int list \<Rightarrow> BlockOperator" where
  "new_BlockOperator offs = new_BlockOperator2 offs offs"

definition NumRowBlocks :: "BlockOperator \<Rightarrow> nat" where
  "NumRowBlocks B = length (row_offsets B) - 1"

definition NumColBlocks :: "BlockOperator \<Rightarrow> nat" where
  "NumColBlocks B = length (col_offsets B) - 1"

text \<open>
  Modelled from the spec: \<^verbatim>\<open>BlockOperator::SetBlock(iRow, iCol, op, c)\<close>; a block index
  outside the grid is an access outside the block table.
\<close>

definition SetBlock :: "BlockOperator \<Rightarrow> int \<Rightarrow> int \<Rightarrow> Operator \<Rightarrow> real \<Rightarrow> error + BlockOperator" where
  "SetBlock B iRow iCol A c =
     (if 0 \<le> iRow \<and> nat iRow < NumRowBlocks B \<and> 0 \<le> iCol \<and> nat iCol < NumColBlocks B
      then Inr (B\<lparr>block_op := (block_op B)(nat iRow := (block_op B (nat iRow))(nat iCol := Some A)),
                  block_coef := (block_coef B)(nat iRow := (block_coef B (nat iRow))(nat iCol := c))\<rparr>)
      else Inl OutOfBounds)"

text \<open>Modelled from the spec: block \<open>i\<close> of a vector partitioned by the offsets.\<close>

definition block_size :: "int list \<Rightarrow> nat \<Rightarrow> nat" where
  "block_size offs i = nat (offs ! (i + 1) - offs ! i)"

definition GetBlock :: "int list \<Rightarrow> nat \<Rightarrow> Vector \<Rightarrow> Vector" where
  "GetBlock offs i x = take (block_size offs i) (drop (nat (offs ! i)) x)"

text \<open>
  Modelled from the spec: \<^verbatim>\<open>BlockOperator::Mult\<close>.  Block row \<open>i\<close> of the result starts as
  zero and receives \<open>c\<^sub>i\<^sub>j A\<^sub>i\<^sub>j x\<^sub>j\<close> from every non-null block of the row; the result is
  the concatenation of the block rows.
\<close>

fun block_row :: "BlockOperator \<Rightarrow> Vector \<Rightarrow> nat \<Rightarrow> nat list \<Rightarrow> Vector \<Rightarrow> error + Vector" where
  "block_row B x i [] yi = Inr yi"
| "block_row B x i (j # js) yi =
     (case block_op B i j of
        None \<Rightarrow> block_row B x i js yi
      | Some A \<Rightarrow> bind_err (Mult A (GetBlock (col_offsets B) j x))
                   (\<lambda>tmp. block_row B x i js (map2 (\<lambda>u v. u + block_coef B i j * v) yi tmp)))"

fun block_rows :: "BlockOperator \<Rightarrow> Vector \<Rightarrow> nat list \<Rightarrow> error + Vector" where
  "block_rows B x [] = Inr []"
| "block_rows B x (i # rest) =
     bind_err (block_row B x i [0..<NumColBlocks B] (replicate (block_size (row_offsets B) i) 0))
       (\<lambda>yi. bind_err (block_rows B x rest) (\<lambda>ys. Inr (yi @ ys)))"

definition BlockOperator_Mult :: "BlockOperator \<Rightarrow> Vector \<Rightarrow> error + Vector" where
  "BlockOperator_Mult B x = block_rows B x [0..<NumRowBlocks B]"

text \<open>Modelled from the spec: \<^verbatim>\<open>BlockOperator::MultTranspose\<close>, with the roles of rows and columns exchanged.\<close>

fun block_col :: "BlockOperator \<Rightarrow> Vector \<Rightarrow> nat \<Rightarrow> nat list \<Rightarrow> Vector \<Rightarrow> error + Vector" where
  "block_col B x j [] yj = Inr yj"
| "block_col B x j (i # rest) yj =
     (case block_op B i j of
        None \<Rightarrow> block_col B x j rest yj
      | Some A \<Rightarrow> bind_err (MultTranspose A (GetBlock (row_offsets B) i x))
                   (\<lambda>tmp. block_col B x j rest (map2 (\<lambda>u v. u + block_coef B i j * v) yj tmp)))"

fun block_cols :: "BlockOperator \<Rightarrow> Vector \<Rightarrow> nat list \<Rightarrow> error + Vector" where
  "block_cols B x [] = Inr []"
| "block_cols B x (j # rest) =
     bind_err (block_col B x j [0..<NumRowBlocks B] (replicate (block_size (col_offsets B) j) 0))
       (\<lambda>yj. bind_err (block_cols B x rest) (\<lambda>ys. Inr (yj @ ys)))"

definition BlockOperator_MultTranspose :: "BlockOperator \<Rightarrow> Vector \<Rightarrow> error + Vector" where
  "BlockOperator_MultTranspose B x = block_cols B x [0..<NumColBlocks B]"

text \<open>
  A \<^verbatim>\<open>BlockOperator\<close>, a \<^verbatim>\<open>SetInjectionOperator\<close> and an \<^verbatim>\<open>InjectionOperator\<close> are
  \<^verbatim>\<open>Operator\<close>s (derived classes); where a wrapper takes them through the base class, the
  output vector it passes has the operator's height (for \<^verbatim>\<open>Mult\<close>) or width (for
  \<^verbatim>\<open>MultTranspose\<close>).
\<close>

definition Block_as_Operator :: "BlockOperator \<Rightarrow> Operator" where
  "Block_as_Operator B =
     \<lparr>Height = last (row_offsets B), Width = last (col_offsets B),
      Mult = BlockOperator_Mult B, MultTranspose = BlockOperator_MultTranspose B\<rparr>"

definition Set_as_Operator :: "SetInjectionOperator \<Rightarrow> Operator" where
  "Set_as_Operator S =
     \<lparr>Height = set_height S, Width = set_width S,
      Mult = (\<lambda>x. SetInjectionOperator_Mult S x (replicate (nat (set_height S)) 0)),
      MultTranspose = (\<lambda>x. SetInjectionOperator_MultTranspose S x (replicate (nat (set_width S)) 0))\<rparr>"

definition Inj_as_Operator :: "InjectionOperator \<Rightarrow> Operator" where
  "Inj_as_Operator J =
     \<lparr>Height = inj_height J, Width = inj_width J,
      Mult = (\<lambda>x. InjectionOperator_Mult J x (replicate (nat (inj_height J)) 0)),
      MultTranspose = (\<lambda>x. InjectionOperator_MultTranspose J x (replicate (nat (fullWidth J)) 0))\<rparr>"

text \<open>
  Modelled from the spec: \<^verbatim>\<open>Array<int>::PartialSum\<close>, not among the sources, which turns
  block sizes into ``prefix-sum offsets'': entry \<open>i\<close> becomes the sum of the entries up to \<open>i\<close>,
  accumulated in \<^verbatim>\<open>int\<close>.
\<close>

fun partial_sum_from :: "int \<Rightarrow> int list \<Rightarrow> int list" where
  "partial_sum_from s [] = []"
| "partial_sum_from s (x # xs) = int32 (s + x) # partial_sum_from (int32 (s + x)) xs"

definition PartialSum :: "int list \<Rightarrow> int list" where
  "PartialSum xs = partial_sum_from 0 xs"

section \<open>DDMInterfaceOperator\<close>

text \<open>
  Modelled from the spec: the class \<^verbatim>\<open>SubdomainInterface\<close>, whose declaration is not among
  the examined sources: an interface ``owns exactly two adjacent subdomain indices
  (ordered, first < second) and a set of face indices''.
\<close>

record SubdomainInterface =
  FirstSubdomain :: int
  SecondSubdomain :: int
  faces :: "int fset"

text \<open>
  The arguments of the constructor together with the objects it obtains from the
  excluded collaborators: \<open>fespace ! m\<close>, \<open>ifespace ! i\<close> and \<open>iH1fespace ! i\<close> are the
  finite element spaces created on \<^verbatim>\<open>pmeshSD[m]\<close> and \<^verbatim>\<open>pmeshIF[i]\<close> (null where the mesh is
  null); \<open>sdND m\<close>, \<open>ifNDmass i\<close>, \<open>ifNDcurlcurl i\<close>, \<open>ifNDH1grad i\<close> and \<open>ifH1mass i\<close> are
  the assembled matrices; \<open>GMRESSolver m A\<close> is the preconditioned Krylov solver set up
  for the subdomain operator \<open>A\<close> of subdomain \<open>m\<close>.  The coefficients \<open>alpha\<close>, \<open>beta\<close> and
  \<open>gamma\<close> are handed to the operator wrappers as real numbers.
\<close>

record DDM_args =
  numSubdomains :: int
  numInterfaces :: int
  pmesh :: ParMesh
  fespace :: "ParFiniteElementSpace option list"
  ifespace :: "ParFiniteElementSpace option list"
  iH1fespace :: "ParFiniteElementSpace option list"
  fecbdry :: FiniteElementCollection
  localInterfaces :: "SubdomainInterface list"
  interfaceLocalIndex :: "int list"
  sdND :: "int \<Rightarrow> Operator"
  ifNDmass :: "int \<Rightarrow> Operator"
  ifNDcurlcurl :: "int \<Rightarrow> Operator"
  ifNDH1grad :: "int \<Rightarrow> Operator"
  ifH1mass :: "int \<Rightarrow> Operator"
  GMRESSolver :: "int \<Rightarrow> Operator \<Rightarrow> Operator"
  alpha :: real
  beta :: real
  gamma :: real

text \<open>
  The members the constructor fills, and its local variable \<open>size\<close>.  The member
  \<^verbatim>\<open>tdofsBdryInjectionTranspose[m]\<close> is the transpose wrapper of \<^verbatim>\<open>tdofsBdryInjection[m]\<close> and null
  with it (lines 546 and 557); it is read off \<open>tdofsBdryInjection\<close>.
\<close>

record DDMInterfaceOperator =
  subdomainLocalInterfaces :: "int list list"
  globalInterfaceIndex :: "int list"
  size_acc :: int
  block_trueOffsets :: "int list"
  InterfaceToSurfaceInjection :: "InjectionOperator list list"
  tdofsBdry :: "int fset list"
  tdofsBdryInjection :: "SetInjectionOperator option list"
  Asd :: "Operator option list"
  invAsd :: "Operator option list"
  height :: int
  width :: int
  globalOp :: "Operator option"

subsection \<open>The loop over the interfaces (lines 454 to 487)\<close>

definition interface_index_step ::
  "DDM_args \<Rightarrow> int \<Rightarrow> DDMInterfaceOperator \<Rightarrow> error + DDMInterfaceOperator" where
  "interface_index_step a i d =
     bind_err (vec_get (interfaceLocalIndex a) i) (\<lambda>ifli.
     bind_err (vec_get (ifespace a) i) (\<lambda>ifs.
       if (ifli \<ge> 0) \<noteq> (ifs \<noteq> None) then Inl VerifyFailed
       else if ifli \<ge> 0 then
         bind_err (vec_get (localInterfaces a) ifli) (\<lambda>li.
         bind_err (vec_get (subdomainLocalInterfaces d) (FirstSubdomain li)) (\<lambda>l0.
         bind_err (vec_set (subdomainLocalInterfaces d) (FirstSubdomain li) (l0 @ [i])) (\<lambda>sli1.
         bind_err (vec_get sli1 (SecondSubdomain li)) (\<lambda>l1.
         bind_err (vec_set sli1 (SecondSubdomain li) (l1 @ [i])) (\<lambda>sli2.
         bind_err (vec_get (globalInterfaceIndex d) ifli) (\<lambda>g.
           if g = i \<or> g = - 1
           then bind_err (vec_set (globalInterfaceIndex d) ifli i) (\<lambda>gii.
                  Inr (d\<lparr>subdomainLocalInterfaces := sli2, globalInterfaceIndex := gii\<rparr>))
           else Inl VerifyFailed))))))
       else Inr d))"

subsection \<open>The first loop over the subdomains (lines 499 to 532)\<close>

text \<open>
  The body of the inner loop for interface \<open>interfaceIndex\<close> of subdomain \<open>m\<close>; \<open>injs\<close> is
  \<^verbatim>\<open>InterfaceToSurfaceInjection[m]\<close> as far as it is filled.  The two counts are added one
  after the other to \<^verbatim>\<open>size\<close> and to \<^verbatim>\<open>block_trueOffsets[m+1]\<close>, each sum an \<^verbatim>\<open>int\<close>.
\<close>

definition interface_setup ::
  "DDM_args \<Rightarrow> int \<Rightarrow> int \<Rightarrow> DDMInterfaceOperator \<times> InjectionOperator list
     \<Rightarrow> error + (DDMInterfaceOperator \<times> InjectionOperator list)" where
  "interface_setup a m interfaceIndex st =
     (case st of (d, injs) \<Rightarrow>
     bind_err (bind_err (vec_get (ifespace a) interfaceIndex) deref) (\<lambda>ifs.
     bind_err (bind_err (vec_get (iH1fespace a) interfaceIndex) deref) (\<lambda>h1s.
     bind_err (vec_get (block_trueOffsets d) (m + 1)) (\<lambda>off.
     bind_err (vec_set (block_trueOffsets d) (m + 1)
                 (int32 (int32 (off + GetTrueVSize ifs) + GetTrueVSize h1s))) (\<lambda>offs.
     bind_err (vec_get (interfaceLocalIndex a) interfaceIndex) (\<lambda>ifli.
       if ifli \<ge> 0 then
         bind_err (bind_err (vec_get (fespace a) m) deref) (\<lambda>fes.
         bind_err (vec_get (localInterfaces a) ifli) (\<lambda>li.
         bind_err (SetInterfaceToSurfaceDOFMap ifs fes (pmesh a) (m + 1) (faces li) (fecbdry a)) (\<lambda>data.
         bind_err (new_InjectionOperator (GetTrueVSize fes) ifs data) (\<lambda>inj.
           Inr (d\<lparr>size_acc := int32 (int32 (size_acc d + GetTrueVSize ifs) + GetTrueVSize h1s),
                   block_trueOffsets := offs\<rparr>, injs @ [inj])))))
       else Inl VerifyFailed))))))"

definition subdomain_interfaces_step ::
  "DDM_args \<Rightarrow> int \<Rightarrow> DDMInterfaceOperator \<Rightarrow> error + DDMInterfaceOperator" where
  "subdomain_interfaces_step a m d =
     bind_err (vec_get (subdomainLocalInterfaces d) m) (\<lambda>idxs.
     bind_err (fold_err (interface_setup a m) idxs (d, [])) (\<lambda>(d', injs).
       Inr (d'\<lparr>InterfaceToSurfaceInjection := InterfaceToSurfaceInjection d' @ [injs]\<rparr>)))"

subsection \<open>CreateSubdomainOperator\<close>

text \<open>The loop that enters the sizes of the interface blocks into \<^verbatim>\<open>trueOffsetsSD[subdomain]\<close>.\<close>

definition sd_offsets_step :: "DDM_args \<Rightarrow> nat \<times> int \<Rightarrow> int list \<Rightarrow> error + int list" where
  "sd_offsets_step a p offs =
     (case p of (i, interfaceIndex) \<Rightarrow>
     bind_err (vec_get (ifespace a) interfaceIndex) (\<lambda>ifs.
     bind_err (vec_get (iH1fespace a) interfaceIndex) (\<lambda>h1s.
       case ifs of None \<Rightarrow> Inl VerifyFailed | Some ifs' \<Rightarrow>
       (case h1s of None \<Rightarrow> Inl VerifyFailed | Some h1s' \<Rightarrow>
       bind_err (vec_get offs (int (2 * i + 2))) (\<lambda>o2.
       bind_err (vec_set offs (int (2 * i + 2)) (int32 (o2 + GetTrueVSize ifs'))) (\<lambda>offs2.
       bind_err (vec_get offs2 (int (2 * i + 3))) (\<lambda>o3.
       vec_set offs2 (int (2 * i + 3)) (int32 (o3 + GetTrueVSize h1s')))))))))"

text \<open>The six \<^verbatim>\<open>SetBlock\<close> calls for the \<open>i\<close>-th interface of the subdomain, in source order.\<close>

definition sd_blocks_step ::
  "DDM_args \<Rightarrow> InjectionOperator list \<Rightarrow> nat \<times> int \<Rightarrow> BlockOperator \<Rightarrow> error + BlockOperator" where
  "sd_blocks_step a injs p blk =
     (case p of (i, interfaceIndex) \<Rightarrow>
     bind_err (vec_get injs (int i)) (\<lambda>J.
     bind_err (SetBlock blk 0 (int (2 * i + 2))
                 (ProductOperator (Inj_as_Operator J) (ifNDH1grad a interfaceIndex)) (- gamma a)) (\<lambda>b1.
     bind_err (SetBlock b1 (int (2 * i + 1)) (int (2 * i + 2))
                 (ifNDH1grad a interfaceIndex) (gamma a / alpha a)) (\<lambda>b2.
     bind_err (SetBlock b2 (int (2 * i + 1)) 0
                 (ProductOperator
                    (SumOperator (ifNDmass a interfaceIndex) (ifNDcurlcurl a interfaceIndex) 1 (beta a / alpha a))
                    (TransposeOperator (Inj_as_Operator J))) 1) (\<lambda>b3.
     bind_err (SetBlock b3 (int (2 * i + 2)) (int (2 * i + 1))
                 (TransposeOperator (ifNDH1grad a interfaceIndex)) 1) (\<lambda>b4.
     bind_err (SetBlock b4 (int (2 * i + 1)) (int (2 * i + 1))
                 (ifNDmass a interfaceIndex) (1 / alpha a)) (\<lambda>b5.
     SetBlock b5 (int (2 * i + 2)) (int (2 * i + 2)) (ifH1mass a interfaceIndex) 1)))))))"

definition CreateSubdomainOperator ::
  "DDM_args \<Rightarrow> DDMInterfaceOperator \<Rightarrow> int \<Rightarrow> error + BlockOperator" where
  "CreateSubdomainOperator a d subdomain =
     bind_err (vec_get (subdomainLocalInterfaces d) subdomain) (\<lambda>idxs.
     bind_err (bind_err (vec_get (fespace a) subdomain) deref) (\<lambda>fes.
     let numBlocks = 2 * length idxs + 1;
         trueOffsetsSD = (replicate (numBlocks + 1) 0)[1 := GetTrueVSize fes]
     in
     bind_err (fold_err (sd_offsets_step a) (zip [0..<length idxs] idxs) trueOffsetsSD) (\<lambda>offs.
     bind_err (SetBlock (new_BlockOperator (PartialSum offs)) 0 0 (sdND a subdomain) 1) (\<lambda>blk.
     bind_err (vec_get (InterfaceToSurfaceInjection d) subdomain) (\<lambda>injs.
       fold_err (sd_blocks_step a injs) (zip [0..<length idxs] idxs) blk)))))"

subsection \<open>The second loop over the subdomains (lines 540 to 575)\<close>

definition subdomain_setup ::
  "DDM_args \<Rightarrow> int \<Rightarrow> DDMInterfaceOperator \<Rightarrow> error + DDMInterfaceOperator" where
  "subdomain_setup a m d =
     bind_err (vec_get (fespace a) m) (\<lambda>f.
       case f of
         None \<Rightarrow> Inr (d\<lparr>tdofsBdry := tdofsBdry d @ [{||}],
                        tdofsBdryInjection := tdofsBdryInjection d @ [None],
                        Asd := Asd d @ [None], invAsd := invAsd d @ [None]\<rparr>)
       | Some fes \<Rightarrow>
           (let tdofs = FindBoundaryTrueDOFs fes {||} in
            bind_err (vec_get (block_trueOffsets d) (m + 1)) (\<lambda>off.
            bind_err (vec_set (block_trueOffsets d) (m + 1) (int32 (off + int (fcard tdofs)))) (\<lambda>offs.
            bind_err (new_SetInjectionOperator (GetTrueVSize fes) tdofs) (\<lambda>S.
            bind_err (CreateSubdomainOperator a d m) (\<lambda>A.
              Inr (d\<lparr>size_acc := int32 (size_acc d + int (fcard tdofs)),
                      block_trueOffsets := offs,
                      tdofsBdry := tdofsBdry d @ [tdofs],
                      tdofsBdryInjection := tdofsBdryInjection d @ [Some S],
                      Asd := Asd d @ [Some (Block_as_Operator A)],
                      invAsd := invAsd d @ [Some (GMRESSolver a m (Block_as_Operator A))]\<rparr>)))))))"

subsection \<open>The global operator (lines 577 to 659)\<close>

text \<open>\<^verbatim>\<open>height = size; width = size; block_trueOffsets.PartialSum(); MFEM_VERIFY(block_trueOffsets.Last() == size, "");\<close>\<close>

definition finish_offsets :: "DDMInterfaceOperator \<Rightarrow> error + DDMInterfaceOperator" where
  "finish_offsets d =
     (let offs = PartialSum (block_trueOffsets d)
      in if last offs = size_acc d
         then Inr (d\<lparr>height := size_acc d, width := size_acc d, block_trueOffsets := offs\<rparr>)
         else Inl VerifyFailed)"

subsection \<open>CreateCij (lines 789 to 892)\<close>

text \<open>
  The coupling operator of a local interface on the interface spaces: two block rows
  (\<open>u\<^sup>s\<close>, \<open>f\<close>) and three block columns (\<open>u\<^sup>s\<close>, \<open>f\<close>, \<open>\<rho>\<close>).  The subdomains \<^verbatim>\<open>sd0\<close> and \<^verbatim>\<open>sd1\<close> are
  read off the interface and not used.
\<close>

definition CreateCij :: "DDM_args \<Rightarrow> DDMInterfaceOperator \<Rightarrow> int \<Rightarrow> int \<Rightarrow> error + BlockOperator" where
  "CreateCij a d localInterfaceIndex orientation =
     bind_err (vec_get (localInterfaces a) localInterfaceIndex) (\<lambda>li.
     bind_err (vec_get (globalInterfaceIndex d) localInterfaceIndex) (\<lambda>interfaceIndex.
     bind_err (bind_err (vec_get (ifespace a) interfaceIndex) deref) (\<lambda>ifs.
     bind_err (bind_err (vec_get (iH1fespace a) interfaceIndex) deref) (\<lambda>h1s.
     let rowTrueOffsetsIF = PartialSum [0, GetTrueVSize ifs, GetTrueVSize ifs];
         colTrueOffsetsIF = PartialSum [0, GetTrueVSize ifs, GetTrueVSize ifs, GetTrueVSize h1s]
     in
     bind_err (SetBlock (new_BlockOperator2 rowTrueOffsetsIF colTrueOffsetsIF) 0 0
                 (SumOperator (ifNDmass a interfaceIndex) (ifNDcurlcurl a interfaceIndex) (alpha a) (beta a))
                 1) (\<lambda>b1.
     bind_err (SetBlock b1 0 1 (ifNDmass a interfaceIndex) (- 1)) (\<lambda>b2.
     bind_err (SetBlock b2 0 2 (ifNDH1grad a interfaceIndex) (- gamma a)) (\<lambda>b3.
     bind_err (SetBlock b3 1 0
                 (SumOperator (ifNDmass a interfaceIndex) (ifNDcurlcurl a interfaceIndex)
                    (- 1) (- beta a / alpha a)) 1) (\<lambda>b4.
     bind_err (SetBlock b4 1 1 (ifNDmass a interfaceIndex) (1 / alpha a)) (\<lambda>b5.
     SetBlock b5 1 2 (ifNDH1grad a interfaceIndex) (gamma a / alpha a))))))))))"

subsection \<open>CreateInterfaceOperator (lines 896 to 1057)\<close>

text \<open>
  The body of the loop over the interfaces of a subdomain that finds the position
  \<^verbatim>\<open>sdif\<close> of the interface \<open>interfaceIndex\<close> among them, the sum \<^verbatim>\<open>sdos\<close> of the sizes of the
  interfaces before it and the sum \<^verbatim>\<open>sdosComp\<close> of the sizes from it on.  The state is
  \<open>(sdif, sdos, sdosComp)\<close>; \<open>p\<close> is the loop index with the interface at that index.
\<close>

definition interface_offset_step ::
  "DDM_args \<Rightarrow> int \<Rightarrow> nat \<times> int \<Rightarrow> int \<times> int \<times> int \<Rightarrow> error + (int \<times> int \<times> int)" where
  "interface_offset_step a interfaceIndex p st =
     (case p of (i, idx) \<Rightarrow>
     (case st of (sdif, sdos, sdosComp) \<Rightarrow>
     bind_err (if idx = interfaceIndex
               then (if sdif = - 1 then Inr (int i) else Inl VerifyFailed)
               else Inr sdif) (\<lambda>sdif'.
     bind_err (bind_err (vec_get (ifespace a) idx) deref) (\<lambda>ifs.
     bind_err (bind_err (vec_get (iH1fespace a) idx) deref) (\<lambda>h1s.
       if sdif' = - 1
       then Inr (sdif', int32 (sdos + int32 (GetTrueVSize ifs + GetTrueVSize h1s)), sdosComp)
       else Inr (sdif', sdos, int32 (sdosComp + int32 (GetTrueVSize ifs + GetTrueVSize h1s))))))))"

text \<open>
  The operator \<open>C\<^sub>s\<^sub>d\<^sub>0\<^sub>,\<^sub>s\<^sub>d\<^sub>1 R\<^sub>s\<^sub>d\<^sub>1\<^sup>T\<close> of a local interface in the block spaces of the two
  subdomains: \<^verbatim>\<open>Cij\<close> between the injections of the interface space into the two subdomain
  surfaces (\<^verbatim>\<open>leftInjection\<close>, \<^verbatim>\<open>rightInjection\<close>), between the block injections that place
  the interface among the interfaces of each subdomain (\<^verbatim>\<open>blockInjectionLeft\<close>,
  \<^verbatim>\<open>blockInjectionRight\<close>).
\<close>

definition CreateInterfaceOperator ::
  "DDM_args \<Rightarrow> DDMInterfaceOperator \<Rightarrow> int \<Rightarrow> int \<Rightarrow> error + Operator" where
  "CreateInterfaceOperator a d localInterfaceIndex orientation =
     bind_err (vec_get (localInterfaces a) localInterfaceIndex) (\<lambda>li.
     let sd0 = (if orientation = 0 then FirstSubdomain li else SecondSubdomain li);
         sd1 = (if orientation = 0 then SecondSubdomain li else FirstSubdomain li)
     in
     bind_err (vec_get (globalInterfaceIndex d) localInterfaceIndex) (\<lambda>interfaceIndex.
     bind_err (vec_get (ifespace a) interfaceIndex) (\<lambda>ifs0.
     bind_err (vec_get (iH1fespace a) interfaceIndex) (\<lambda>h1s0.
       case ifs0 of None \<Rightarrow> Inl VerifyFailed | Some ifs \<Rightarrow>
       (case h1s0 of None \<Rightarrow> Inl VerifyFailed | Some h1s \<Rightarrow>
     let tv = GetTrueVSize ifs; h1 = GetTrueVSize h1s in
     bind_err (vec_get (subdomainLocalInterfaces d) sd0) (\<lambda>idxs0.
     bind_err (fold_err (interface_offset_step a interfaceIndex) (zip [0..<length idxs0] idxs0)
                 (- 1, 0, 0)) (\<lambda>(sd0if, sd0os, sd0osComp0).
     bind_err (vec_get (subdomainLocalInterfaces d) sd1) (\<lambda>idxs1.
     bind_err (fold_err (interface_offset_step a interfaceIndex) (zip [0..<length idxs1] idxs1)
                 (- 1, 0, 0)) (\<lambda>(sd1if, sd1os, sd1osComp0).
       if \<not> sd0if \<ge> 0 then Inl VerifyFailed
       else if \<not> sd1if \<ge> 0 then Inl VerifyFailed
       else
     let sd0osComp = int32 (sd0osComp0 - tv);
         sd1osComp = int32 (sd1osComp0 - int32 (tv + h1))
     in
     bind_err (CreateCij a d localInterfaceIndex orientation) (\<lambda>Cij.
     bind_err (vec_get (tdofsBdry d) sd1) (\<lambda>tdofs1.
     let rowTrueOffsetsIFR = PartialSum [0, tv, int32 (tv + h1)];
         colTrueOffsetsIFR = PartialSum [0, int32 (int (fcard tdofs1)), int32 (tv + h1)]
     in
     bind_err (vec_get (InterfaceToSurfaceInjection d) sd1) (\<lambda>injs1.
     bind_err (vec_get injs1 sd1if) (\<lambda>J1.
     bind_err (vec_get (tdofsBdryInjection d) sd1) (\<lambda>S1p.
     bind_err (deref S1p) (\<lambda>S1.
     bind_err (SetBlock (new_BlockOperator2 rowTrueOffsetsIFR colTrueOffsetsIFR) 0 0
                 (ProductOperator (TransposeOperator (Inj_as_Operator J1)) (Set_as_Operator S1)) 1) (\<lambda>r1.
     bind_err (SetBlock r1 1 1 (IdentityOperator (int32 (tv + h1))) 1) (\<lambda>rightInjection.
     bind_err (vec_get (tdofsBdry d) sd0) (\<lambda>tdofs0.
     let rowTrueOffsetsIFL = PartialSum [0, int32 (int (fcard tdofs0)), tv];
         colTrueOffsetsIFL = PartialSum [0, tv, tv]
     in
     bind_err (vec_get (tdofsBdryInjection d) sd0) (\<lambda>S0p.
     bind_err (vec_get (InterfaceToSurfaceInjection d) sd0) (\<lambda>injs0.
     bind_err (vec_get injs0 sd0if) (\<lambda>J0.
     bind_err (deref S0p) (\<lambda>S0.
     bind_err (SetBlock (new_BlockOperator2 rowTrueOffsetsIFL colTrueOffsetsIFL) 0 0
                 (ProductOperator (TransposeOperator (Set_as_Operator S0)) (Inj_as_Operator J0)) 1) (\<lambda>l1.
     bind_err (SetBlock l1 1 1 (IdentityOperator tv) 1) (\<lambda>leftInjection.
     let CijS = TripleProductOperator (Block_as_Operator leftInjection) (Block_as_Operator Cij)
                  (Block_as_Operator rightInjection);
         rowTrueOffsetsIFBL = PartialSum [0, int32 (int (fcard tdofs0)), sd0os, tv, sd0osComp];
         colTrueOffsetsIFBL = PartialSum [0, int32 (int (fcard tdofs0)), tv]
     in
     bind_err (SetBlock (new_BlockOperator2 rowTrueOffsetsIFBL colTrueOffsetsIFBL) 0 0
                 (IdentityOperator (int32 (int (fcard tdofs0)))) 1) (\<lambda>bl1.
     bind_err (SetBlock bl1 2 1 (IdentityOperator tv) 1) (\<lambda>blockInjectionLeft.
     let rowTrueOffsetsIFBR = PartialSum [0, int32 (int (fcard tdofs1)), int32 (tv + h1)];
         colTrueOffsetsIFBR = PartialSum [0, int32 (int (fcard tdofs1)), sd1os, int32 (tv + h1), sd1osComp]
     in
     bind_err (SetBlock (new_BlockOperator2 rowTrueOffsetsIFBR colTrueOffsetsIFBR) 0 0
                 (IdentityOperator (int32 (int (fcard tdofs1)))) 1) (\<lambda>br1.
     bind_err (SetBlock br1 1 2 (IdentityOperator (int32 (tv + h1))) 1) (\<lambda>blockInjectionRight.
       Inr (TripleProductOperator (Block_as_Operator blockInjectionLeft) CijS
              (Block_as_Operator blockInjectionRight))))))))))))))))))))))))))))))"

subsection \<open>The global operator: the coupling blocks\<close>

text \<open>The two coupling blocks of local interface \<open>ili\<close> (lines 600 to 610).\<close>

definition globalInterfaceOp_step ::
  "DDM_args \<Rightarrow> DDMInterfaceOperator \<Rightarrow> int \<Rightarrow> BlockOperator \<Rightarrow> error + BlockOperator" where
  "globalInterfaceOp_step a d ili blk =
     bind_err (vec_get (localInterfaces a) ili) (\<lambda>li.
       let sd0 = FirstSubdomain li; sd1 = SecondSubdomain li in
       if sd0 < sd1 then
         bind_err (CreateInterfaceOperator a d ili 0) (\<lambda>C01.
         bind_err (SetBlock blk sd0 sd1 C01 1) (\<lambda>b1.
         bind_err (CreateInterfaceOperator a d ili 1) (\<lambda>C10.
         SetBlock b1 sd1 sd0 C10 1)))
       else Inl VerifyFailed)"

definition ifsize_step :: "DDM_args \<Rightarrow> int \<Rightarrow> int \<Rightarrow> error + int" where
  "ifsize_step a interfaceIndex ifsize =
     bind_err (vec_get (ifespace a) interfaceIndex) (\<lambda>ifs.
     bind_err (vec_get (iH1fespace a) interfaceIndex) (\<lambda>h1s.
       case ifs of None \<Rightarrow> Inl VerifyFailed | Some ifs' \<Rightarrow>
       (case h1s of None \<Rightarrow> Inl VerifyFailed | Some h1s' \<Rightarrow>
          Inr (int32 (ifsize + int32 (GetTrueVSize ifs' + GetTrueVSize h1s'))))))"

text \<open>
  The block injection \<open>inj\<close> from the \<open>(u\<^sup>s, f, \<rho>)\<close> space of subdomain \<open>m\<close> to its
  \<open>(u, f, \<rho>)\<close> space: \<^verbatim>\<open>tdofsBdryInjection[m]\<close> on the first block, the identity on the second.
\<close>

definition subdomain_inj :: "DDM_args \<Rightarrow> DDMInterfaceOperator \<Rightarrow> int \<Rightarrow> error + BlockOperator" where
  "subdomain_inj a d m =
     bind_err (bind_err (vec_get (fespace a) m) deref) (\<lambda>fes.
     bind_err (vec_get (subdomainLocalInterfaces d) m) (\<lambda>idxs.
     bind_err (fold_err (ifsize_step a) idxs 0) (\<lambda>ifsize.
     bind_err (vec_get (tdofsBdry d) m) (\<lambda>tdofs.
     let rowTrueOffsetsSD = PartialSum [0, GetTrueVSize fes, ifsize];
         colTrueOffsetsSD = PartialSum [0, int32 (int (fcard tdofs)), ifsize]
     in
     bind_err (bind_err (vec_get (tdofsBdryInjection d) m) deref) (\<lambda>S.
     bind_err (SetBlock (new_BlockOperator2 rowTrueOffsetsSD colTrueOffsetsSD) 0 0 (Set_as_Operator S) 1) (\<lambda>b1.
     SetBlock b1 1 1 (IdentityOperator ifsize) 1))))))"

definition globalSubdomainOp_step ::
  "DDM_args \<Rightarrow> DDMInterfaceOperator \<Rightarrow> int \<Rightarrow> BlockOperator \<Rightarrow> error + BlockOperator" where
  "globalSubdomainOp_step a d m blk =
     bind_err (vec_get (Asd d) m) (\<lambda>A.
       case A of
         None \<Rightarrow> Inr blk
       | Some A' \<Rightarrow>
           bind_err (subdomain_inj a d m) (\<lambda>inj.
           bind_err (bind_err (vec_get (invAsd d) m) deref) (\<lambda>inv.
             SetBlock blk m m
               (TripleProductOperator (TransposeOperator (Block_as_Operator inj)) inv (Block_as_Operator inj))
               1)))"

definition new_globalInterfaceOp :: "DDM_args \<Rightarrow> DDMInterfaceOperator \<Rightarrow> error + BlockOperator" where
  "new_globalInterfaceOp a d =
     fold_err (globalInterfaceOp_step a d) [0..int (length (localInterfaces a)) - 1]
       (new_BlockOperator (block_trueOffsets d))"

definition new_globalSubdomainOp :: "DDM_args \<Rightarrow> DDMInterfaceOperator \<Rightarrow> error + BlockOperator" where
  "new_globalSubdomainOp a d =
     fold_err (globalSubdomainOp_step a d) [0..numSubdomains a - 1]
       (new_BlockOperator (block_trueOffsets d))"

definition new_globalOp :: "DDM_args \<Rightarrow> DDMInterfaceOperator \<Rightarrow> error + DDMInterfaceOperator" where
  "new_globalOp a d =
     bind_err (new_globalInterfaceOp a d) (\<lambda>globalInterfaceOp.
     bind_err (new_globalSubdomainOp a d) (\<lambda>globalSubdomainOp.
       Inr (d\<lparr>globalOp := Some
         (SumOperator
            (ProductOperator (Block_as_Operator globalSubdomainOp) (Block_as_Operator globalInterfaceOp))
            (IdentityOperator (size_acc d)) 1 1)\<rparr>)))"

subsection \<open>The constructor and \<open>Mult\<close>\<close>

text \<open>The members before the first loop: sized and cleared containers.\<close>

definition initial_members :: "DDM_args \<Rightarrow> DDMInterfaceOperator" where
  "initial_members a =
     \<lparr>subdomainLocalInterfaces = replicate (nat (numSubdomains a)) [],
      globalInterfaceIndex = replicate (length (localInterfaces a)) (- 1),
      size_acc = 0,
      block_trueOffsets = replicate (nat (numSubdomains a + 1)) 0,
      InterfaceToSurfaceInjection = [],
      tdofsBdry = [], tdofsBdryInjection = [], Asd = [], invAsd = [],
      height = 0, width = 0, globalOp = None\<rparr>"

definition new_DDMInterfaceOperator :: "DDM_args \<Rightarrow> error + DDMInterfaceOperator" where
  "new_DDMInterfaceOperator a =
     (if \<not> numSubdomains a > 0 then Inl VerifyFailed
      else if int (length (interfaceLocalIndex a)) \<noteq> numInterfaces a then Inl VerifyFailed
      else
        bind_err (fold_err (interface_index_step a) [0..numInterfaces a - 1] (initial_members a)) (\<lambda>d0.
        bind_err (fold_err (subdomain_interfaces_step a) [0..numSubdomains a - 1] d0) (\<lambda>d1.
        bind_err (fold_err (subdomain_setup a) [0..numSubdomains a - 1] d1) (\<lambda>d2.
        bind_err (finish_offsets d2) (new_globalOp a)))))"

definition DDMInterfaceOperator_Mult :: "DDMInterfaceOperator \<Rightarrow> Vector \<Rightarrow> error + Vector" where
  "DDMInterfaceOperator_Mult d x = bind_err (deref (globalOp d)) (\<lambda>g. Mult g x)"

section \<open>Concrete inputs\<close>

text \<open>
  A subdomain mesh of one tetrahedron (element 0) with the vertices \<open>(0,0,0)\<close>, \<open>(1,0,0)\<close>,
  \<open>(0,1,0)\<close> and \<open>(0,1,2\<^sup>-\<^sup>4\<^sup>4)\<close>: the last two are distinct but closer than the tolerance.
  Face \<open>f\<close> of the tetrahedron has the vertices \<open>sliver_faces ! f\<close>.
\<close>

definition sliver_faces :: "int list list" where
  "sliver_faces = [[0, 1, 2], [0, 1, 3], [0, 2, 3], [1, 2, 3]]"

definition sliver_vertices :: "Vertex list" where
  "sliver_vertices = [(0, 0, 0), (1, 0, 0), (0, 1, 0), (0, 1, 1 / 2 ^ 44)]"

definition sliverMesh :: ParMesh where
  "sliverMesh = \<lparr>GetNE = 1, GetNBE = 0, GetAttribute = (\<lambda>e. 1),
     GetElementFaces = (\<lambda>e. [0, 1, 2, 3]), GetElementVertices = (\<lambda>e. [0, 1, 2, 3]),
     GetElementEdges = (\<lambda>e. []), GetFaceVertices = (\<lambda>f. sliver_faces ! nat f),
     GetFaceEdges = (\<lambda>f. []), GetEdgeVertices = (\<lambda>e. []),
     GetVertex = (\<lambda>v. sliver_vertices ! nat v), GetFaceGeometryType = (\<lambda>f. TRIANGLE)\<rparr>"

text \<open>
  An interface mesh of one triangle (element 0) with the vertices \<open>(0,0,0)\<close>, \<open>(1,0,0)\<close>,
  \<open>(0,1,0)\<close>: geometrically it is face 0 of the tetrahedron above.  Its edges 0, 1, 2 join
  the vertices \<open>triangle_edges ! e\<close>.
\<close>

definition triangle_edges :: "int list list" where
  "triangle_edges = [[1, 2], [0, 1], [0, 2]]"

definition triangle_vertices :: "Vertex list" where
  "triangle_vertices = [(0, 0, 0), (1, 0, 0), (0, 1, 0)]"

definition triangleMesh :: ParMesh where
  "triangleMesh = \<lparr>GetNE = 1, GetNBE = 0, GetAttribute = (\<lambda>e. 1),
     GetElementFaces = (\<lambda>e. []), GetElementVertices = (\<lambda>e. [0, 1, 2]),
     GetElementEdges = (\<lambda>e. [0, 1, 2]), GetFaceVertices = (\<lambda>f. [0, 1, 2]),
     GetFaceEdges = (\<lambda>f. []), GetEdgeVertices = (\<lambda>e. triangle_edges ! nat e),
     GetVertex = (\<lambda>v. triangle_vertices ! nat v), GetFaceGeometryType = (\<lambda>f. TRIANGLE)\<rparr>"

text \<open>
  A finite element space of \<open>n\<close> full and \<open>n\<close> true DOFs on the triangle, whose expansion
  and reduction between the two are the identity.
\<close>

definition plainSpace :: "int \<Rightarrow> ParFiniteElementSpace" where
  "plainSpace n = \<lparr>GetParMesh = triangleMesh, GetVSize = n, GetTrueVSize = n,
     GetVertexDofs = (\<lambda>v. [v]), GetEdgeDofs = (\<lambda>e. []), GetFaceDofs = (\<lambda>f. []),
     GetBdrElementDofs = (\<lambda>b. []), GetLocalTDofNumber = (\<lambda>d. d), SetFromTrueDofs = (\<lambda>x. x), GetTrueDofs = (\<lambda>x. x)\<rparr>"

text \<open>
  A mesh of one tetrahedron (element 0, attribute 1) with the vertices \<open>(0,0,0)\<close>,
  \<open>(1,0,0)\<close>, \<open>(0,1,0)\<close>, \<open>(0,0,1)\<close>, six edges and four faces.  It serves as the
  unpartitioned mesh (subdomain attribute 1) and as the mesh of subdomain 0 (whose
  element 0 carries the attribute \<open>0 + 1\<close>, the index of the unpartitioned element plus
  one).  Face 0 is the interface.
\<close>

definition tet_vertices :: "Vertex list" where
  "tet_vertices = [(0, 0, 0), (1, 0, 0), (0, 1, 0), (0, 0, 1)]"

definition tet_edges :: "int list list" where
  "tet_edges = [[0, 1], [0, 2], [1, 2], [0, 3], [1, 3], [2, 3]]"

definition tet_face_edges :: "int list list" where
  "tet_face_edges = [[0, 1, 2], [0, 3, 4], [1, 3, 5], [2, 4, 5]]"

definition tetMesh :: ParMesh where
  "tetMesh = \<lparr>GetNE = 1, GetNBE = 4, GetAttribute = (\<lambda>e. 1),
     GetElementFaces = (\<lambda>e. [0, 1, 2, 3]), GetElementVertices = (\<lambda>e. [0, 1, 2, 3]),
     GetElementEdges = (\<lambda>e. [0, 1, 2, 3, 4, 5]), GetFaceVertices = (\<lambda>f. sliver_faces ! nat f),
     GetFaceEdges = (\<lambda>f. tet_face_edges ! nat f), GetEdgeVertices = (\<lambda>e. tet_edges ! nat e),
     GetVertex = (\<lambda>v. tet_vertices ! nat v), GetFaceGeometryType = (\<lambda>f. TRIANGLE)\<rparr>"

text \<open>
  Lowest-order edge element spaces: one DOF on each edge, none on vertices and faces.
  On the tetrahedron, DOF 1 is not a true DOF of this process; the true DOFs are
  numbered in the order of the other five.  On the triangle every DOF is a true DOF.
\<close>

definition nd_fec :: FiniteElementCollection where
  "nd_fec g = (if g = SEGMENT then 1 else 0)"

definition tetSpace :: ParFiniteElementSpace where
  "tetSpace = \<lparr>GetParMesh = tetMesh, GetVSize = 6, GetTrueVSize = 5,
     GetVertexDofs = (\<lambda>v. []), GetEdgeDofs = (\<lambda>e. [e]), GetFaceDofs = (\<lambda>f. []),
     GetBdrElementDofs = (\<lambda>b. tet_face_edges ! nat b), GetLocalTDofNumber = (\<lambda>d. if d = 0 then 0 else if d = 1 then - 1 else d - 1),
     SetFromTrueDofs = (\<lambda>x. x), GetTrueDofs = (\<lambda>x. x)\<rparr>"

definition triSpace :: ParFiniteElementSpace where
  "triSpace = \<lparr>GetParMesh = triangleMesh, GetVSize = 3, GetTrueVSize = 3,
     GetVertexDofs = (\<lambda>v. []), GetEdgeDofs = (\<lambda>e. [e]), GetFaceDofs = (\<lambda>f. []),
     GetBdrElementDofs = (\<lambda>b. []), GetLocalTDofNumber = (\<lambda>d. d), SetFromTrueDofs = (\<lambda>x. x), GetTrueDofs = (\<lambda>x. x)\<rparr>"

text \<open>
  The sliver tetrahedron with its edges: the vertices of the sliver above on the faces
  and edges of the tetrahedron, the faces of element 0 listed in the order 0, 2, 3, 1, and
  an edge element space on it all of whose DOFs are true DOFs.
\<close>

definition sliverTet :: ParMesh where
  "sliverTet = tetMesh\<lparr>GetElementFaces := (\<lambda>e. [0, 2, 3, 1]),
     GetVertex := (\<lambda>v. sliver_vertices ! nat v)\<rparr>"

definition sliverSpace :: ParFiniteElementSpace where
  "sliverSpace = \<lparr>GetParMesh = sliverTet, GetVSize = 6, GetTrueVSize = 6,
     GetVertexDofs = (\<lambda>v. []), GetEdgeDofs = (\<lambda>e. [e]), GetFaceDofs = (\<lambda>f. []),
     GetBdrElementDofs = (\<lambda>b. tet_face_edges ! nat b), GetLocalTDofNumber = (\<lambda>d. d),
     SetFromTrueDofs = (\<lambda>x. x), GetTrueDofs = (\<lambda>x. x)\<rparr>"

text \<open>
  Whether a later table keeps what an earlier one has mapped: the two have the same
  size, a mapped entry is unchanged, and an unmapped entry is still unmapped or holds a
  true-DOF number.
\<close>

definition dofmap_extends :: "int list \<Rightarrow> int list \<Rightarrow> bool" where
  "dofmap_extends dofmap dofmap' =
     (length dofmap' = length dofmap \<and>
      (\<forall>k\<in>{0..<length dofmap}.
         (dofmap ! k \<noteq> - 1 \<longrightarrow> dofmap' ! k = dofmap ! k) \<and>
         (dofmap ! k = - 1 \<longrightarrow> dofmap' ! k = - 1 \<or> dofmap' ! k \<ge> 0)))"

text \<open>
  A table agrees with the DOF pairs \<open>(ifdofs[d], sddofs[d])\<close> when the two lists are equally
  long and every interface DOF whose partner is a true DOF is mapped to the true-DOF
  number of the partner.  It agrees with the pairs matched for interface face \<open>i\<close> and
  the subdomain face \<open>sdMeshFace\<close> when it agrees with the DOFs of every pair of equal
  vertices, of every pair of matching edges and of the two faces, for the stages that
  the element collection enables.
\<close>

definition dofmap_agrees :: "ParFiniteElementSpace \<Rightarrow> int list \<Rightarrow> int list \<Rightarrow> int list \<Rightarrow> bool" where
  "dofmap_agrees fes ifdofs sddofs dofmap \<longleftrightarrow>
     length ifdofs = length sddofs \<and>
     (\<forall>d\<in>{0..<length ifdofs}. GetLocalTDofNumber fes (sddofs ! d) \<ge> 0 \<longrightarrow>
        0 \<le> ifdofs ! d \<and> nat (ifdofs ! d) < length dofmap \<and>
        dofmap ! nat (ifdofs ! d) = GetLocalTDofNumber fes (sddofs ! d))"

definition matched_pairs_agree ::
  "ParFiniteElementSpace \<Rightarrow> ParFiniteElementSpace \<Rightarrow> FiniteElementCollection \<Rightarrow> int \<Rightarrow> int
     \<Rightarrow> int list \<Rightarrow> bool" where
  "matched_pairs_agree ifes fes fec i sdMeshFace dofmap \<longleftrightarrow>
     (fec POINT > 0 \<longrightarrow>
        (\<forall>v\<in>set (GetFaceVertices (GetParMesh ifes) i).
         \<forall>w\<in>set (GetFaceVertices (GetParMesh fes) sdMeshFace).
           verticesEqual (GetVertex (GetParMesh ifes) v) (GetVertex (GetParMesh fes) w) vertexTol
           \<longrightarrow> dofmap_agrees fes (GetVertexDofs ifes v) (GetVertexDofs fes w) dofmap)) \<and>
     (fec SEGMENT > 0 \<longrightarrow>
        (\<forall>e\<in>set (GetElementEdges (GetParMesh ifes) i).
         \<forall>g\<in>set (GetFaceEdges (GetParMesh fes) sdMeshFace).
           edgesMatch (GetParMesh ifes) (GetParMesh fes)
             (GetEdgeVertices (GetParMesh ifes) e) (GetEdgeVertices (GetParMesh fes) g)
           \<longrightarrow> dofmap_agrees fes (GetEdgeDofs ifes e) (GetEdgeDofs fes g) dofmap)) \<and>
     (fec (GetFaceGeometryType (GetParMesh fes) 0) > 0 \<longrightarrow>
        dofmap_agrees fes (GetFaceDofs ifes i) (GetFaceDofs fes sdMeshFace) dofmap)"

text \<open>
  The edge element space of the triangle with one DOF shared by all three edges: the
  edge matching must map it to three different subdomain DOFs.
\<close>

definition conflictSpace :: ParFiniteElementSpace where
  "conflictSpace = triSpace\<lparr>GetEdgeDofs := (\<lambda>e. [0])\<rparr>"

text \<open>
  Two subdomains and one interface.  The unpartitioned mesh has two tetrahedra, element
  0 with attribute 1 and element 1 with attribute 2, which share face 0, the triangle.
  Subdomain 0 is the tetrahedron above; subdomain 1 is its mirror image (fourth vertex
  \<open>(0,0,-1)\<close>), whose single element carries the attribute \<open>1 + 1\<close>.  The matrices are
  identities of the right sizes, and the solver of a subdomain returns its right-hand
  side.  The block space of each subdomain has the size \<open>5 + 3 + 3\<close>.
\<close>

definition pmesh2 :: ParMesh where
  "pmesh2 = \<lparr>GetNE = 2, GetNBE = 0, GetAttribute = (\<lambda>e. e + 1),
     GetElementFaces = (\<lambda>e. if e = 0 then [0, 1, 2, 3] else [0, 4, 5, 6]),
     GetElementVertices = (\<lambda>e. if e = 0 then [0, 1, 2, 3] else [0, 1, 2, 4]),
     GetElementEdges = (\<lambda>e. []), GetFaceVertices = (\<lambda>f. []),
     GetFaceEdges = (\<lambda>f. []), GetEdgeVertices = (\<lambda>e. []),
     GetVertex = (\<lambda>v. (tet_vertices @ [(0, 0, - 1)]) ! nat v),
     GetFaceGeometryType = (\<lambda>f. TRIANGLE)\<rparr>"

definition tetMeshB :: ParMesh where
  "tetMeshB = tetMesh\<lparr>GetAttribute := (\<lambda>e. 2),
     GetVertex := (\<lambda>v. [(0, 0, 0), (1, 0, 0), (0, 1, 0), (0, 0, - 1)] ! nat v)\<rparr>"

definition tetSpaceB :: ParFiniteElementSpace where
  "tetSpaceB = tetSpace\<lparr>GetParMesh := tetMeshB\<rparr>"

definition triH1Space :: ParFiniteElementSpace where
  "triH1Space = \<lparr>GetParMesh = triangleMesh, GetVSize = 3, GetTrueVSize = 3,
     GetVertexDofs = (\<lambda>v. [v]), GetEdgeDofs = (\<lambda>e. []), GetFaceDofs = (\<lambda>f. []),
     GetBdrElementDofs = (\<lambda>b. []), GetLocalTDofNumber = (\<lambda>d. d),
     SetFromTrueDofs = (\<lambda>x. x), GetTrueDofs = (\<lambda>x. x)\<rparr>"

definition two_args :: DDM_args where
  "two_args = \<lparr>numSubdomains = 2, numInterfaces = 1, pmesh = pmesh2,
     fespace = [Some tetSpace, Some tetSpaceB],
     ifespace = [Some triSpace], iH1fespace = [Some triH1Space], fecbdry = nd_fec,
     localInterfaces = [\<lparr>FirstSubdomain = 0, SecondSubdomain = 1, faces = {|0|}\<rparr>],
     interfaceLocalIndex = [0],
     sdND = (\<lambda>m. IdentityOperator 5), ifNDmass = (\<lambda>i. IdentityOperator 3),
     ifNDcurlcurl = (\<lambda>i. IdentityOperator 3), ifNDH1grad = (\<lambda>i. IdentityOperator 3),
     ifH1mass = (\<lambda>i. IdentityOperator 3),
     GMRESSolver = (\<lambda>m A. IdentityOperator (Height A)),
     alpha = 1, beta = 1, gamma = 1\<rparr>"

text \<open>
  The members in this example after the loop over the interfaces (\<open>two_A\<close>) and after
  the first loop over the subdomains (\<open>two_B\<close>); both subdomains get the same table
  \<open>[1, 0, -1]\<close> for the interface, whose third DOF meets a DOF that is not a true DOF.
\<close>

definition two_A :: DDMInterfaceOperator where
  "two_A = (initial_members two_args)\<lparr>subdomainLocalInterfaces := [[0], [0]], globalInterfaceIndex := [0]\<rparr>"

definition two_J :: InjectionOperator where
  "two_J = \<lparr>inj_height = 5, inj_width = 3, inj_id = [1, 0, - 1], inj_space = triSpace, fullWidth = 3\<rparr>"

definition two_B :: DDMInterfaceOperator where
  "two_B = two_A\<lparr>size_acc := 12, block_trueOffsets := [0, 6, 6],
      InterfaceToSurfaceInjection := [[two_J], [two_J]]\<rparr>"

text \<open>The operator constructed in this example.\<close>

definition two_ddm :: DDMInterfaceOperator where
  "two_ddm = projr (new_DDMInterfaceOperator two_args)"



text \<open>The block positions written for the \<open>i\<close>-th interface of a subdomain.\<close>

definition sd_touched :: "nat \<Rightarrow> nat \<Rightarrow> nat \<Rightarrow> bool" where
  "sd_touched i r c \<longleftrightarrow>
     (r = 0 \<and> c = 2 * i + 2) \<or> (r = 2 * i + 1 \<and> c = 2 * i + 2) \<or> (r = 2 * i + 1 \<and> c = 0) \<or>
     (r = 2 * i + 2 \<and> c = 2 * i + 1) \<or> (r = 2 * i + 1 \<and> c = 2 * i + 1) \<or>
     (r = 2 * i + 2 \<and> c = 2 * i + 2)"

text \<open>
  The reading of the specification's contract for the face matcher: the two vertex
  sets coincide when every vertex of either face has a vertex of the other face within
  the tolerance in each of the three coordinates.
\<close>

definition spec_vertex_sets_coincide :: "Vertex list \<Rightarrow> Vertex list \<Rightarrow> real \<Rightarrow> bool" where
  "spec_vertex_sets_coincide vs ws tol =
     ((\<forall>v\<in>set vs. \<exists>w\<in>set ws. \<forall>k\<in>{0..<3}. \<bar>coord v k - coord w k\<bar> \<le> tol) \<and>
      (\<forall>w\<in>set ws. \<exists>v\<in>set vs. \<forall>k\<in>{0..<3}. \<bar>coord w k - coord v k\<bar> \<le> tol))"

section \<open>The index-set injection is a permutation embedding\<close>


lemma set_mult_loop_ok:
  "\<lbrakk>0 \<le> i; nat i + length its \<le> length x; \<forall>t\<in>set its. 0 \<le> t \<and> t < int (length y)\<rbrakk>
   \<Longrightarrow> \<exists>y'. set_mult_loop its i x y = Inr y' \<and> length y' = length y
        \<and> (\<forall>n < length y. (\<forall>t\<in>set its. nat t \<noteq> n) \<longrightarrow> y' ! n = y ! n)
        \<and> (distinct its \<longrightarrow> (\<forall>j < length its. y' ! nat (its ! j) = x ! (nat i + j)))"
proof (induction its arbitrary: i y)
  case Nil
  then show ?case by simp
next
  case (Cons t its)
  let ?y1 = "y[nat t := x ! nat i]"
  from Cons.prems have g: "vec_get x i = Inr (x ! nat i)" by (auto simp: vec_get_def)
  from Cons.prems have s: "vec_set y t (x ! nat i) = Inr ?y1" by (simp add: vec_set_def)
  have "\<exists>y'. set_mult_loop its (i + 1) x ?y1 = Inr y' \<and> length y' = length ?y1
        \<and> (\<forall>n < length ?y1. (\<forall>t\<in>set its. nat t \<noteq> n) \<longrightarrow> y' ! n = ?y1 ! n)
        \<and> (distinct its \<longrightarrow> (\<forall>j < length its. y' ! nat (its ! j) = x ! (nat (i + 1) + j)))"
    using Cons.prems by (intro Cons.IH) (auto simp: nat_add_distrib)
  then obtain y' where y': "set_mult_loop its (i + 1) x ?y1 = Inr y'" "length y' = length y"
     "\<forall>n < length y. (\<forall>t\<in>set its. nat t \<noteq> n) \<longrightarrow> y' ! n = ?y1 ! n"
     "distinct its \<longrightarrow> (\<forall>j < length its. y' ! nat (its ! j) = x ! (nat (i + 1) + j))"
    by auto
  have a: "set_mult_loop (t # its) i x y = Inr y'" using g s y'(1) by simp
  have b: "\<forall>n < length y. (\<forall>u\<in>set (t # its). nat u \<noteq> n) \<longrightarrow> y' ! n = y ! n"
    using y'(3) by auto
  have c: "distinct (t # its) \<longrightarrow> (\<forall>j < length (t # its). y' ! nat ((t # its) ! j) = x ! (nat i + j))"
  proof (intro impI allI)
    fix j assume d: "distinct (t # its)" and j: "j < length (t # its)"
    show "y' ! nat ((t # its) ! j) = x ! (nat i + j)"
    proof (cases j)
      case 0
      have "\<forall>u\<in>set its. nat u \<noteq> nat t" using d Cons.prems(3) by (auto simp: nat_eq_iff)
      moreover have tl: "nat t < length y" using Cons.prems(3) by auto
      ultimately have "y' ! nat t = ?y1 ! nat t" using y'(3) by auto
      then show ?thesis using 0 tl by simp
    next
      case (Suc k)
      then show ?thesis using y'(4) d j Cons.prems(1) by (simp add: nat_add_distrib)
    qed
  qed
  show ?case using a b c y'(2) by blast
qed


lemma set_multT_loop_ok:
  "\<lbrakk>0 \<le> i; nat i + length its \<le> length y; \<forall>t\<in>set its. 0 \<le> t \<and> t < int (length x)\<rbrakk>
   \<Longrightarrow> \<exists>y'. set_multT_loop its i x y = Inr y' \<and> length y' = length y
        \<and> (\<forall>n < nat i. y' ! n = y ! n)
        \<and> (\<forall>j < length its. y' ! (nat i + j) = x ! nat (its ! j))"
proof (induction its arbitrary: i y)
  case Nil
  then show ?case by simp
next
  case (Cons t its)
  let ?y1 = "y[nat i := x ! nat t]"
  from Cons.prems have g: "vec_get x t = Inr (x ! nat t)" by (auto simp: vec_get_def)
  from Cons.prems have s: "vec_set y i (x ! nat t) = Inr ?y1" by (auto simp: vec_set_def)
  have "\<exists>y'. set_multT_loop its (i + 1) x ?y1 = Inr y' \<and> length y' = length ?y1
        \<and> (\<forall>n < nat (i + 1). y' ! n = ?y1 ! n)
        \<and> (\<forall>j < length its. y' ! (nat (i + 1) + j) = x ! nat (its ! j))"
    using Cons.prems by (intro Cons.IH) (auto simp: nat_add_distrib)
  then obtain y' where y': "set_multT_loop its (i + 1) x ?y1 = Inr y'" "length y' = length y"
     "\<forall>n < nat (i + 1). y' ! n = ?y1 ! n"
     "\<forall>j < length its. y' ! (nat (i + 1) + j) = x ! nat (its ! j)"
    by auto
  have a: "set_multT_loop (t # its) i x y = Inr y'" using g s y'(1) by simp
  have b: "\<forall>n < nat i. y' ! n = y ! n"
    using y'(3) Cons.prems(1) by (auto simp: nat_add_distrib)
  have il: "nat i < length y" using Cons.prems(2) by simp
  have c: "\<forall>j < length (t # its). y' ! (nat i + j) = x ! nat ((t # its) ! j)"
  proof (intro impI allI)
    fix j assume j: "j < length (t # its)"
    show "y' ! (nat i + j) = x ! nat ((t # its) ! j)"
    proof (cases j)
      case 0
      have "y' ! nat i = ?y1 ! nat i" using y'(3) Cons.prems(1) by (auto simp: nat_add_distrib)
      then show ?thesis using 0 il by simp
    next
      case (Suc k)
      then show ?thesis using y'(4) j Cons.prems(1) by (simp add: nat_add_distrib)
    qed
  qed
  show ?case using a b c y'(2) by blast
qed

lemma sorted_list_of_fset_distinct: "distinct (sorted_list_of_fset S)"
  by (simp add: sorted_list_of_fset.rep_eq)

lemma sorted_list_of_fset_length: "length (sorted_list_of_fset S) = fcard S"
  by (simp add: sorted_list_of_fset.rep_eq fcard.rep_eq)

lemma fcard_le_height:
  assumes "0 \<le> hgt" "\<forall>i \<in> fset a. 0 \<le> i \<and> i < hgt"
  shows "int (fcard a) \<le> hgt"
proof -
  have "fset a \<subseteq> {0..<hgt}" using assms by auto
  then have "card (fset a) \<le> card {0..<hgt}" by (intro card_mono) auto
  then show ?thesis using assms(1) by (simp add: fcard.rep_eq)
qed

lemma SetInjection_roundtrip:
  assumes r: "\<forall>i \<in> fset a. 0 \<le> i \<and> i < int (length y)"
      and x: "length x = fcard a" and z: "length z = fcard a"
      and o: "set_id opr = a"
  shows "\<exists>ya. SetInjectionOperator_Mult opr x y = Inr ya \<and> length ya = length y
            \<and> SetInjectionOperator_MultTranspose opr ya z = Inr x"
proof -
  let ?its = "sorted_list_of_fset a"
  have l: "length ?its = fcard a" by (rule sorted_list_of_fset_length)
  have d: "distinct ?its" by (rule sorted_list_of_fset_distinct)
  have r': "\<forall>t\<in>set ?its. 0 \<le> t \<and> t < int (length (replicate (length y) (0::real)))"
    using r by simp
  have "\<exists>y'. set_mult_loop ?its 0 x (replicate (length y) 0) = Inr y'
        \<and> length y' = length (replicate (length y) (0::real))
        \<and> (\<forall>n < length (replicate (length y) (0::real)). (\<forall>t\<in>set ?its. nat t \<noteq> n) \<longrightarrow> y' ! n = replicate (length y) 0 ! n)
        \<and> (distinct ?its \<longrightarrow> (\<forall>j < length ?its. y' ! nat (?its ! j) = x ! (nat 0 + j)))"
    using r' x l by (intro set_mult_loop_ok) auto
  then obtain ya where ya: "set_mult_loop ?its 0 x (replicate (length y) 0) = Inr ya"
      "length ya = length y" "\<forall>j < length ?its. ya ! nat (?its ! j) = x ! j"
    using d by auto
  have r2: "\<forall>t\<in>set ?its. 0 \<le> t \<and> t < int (length ya)" using r ya(2) by simp
  have "\<exists>y'. set_multT_loop ?its 0 ya z = Inr y' \<and> length y' = length z
        \<and> (\<forall>n < nat 0. y' ! n = z ! n)
        \<and> (\<forall>j < length ?its. y' ! (nat 0 + j) = ya ! nat (?its ! j))"
    using r2 z l by (intro set_multT_loop_ok) auto
  then obtain za where za: "set_multT_loop ?its 0 ya z = Inr za" "length za = length z"
      "\<forall>j < length ?its. za ! j = ya ! nat (?its ! j)"
    by auto
  have "za = x"
    using za(2,3) ya(3) x z l by (intro nth_equalityI) auto
  then show ?thesis
    using ya(1,2) za(1) o by (simp add: SetInjectionOperator_Mult_def SetInjectionOperator_MultTranspose_def)
qed

text \<open>
  Claim C7.  Let \<open>a\<close> be a set of \<open>k\<close> distinct indices of the ambient space, each in
  \<open>[0, hgt)\<close>.  Then the operator can be constructed, and for every compact vector
  \<open>x\<close> of length \<open>k\<close> (and output buffers \<open>y\<close> of the ambient and \<open>z\<close> of the compact
  size) \<open>Mult\<close> succeeds, \<open>MultTranspose\<close> applied to its result returns \<open>x\<close>, and
  every other compact vector \<open>x'\<close> has a different image under \<open>Mult\<close>.
\<close>

theorem SetInjectionOperator_permutation_embedding:
  assumes h: "0 \<le> hgt" and r: "\<forall>i \<in> fset a. 0 \<le> i \<and> i < hgt"
      and x: "length x = fcard a" and y: "length y = nat hgt" and z: "length z = fcard a"
  shows "\<exists>opr ya. new_SetInjectionOperator hgt a = Inr opr
           \<and> SetInjectionOperator_Mult opr x y = Inr ya
           \<and> SetInjectionOperator_MultTranspose opr ya z = Inr x
           \<and> (\<forall>x'. length x' = fcard a \<and> x' \<noteq> x
                 \<longrightarrow> SetInjectionOperator_Mult opr x' y \<noteq> SetInjectionOperator_Mult opr x y)"
proof -
  let ?opr = "\<lparr>set_height = hgt, set_width = int (fcard a), set_id = a\<rparr>"
  have c: "new_SetInjectionOperator hgt a = Inr ?opr"
    using fcard_le_height[OF h r] by (simp add: new_SetInjectionOperator_def)
  have r': "\<forall>i \<in> fset a. 0 \<le> i \<and> i < int (length y)" using r y by auto
  obtain ya where ya: "SetInjectionOperator_Mult ?opr x y = Inr ya"
      "SetInjectionOperator_MultTranspose ?opr ya z = Inr x"
    using SetInjection_roundtrip[OF r' x z, of ?opr] by auto
  have "SetInjectionOperator_Mult ?opr x' y \<noteq> SetInjectionOperator_Mult ?opr x y"
    if lx: "length x' = fcard a" and ne: "x' \<noteq> x" for x'
  proof
    assume e: "SetInjectionOperator_Mult ?opr x' y = SetInjectionOperator_Mult ?opr x y"
    obtain yb where yb: "SetInjectionOperator_Mult ?opr x' y = Inr yb"
      "SetInjectionOperator_MultTranspose ?opr yb z = Inr x'"
      using SetInjection_roundtrip[OF r' lx z, of ?opr] by auto
    from e ya(1) yb(1) have "yb = ya" by simp
    with ya(2) yb(2) have "x' = x" by simp
    with ne show False by simp
  qed
  with c ya show ?thesis by blast
qed

theorem SetInjectionOperator_permutation_embedding_witness:
  "\<exists>opr ya. new_SetInjectionOperator 4 {|3, 1|} = Inr opr
           \<and> SetInjectionOperator_Mult opr [5, 7] [9, 9, 9, 9] = Inr ya
           \<and> SetInjectionOperator_MultTranspose opr ya [8, 8] = Inr [5, 7]
           \<and> (\<forall>x'. length x' = fcard {|3, 1::int|} \<and> x' \<noteq> [5, 7]
                 \<longrightarrow> SetInjectionOperator_Mult opr x' [9, 9, 9, 9] \<noteq> SetInjectionOperator_Mult opr [5, 7] [9, 9, 9, 9])"
  using SetInjectionOperator_permutation_embedding[where a = "{|3, 1|}" and hgt = 4 and x = "[5, 7]"
          and y = "[9, 9, 9, 9]" and z = "[8, 8]"]
  by (simp add: fcard.rep_eq)

section \<open>Rounded differences and the tolerance\<close>

lemma rhe_bounds: "\<lfloor>q\<rfloor> \<le> round_half_even q" "round_half_even q \<le> \<lfloor>q\<rfloor> + 1"
  by (simp_all add: round_half_even_def Let_def)

lemma rhe_threshold_odd:
  assumes "odd m"
  shows "round_half_even q \<ge> m + 1 \<longleftrightarrow> q \<ge> of_int m + 1 / 2"
proof -
  let ?n = "\<lfloor>q\<rfloor>"
  have f: "of_int ?n \<le> q" "q < of_int ?n + 1" by linarith+
  consider "?n \<ge> m + 1" | "?n = m" | "?n \<le> m - 1" by linarith
  then show ?thesis
  proof cases
    case 1
    then have "of_int m + 1 \<le> (of_int ?n :: real)" by (metis of_int_1 of_int_add of_int_le_iff)
    with 1 f rhe_bounds(1)[of q] show ?thesis by linarith
  next
    case 2
    with assms show ?thesis by (auto simp: round_half_even_def Let_def)
  next
    case 3
    then have "(of_int ?n :: real) \<le> of_int m - 1" by (metis of_int_1 of_int_diff of_int_le_iff)
    with 3 f rhe_bounds(2)[of q] show ?thesis by linarith
  qed
qed

lemma log_floor_bounds:
  assumes "0 < a"
  shows "2 powr of_int \<lfloor>log 2 a\<rfloor> \<le> a" "a < 2 powr (of_int \<lfloor>log 2 a\<rfloor> + 1)"
proof -
  have "of_int \<lfloor>log 2 a\<rfloor> \<le> log 2 a" "log 2 a < of_int \<lfloor>log 2 a\<rfloor> + 1" by linarith+
  then show "2 powr of_int \<lfloor>log 2 a\<rfloor> \<le> a" "a < 2 powr (of_int \<lfloor>log 2 a\<rfloor> + 1)"
    using assms by (simp_all add: le_log_iff powr_le_iff less_powr_iff log_less_iff)
qed


lemma vertexTol_bounds:
  "0 < vertexTol" "2 powr (- 40) \<le> vertexTol" "vertexTol + 1 / 2 ^ 93 \<le> 2 powr (- 39)"
  "vertexTol < 2 powr (- 39)"
  by (simp_all add: vertexTol_def powr_minus powr_numeral divide_simps)

lemma round_double_exceeds_tol:
  "\<bar>round_double d\<bar> > vertexTol \<longleftrightarrow> \<bar>d\<bar> \<ge> vertexTol + 1 / 2 ^ 93"
proof (cases "d = 0")
  case True
  then show ?thesis using vertexTol_bounds(1) by (simp add: round_double_def)
next
  case False
  define a where "a = \<bar>d\<bar>"
  define E :: real where "E = of_int (max \<lfloor>log 2 a\<rfloor> (- 1022))"
  define u where "u = 2 powr (E - 52)"
  define n where "n = round_half_even (a / u)"
  have a: "0 < a" using False by (simp add: a_def)
  have u: "0 < u" by (simp add: u_def)
  have du: "double_ulp a = u" by (simp add: double_ulp_def u_def E_def)
  have q0: "0 \<le> a / u" using a u by simp
  then have fl0: "0 \<le> \<lfloor>a / u\<rfloor>" by simp
  from fl0 rhe_bounds(1)[of "a / u"] have n0: "0 \<le> n" unfolding n_def by linarith
  have "\<bar>sgn d\<bar> = 1" using False by (simp add: abs_sgn_eq)
  have rd: "round_double d = sgn d * of_int n * u"
    using False by (simp add: round_double_def a_def[symmetric] du n_def)
  have r: "\<bar>round_double d\<bar> = of_int n * u"
    unfolding rd using \<open>\<bar>sgn d\<bar> = 1\<close> n0 u by (simp add: abs_mult)
  note lb = log_floor_bounds[OF a]
  have "2 powr 52 * 2 powr (E - 52) = 2 powr (52 + (E - 52))" by (rule powr_add[symmetric])
  also have "52 + (E - 52) = E" by simp
  finally have p52: "2 powr 52 * u = 2 powr E" unfolding u_def .
  have "2 powr 53 * 2 powr (E - 52) = 2 powr (53 + (E - 52))" by (rule powr_add[symmetric])
  also have "53 + (E - 52) = E + 1" by simp
  finally have p53: "2 powr 53 * u = 2 powr (E + 1)" unfolding u_def .
  consider (big) "2 powr (- 39) \<le> a" | (mid) "2 powr (- 40) \<le> a" "a < 2 powr (- 39)"
    | (small) "a < 2 powr (- 40)"
    by linarith
  then show ?thesis
  proof cases
    case big
    then have "- 39 \<le> log 2 a" using a by (simp add: le_log_iff)
    then have L: "- 39 \<le> \<lfloor>log 2 a\<rfloor>" by (simp add: le_floor_iff)
    then have E: "E = of_int \<lfloor>log 2 a\<rfloor>" by (simp add: E_def max_def)
    have "- 39 \<le> E" using L unfolding E by (metis of_int_le_iff of_int_minus of_int_numeral)
    then have e39: "2 powr (- 39) \<le> 2 powr E" by simp
    have "2 powr 52 * u \<le> a" using lb(1) p52 E by simp
    then have "2 powr 52 \<le> a / u" using u by (simp add: pos_le_divide_eq)
    then have "(2 ^ 52 :: real) \<le> a / u" by simp
    then have "(2 ^ 52 :: int) \<le> \<lfloor>a / u\<rfloor>" by (simp add: le_floor_iff)
    with rhe_bounds(1)[of "a / u"] have "2 ^ 52 \<le> n" unfolding n_def by linarith
    then have "(2 ^ 52 :: real) \<le> of_int n" by (metis of_int_le_iff of_int_numeral of_int_power)
    then have "2 powr 52 * u \<le> of_int n * u" using u by simp
    with p52 e39 have "2 powr (- 39) \<le> of_int n * u" by linarith
    with vertexTol_bounds(3,4) big show ?thesis unfolding r a_def[symmetric] by linarith
  next
    case mid
    then have "- 40 \<le> log 2 a" "log 2 a < - 39" using a by (simp_all add: le_log_iff log_less_iff)
    then have L: "\<lfloor>log 2 a\<rfloor> = - 40" by (simp add: floor_eq_iff)
    then have E: "E = - 40" by (simp add: E_def)
    have u92: "u = 1 / 2 ^ 92" by (simp add: u_def E powr_minus powr_numeral divide_simps)
    have o: "odd (4951760157141521 :: int)" by simp
    have "of_int n * u > vertexTol \<longleftrightarrow> n > 4951760157141521"
    proof -
      have "of_int n * u > vertexTol \<longleftrightarrow> (of_int n :: real) > 4951760157141521"
        by (simp add: u92 vertexTol_def divide_simps)
      also have "\<dots> \<longleftrightarrow> n > 4951760157141521"
        by (metis of_int_less_iff of_int_numeral)
      finally show ?thesis .
    qed
    also have "\<dots> \<longleftrightarrow> n \<ge> 4951760157141521 + 1" by linarith
    also have "\<dots> \<longleftrightarrow> a / u \<ge> of_int 4951760157141521 + 1 / 2"
      unfolding n_def by (rule rhe_threshold_odd[OF o])
    also have "\<dots> \<longleftrightarrow> a \<ge> vertexTol + 1 / 2 ^ 93"
      by (simp add: u92 vertexTol_def divide_simps mult.commute)
    finally show ?thesis unfolding r a_def[symmetric] .
  next
    case small
    then have "log 2 a < - 40" using a by (simp add: log_less_iff)
    then have "\<lfloor>log 2 a\<rfloor> < - 40" by (simp add: floor_less_iff)
    then have L: "\<lfloor>log 2 a\<rfloor> \<le> - 41" by linarith
    then have "max \<lfloor>log 2 a\<rfloor> (- 1022) \<le> - 41" by simp
    then have E41: "E \<le> - 41" unfolding E_def by (metis of_int_le_iff of_int_minus of_int_numeral)
    have "of_int \<lfloor>log 2 a\<rfloor> \<le> E" unfolding E_def by (metis max.cobounded1 of_int_le_iff)
    then have "2 powr (of_int \<lfloor>log 2 a\<rfloor> + 1) \<le> 2 powr (E + 1)" by simp
    with lb(2) have "a < 2 powr 53 * u" unfolding p53 by linarith
    then have "a / u < 2 powr 53" using u by (simp add: pos_divide_less_eq)
    then have "a / u < 2 ^ 53" by simp
    then have "\<lfloor>a / u\<rfloor> < 2 ^ 53" by (simp add: floor_less_iff)
    with rhe_bounds(2)[of "a / u"] have "n \<le> 2 ^ 53" unfolding n_def by linarith
    then have "of_int n \<le> (2 ^ 53 :: real)" by (metis of_int_le_iff of_int_numeral of_int_power)
    then have "of_int n * u \<le> 2 powr 53 * u" using u by simp
    moreover have "2 powr (E + 1) \<le> 2 powr (- 40)" using E41 by simp
    ultimately have "of_int n * u \<le> 2 powr (- 40)" unfolding p53 by linarith
    with vertexTol_bounds(1,2) small show ?thesis unfolding r a_def[symmetric] by simp
  qed
qed

lemma within_vertexTol: "\<not> \<bar>round_double d\<bar> > vertexTol \<longleftrightarrow> \<bar>d\<bar> < vertexTol + 1 / 2 ^ 93"
  using round_double_exceeds_tol[of d] by auto

section \<open>The geometric face matcher\<close>

lemma all3: "(\<forall>k<3::nat. P k) \<longleftrightarrow> P 0 \<and> P 1 \<and> P 2"
  by (auto simp: less_Suc_eq numeral_3_eq_3 numeral_2_eq_2)

lemma upt3: "[0..<3] = [0, 1, 2]" by (simp add: upt_rec)

lemma verticesEqual_iff:
  "verticesEqual vi vj tol \<longleftrightarrow> (\<forall>k<3. \<not> \<bar>round_double (coord vi k - coord vj k)\<bar> > tol)"
  unfolding verticesEqual_def upt3 all3 by auto

lemma verticesEqual_vertexTol:
  "verticesEqual vi vj vertexTol \<longleftrightarrow> (\<forall>k<3. \<bar>coord vi k - coord vj k\<bar> < vertexTol + 1 / 2 ^ 93)"
  unfolding verticesEqual_iff within_vertexTol ..

lemma vertexTol_midpoint: "vertexTol + 1 / 2 ^ 93 = 9903520314283043 / 2 ^ 93"
  by (simp add: vertexTol_def)

lemma verticesEqual_eval:
  "verticesEqual vi vj vertexTol \<longleftrightarrow>
     \<bar>coord vi 0 - coord vj 0\<bar> < 9903520314283043 / 2 ^ 93 \<and>
     \<bar>coord vi 1 - coord vj 1\<bar> < 9903520314283043 / 2 ^ 93 \<and>
     \<bar>coord vi 2 - coord vj 2\<bar> < 9903520314283043 / 2 ^ 93"
  unfolding verticesEqual_vertexTol all3 vertexTol_midpoint ..

lemma vertexFound_loop_iff:
  "vertexFound_loop sm ev n vi \<longleftrightarrow> (\<exists>j<n. verticesEqual vi (GetVertex sm (ev ! j)) vertexTol)"
  unfolding vertexFound_loop_def
  by (induction n) (auto simp: less_Suc_eq)

lemma faceVert_loop_iff:
  "faceVert_loop vm sm ev n fvs \<longleftrightarrow> (\<forall>fv\<in>set fvs. vertexFound_loop sm ev n (GetVertex vm fv))"
  by (induction fvs) auto

lemma FacesCoincideGeometrically_iff:
  "FacesCoincideGeometrically vm face sm elem \<longleftrightarrow>
     length (GetFaceVertices vm face) = length (GetElementVertices sm elem) \<and>
     (\<forall>i < length (GetFaceVertices vm face). \<exists>j < length (GetElementVertices sm elem).
        \<forall>k<3. \<not> \<bar>round_double (coord (GetVertex vm (GetFaceVertices vm face ! i)) k
               - coord (GetVertex sm (GetElementVertices sm elem ! j)) k)\<bar> > vertexTol)"
  unfolding FacesCoincideGeometrically_def Let_def
  by (auto simp: faceVert_loop_iff vertexFound_loop_iff verticesEqual_iff all_set_conv_all_nth)

lemma FacesCoincideGeometrically_exact:
  "FacesCoincideGeometrically vm face sm elem \<longleftrightarrow>
     length (GetFaceVertices vm face) = length (GetElementVertices sm elem) \<and>
     (\<forall>i < length (GetFaceVertices vm face). \<exists>j < length (GetElementVertices sm elem).
        \<forall>k<3. \<bar>coord (GetVertex vm (GetFaceVertices vm face ! i)) k
               - coord (GetVertex sm (GetElementVertices sm elem ! j)) k\<bar> < vertexTol + 1 / 2 ^ 93)"
  unfolding FacesCoincideGeometrically_iff within_vertexTol ..

lemmas example_defs = sliverMesh_def triangleMesh_def sliver_faces_def sliver_vertices_def
  triangle_vertices_def

lemma triangle_vertex_unmatched:
  "\<forall>i < length (GetFaceVertices sliverMesh 2).
     \<exists>k<3. \<bar>coord (GetVertex sliverMesh (GetFaceVertices sliverMesh 2 ! i)) k
           - coord (GetVertex triangleMesh (GetElementVertices triangleMesh 0 ! 1)) k\<bar> > 1 / 10 ^ 12"
  by (auto simp: example_defs coord_def less_Suc_eq numeral_3_eq_3 intro: exI[of _ 0])

lemma sliver_face_coincides:
  "f \<in> {0, 1, 2, 3} \<Longrightarrow> FacesCoincideGeometrically sliverMesh f triangleMesh 0"
  by (auto simp: FacesCoincideGeometrically_def vertexFound_loop_def verticesEqual_eval
        example_defs upt3 coord_def)

text \<open>
  Claim C10.  The test of the face matcher is one-directional.  For a volume-mesh face
  and a surface-mesh element with equally many vertices it returns true exactly when
  every vertex of the face is within the tolerance, in each of the three coordinates, of
  some vertex of the element; nothing is required of the vertices of the element.  Within
  the tolerance means what the source computes: the rounded difference of the two
  coordinates does not exceed the double \<^verbatim>\<open>1.0e-12\<close> in absolute value, which is the
  case exactly when the exact difference is below \<open>4951760157141521 / 2\<^sup>9\<^sup>2 + 1 / 2\<^sup>9\<^sup>3\<close>.
  So there are inputs with equal vertex counts and different vertex sets on which it
  returns true: for face 2 of the sliver tetrahedron and the triangle, two vertices of
  the face are within the tolerance of one vertex of the triangle, and vertex 1 of the
  triangle is farther than the tolerance from every vertex of the face.
\<close>

theorem FacesCoincideGeometrically_one_directional:
  "(length (GetFaceVertices vm face) = length (GetElementVertices sm elem) \<longrightarrow>
     (FacesCoincideGeometrically vm face sm elem \<longleftrightarrow>
        (\<forall>i < length (GetFaceVertices vm face). \<exists>j < length (GetElementVertices sm elem).
           \<forall>k<3. \<not> \<bar>round_double (coord (GetVertex vm (GetFaceVertices vm face ! i)) k
                  - coord (GetVertex sm (GetElementVertices sm elem ! j)) k)\<bar> > vertexTol))
     \<and> (FacesCoincideGeometrically vm face sm elem \<longleftrightarrow>
        (\<forall>i < length (GetFaceVertices vm face). \<exists>j < length (GetElementVertices sm elem).
           \<forall>k<3. \<bar>coord (GetVertex vm (GetFaceVertices vm face ! i)) k
                  - coord (GetVertex sm (GetElementVertices sm elem ! j)) k\<bar>
                    < vertexTol + 1 / 2 ^ 93)))
   \<and> (length (GetFaceVertices sliverMesh 2) = length (GetElementVertices triangleMesh 0)
      \<and> FacesCoincideGeometrically sliverMesh 2 triangleMesh 0
      \<and> (\<forall>k<3. \<not> \<bar>round_double (coord (GetVertex sliverMesh (GetFaceVertices sliverMesh 2 ! 1)) k
                 - coord (GetVertex triangleMesh (GetElementVertices triangleMesh 0 ! 2)) k)\<bar> > vertexTol)
      \<and> (\<forall>k<3. \<not> \<bar>round_double (coord (GetVertex sliverMesh (GetFaceVertices sliverMesh 2 ! 2)) k
                 - coord (GetVertex triangleMesh (GetElementVertices triangleMesh 0 ! 2)) k)\<bar> > vertexTol)
      \<and> (\<forall>i < length (GetFaceVertices sliverMesh 2).
            \<exists>k<3. \<bar>round_double (coord (GetVertex sliverMesh (GetFaceVertices sliverMesh 2 ! i)) k
                  - coord (GetVertex triangleMesh (GetElementVertices triangleMesh 0 ! 1)) k)\<bar> > vertexTol))"
proof (intro conjI impI)
  assume "length (GetFaceVertices vm face) = length (GetElementVertices sm elem)"
  then show "FacesCoincideGeometrically vm face sm elem \<longleftrightarrow>
        (\<forall>i < length (GetFaceVertices vm face). \<exists>j < length (GetElementVertices sm elem).
           \<forall>k<3. \<not> \<bar>round_double (coord (GetVertex vm (GetFaceVertices vm face ! i)) k
                  - coord (GetVertex sm (GetElementVertices sm elem ! j)) k)\<bar> > vertexTol)"
    by (simp add: FacesCoincideGeometrically_iff)
next
  assume "length (GetFaceVertices vm face) = length (GetElementVertices sm elem)"
  then show "FacesCoincideGeometrically vm face sm elem \<longleftrightarrow>
        (\<forall>i < length (GetFaceVertices vm face). \<exists>j < length (GetElementVertices sm elem).
           \<forall>k<3. \<bar>coord (GetVertex vm (GetFaceVertices vm face ! i)) k
                  - coord (GetVertex sm (GetElementVertices sm elem ! j)) k\<bar>
                    < vertexTol + 1 / 2 ^ 93)"
    by (simp add: FacesCoincideGeometrically_exact)
next
  show "FacesCoincideGeometrically sliverMesh 2 triangleMesh 0"
    by (rule sliver_face_coincides) simp
next
  show "\<forall>i < length (GetFaceVertices sliverMesh 2).
            \<exists>k<3. \<bar>round_double (coord (GetVertex sliverMesh (GetFaceVertices sliverMesh 2 ! i)) k
                  - coord (GetVertex triangleMesh (GetElementVertices triangleMesh 0 ! 1)) k)\<bar> > vertexTol"
    unfolding round_double_exceeds_tol vertexTol_midpoint
    by (auto simp: example_defs coord_def less_Suc_eq numeral_3_eq_3 intro: exI[of _ 0])
next
  show "\<forall>k<3. \<not> \<bar>round_double (coord (GetVertex sliverMesh (GetFaceVertices sliverMesh 2 ! 1)) k
                 - coord (GetVertex triangleMesh (GetElementVertices triangleMesh 0 ! 2)) k)\<bar> > vertexTol"
    unfolding within_vertexTol vertexTol_midpoint
    by (auto simp: example_defs coord_def)
next
  show "\<forall>k<3. \<not> \<bar>round_double (coord (GetVertex sliverMesh (GetFaceVertices sliverMesh 2 ! 2)) k
                 - coord (GetVertex triangleMesh (GetElementVertices triangleMesh 0 ! 2)) k)\<bar> > vertexTol"
    unfolding within_vertexTol vertexTol_midpoint
    by (auto simp: example_defs coord_def less_Suc_eq numeral_3_eq_3)
qed (auto simp: example_defs)


theorem FacesCoincideGeometrically_one_directional_witness:
  "length (GetFaceVertices sliverMesh 1) = length (GetElementVertices triangleMesh 0)
   \<and> FacesCoincideGeometrically sliverMesh 1 triangleMesh 0"
proof -
  have l: "length (GetFaceVertices sliverMesh 1) = length (GetElementVertices triangleMesh 0)"
    by (simp add: example_defs)
  have r: "\<forall>i < length (GetFaceVertices sliverMesh 1). \<exists>j < length (GetElementVertices triangleMesh 0).
           \<forall>k<3. \<not> \<bar>round_double (coord (GetVertex sliverMesh (GetFaceVertices sliverMesh 1 ! i)) k
                  - coord (GetVertex triangleMesh (GetElementVertices triangleMesh 0 ! j)) k)\<bar> > vertexTol"
    using sliver_face_coincides[of 1] by (simp add: FacesCoincideGeometrically_iff)
  show ?thesis
    using FacesCoincideGeometrically_one_directional[of sliverMesh 1 triangleMesh 0] l r by blast
qed

lemma ball3: "(\<forall>k\<in>{0..<3::nat}. P k) \<longleftrightarrow> (\<forall>k<3. P k)"
  by auto

lemma bex_map_nth: "(\<exists>w\<in>set (map g ys). Q w) \<longleftrightarrow> (\<exists>j<length ys. Q (g (ys ! j)))"
  by (force simp: in_set_conv_nth)

lemma ball_map_nth: "(\<forall>v\<in>set (map f xs). Q v) \<longleftrightarrow> (\<forall>i<length xs. Q (f (xs ! i)))"
  by (force simp: in_set_conv_nth)

lemma spec_vertex_sets_coincide_nth:
  "spec_vertex_sets_coincide (map f xs) (map g ys) tol \<longleftrightarrow>
     (\<forall>i<length xs. \<exists>j<length ys. \<forall>k<3. \<bar>coord (f (xs ! i)) k - coord (g (ys ! j)) k\<bar> \<le> tol) \<and>
     (\<forall>j<length ys. \<exists>i<length xs. \<forall>k<3. \<bar>coord (g (ys ! j)) k - coord (f (xs ! i)) k\<bar> \<le> tol)"
  unfolding spec_vertex_sets_coincide_def ball3 bex_map_nth ball_map_nth ..


text \<open>
  Claim C6 fails in the code.  The source documents the matcher as comparing the vertices
  as sets, and the specification as returning true if and only if the two vertex sets
  coincide.  On face 2 of the sliver tetrahedron (a triangle with the vertices \<open>(0,0,0)\<close>,
  \<open>(0,1,0)\<close>, \<open>(0,1,2\<^sup>-\<^sup>4\<^sup>4)\<close>) and the triangle \<open>(0,0,0)\<close>, \<open>(1,0,0)\<close>, \<open>(0,1,0)\<close> the matcher
  returns true, although the vertex \<open>(1,0,0)\<close> of the triangle is at distance one from
  every vertex of the face: the two vertex sets do not coincide.
\<close>

theorem FacesCoincideGeometrically_not_set_equality:
  "length (GetFaceVertices sliverMesh 2) = length (GetElementVertices triangleMesh 0) \<and>
   FacesCoincideGeometrically sliverMesh 2 triangleMesh 0 \<and>
   \<not> spec_vertex_sets_coincide (map (GetVertex sliverMesh) (GetFaceVertices sliverMesh 2))
        (map (GetVertex triangleMesh) (GetElementVertices triangleMesh 0)) (1 / 10 ^ 12) \<and>
   \<not> FacesCoincideGeometrically triangleMesh 0 sliverMesh 0"
proof (intro conjI)
  show "length (GetFaceVertices sliverMesh 2) = length (GetElementVertices triangleMesh 0)"
    by (simp add: example_defs)
  show "FacesCoincideGeometrically sliverMesh 2 triangleMesh 0"
    by (rule sliver_face_coincides) simp
  show "\<not> FacesCoincideGeometrically triangleMesh 0 sliverMesh 0"
    by (simp add: FacesCoincideGeometrically_def example_defs)
  show "\<not> spec_vertex_sets_coincide (map (GetVertex sliverMesh) (GetFaceVertices sliverMesh 2))
        (map (GetVertex triangleMesh) (GetElementVertices triangleMesh 0)) (1 / 10 ^ 12)"
  proof
    assume "spec_vertex_sets_coincide (map (GetVertex sliverMesh) (GetFaceVertices sliverMesh 2))
        (map (GetVertex triangleMesh) (GetElementVertices triangleMesh 0)) (1 / 10 ^ 12)"
    then have "\<forall>j<length (GetElementVertices triangleMesh 0). \<exists>i<length (GetFaceVertices sliverMesh 2).
        \<forall>k<3. \<bar>coord (GetVertex triangleMesh (GetElementVertices triangleMesh 0 ! j)) k
               - coord (GetVertex sliverMesh (GetFaceVertices sliverMesh 2 ! i)) k\<bar> \<le> 1 / 10 ^ 12"
      by (simp add: spec_vertex_sets_coincide_nth)
    moreover have "1 < length (GetElementVertices triangleMesh 0)" by (simp add: example_defs)
    ultimately obtain i where i: "i < length (GetFaceVertices sliverMesh 2)"
       "\<forall>k<3. \<bar>coord (GetVertex triangleMesh (GetElementVertices triangleMesh 0 ! 1)) k
               - coord (GetVertex sliverMesh (GetFaceVertices sliverMesh 2 ! i)) k\<bar> \<le> 1 / 10 ^ 12"
      by blast
    from triangle_vertex_unmatched i(1) obtain k where "k < 3"
      "\<bar>coord (GetVertex sliverMesh (GetFaceVertices sliverMesh 2 ! i)) k
           - coord (GetVertex triangleMesh (GetElementVertices triangleMesh 0 ! 1)) k\<bar> > 1 / 10 ^ 12"
      by blast
    with i(2) show False by (auto simp: abs_minus_commute)
  qed
qed


theorem FacesCoincideGeometrically_not_set_equality_witness:
  "length (GetFaceVertices sliverMesh 2) = length (GetElementVertices triangleMesh 0)
   \<and> FacesCoincideGeometrically sliverMesh 2 triangleMesh 0
   \<and> map (GetVertex sliverMesh) (GetFaceVertices sliverMesh 2) = [(0, 0, 0), (0, 1, 0), (0, 1, 1 / 2 ^ 44)]
   \<and> map (GetVertex triangleMesh) (GetElementVertices triangleMesh 0) = [(0, 0, 0), (1, 0, 0), (0, 1, 0)]"
  using FacesCoincideGeometrically_not_set_equality by (simp add: example_defs)

section \<open>The injection operators\<close>



lemma vec_get_error: "vec_get v i = Inl e \<Longrightarrow> e = OutOfBounds"
  by (auto simp: vec_get_def split: if_splits)

lemma vec_set_error: "vec_set v i a = Inl e \<Longrightarrow> e = OutOfBounds"
  by (auto simp: vec_set_def split: if_splits)

lemma bind_err_Inl: "bind_err m f = Inl e \<longleftrightarrow> m = Inl e \<or> (\<exists>a. m = Inr a \<and> f a = Inl e)"
  by (cases m) auto

lemma bind_err_Inr: "bind_err m f = Inr b \<longleftrightarrow> (\<exists>a. m = Inr a \<and> f a = Inr b)"
  by (cases m) auto

lemma inj_mult_loop_error: "inj_mult_loop ids is gf y = Inl e \<Longrightarrow> e = OutOfBounds"
  by (induction "is" arbitrary: y)
     (auto simp: bind_err_Inl dest: vec_get_error vec_set_error)

lemma inj_mult_loop_sentinel:
  "i \<in> set is \<Longrightarrow> vec_get ids i = Inr t \<Longrightarrow> t < 0 \<Longrightarrow> \<exists>e. inj_mult_loop ids is gf y = Inl e"
proof (induction "is" arbitrary: y)
  case Nil
  then show ?case by simp
next
  case (Cons j js)
  show ?case
  proof (cases "inj_mult_loop ids (j # js) gf y")
    case (Inl e)
    then show ?thesis by blast
  next
    case (Inr y')
    then obtain tj a y1 where s: "vec_get ids j = Inr tj" "vec_get gf j = Inr a"
        "vec_set y tj a = Inr y1" "inj_mult_loop ids js gf y1 = Inr y'"
      by (auto simp: bind_err_Inr)
    have "j \<noteq> i"
    proof
      assume "j = i"
      with s(1) Cons.prems(2) have "tj = t" by simp
      with s(3) Cons.prems(3) show False by (simp add: vec_set_def)
    qed
    with Cons.prems(1) have "i \<in> set js" by simp
    from Cons.IH[OF this Cons.prems(2,3), of y1] s(4) show ?thesis by simp
  qed
qed

text \<open>
  Claim C2 asks that \<open>Mult\<close> never writes at a sentinel entry of the table.  The code
  has no such guard: whenever some entry \<open>id[i]\<close>, \<open>i < fullWidth\<close>, is the sentinel \<open>-1\<close>,
  the loop reaches \<^verbatim>\<open>y[id[i]] = gf[i]\<close> with an index outside \<open>y\<close> (or has left the
  vectors earlier), for every input \<open>x\<close>.
\<close>

theorem InjectionOperator_Mult_writes_at_sentinel:
  assumes "0 \<le> i" "i < fullWidth opr" "vec_get (inj_id opr) i = Inr (- 1)"
  shows "InjectionOperator_Mult opr x y = Inl OutOfBounds"
proof -
  have "i \<in> set [0..fullWidth opr - 1]" using assms(1,2) by simp
  from inj_mult_loop_sentinel[OF this assms(3)]
  obtain e where e: "inj_mult_loop (inj_id opr) [0..fullWidth opr - 1]
      (SetFromTrueDofs (inj_space opr) x) (replicate (length y) 0) = Inl e"
    by auto
  then have "e = OutOfBounds" by (rule inj_mult_loop_error)
  with e show ?thesis by (simp add: InjectionOperator_Mult_def)
qed

theorem InjectionOperator_Mult_writes_at_sentinel_witness:
  "new_InjectionOperator 3 (plainSpace 3) [2, - 1, 0]
     = Inr \<lparr>inj_height = 3, inj_width = 3, inj_id = [2, - 1, 0], inj_space = plainSpace 3, fullWidth = 3\<rparr>
   \<and> InjectionOperator_Mult
       \<lparr>inj_height = 3, inj_width = 3, inj_id = [2, - 1, 0], inj_space = plainSpace 3, fullWidth = 3\<rparr>
       [5, 6, 7] [0, 0, 0] = Inl OutOfBounds"
  using InjectionOperator_Mult_writes_at_sentinel[of 1
      "\<lparr>inj_height = 3, inj_width = 3, inj_id = [2, - 1, 0], inj_space = plainSpace 3, fullWidth = 3\<rparr>"
      "[5, 6, 7]" "[0, 0, 0]"]
  by (simp add: new_InjectionOperator_def plainSpace_def vec_get_def)


section \<open>The DOF correspondence table\<close>


lemmas tet_defs = tetMesh_def tet_vertices_def tet_edges_def tet_face_edges_def sliver_faces_def
  triangleMesh_def triangle_vertices_def triangle_edges_def tetSpace_def triSpace_def nd_fec_def

lemma tet_faces_match:
  "FacesCoincideGeometrically tetMesh 0 triangleMesh 0"
  "\<not> FacesCoincideGeometrically tetMesh 1 triangleMesh 0"
  "\<not> FacesCoincideGeometrically tetMesh 2 triangleMesh 0"
  "\<not> FacesCoincideGeometrically tetMesh 3 triangleMesh 0"
  by (simp_all add: FacesCoincideGeometrically_def vertexFound_loop_def verticesEqual_eval
        tet_defs upt3 coord_def)

lemma tet_find: "find_sdMeshFace tetMesh triangleMesh 0 0 = Inr 0"
proof -
  have f: "GetElementFaces tetMesh 0 = [0, 1, 2, 3]" by (simp add: tetMesh_def)
  show ?thesis by (simp add: find_sdMeshFace_def sdMeshFace_loop_def f tet_faces_match)
qed

lemma tet_maps:
  "pmeshElem_loop tetMesh 1 {|0|} [0..GetNE tetMesh - 1] (Map.empty, {||}) = Inr ([0 \<mapsto> 0], {|0|})"
  by (simp add: tetMesh_def)

lemma tet_sdElem: "sdElem_loop tetMesh {|0|} = [0 \<mapsto> 0]"
  by (simp add: sdElem_loop_def tetMesh_def)

lemma two: "[0..<2] = [0, 1]" by (simp add: upt_rec)

lemma tet_edge_dofs: "edge_dofs triSpace tetSpace 0 0 [- 1, - 1, - 1] = Inr [1, 0, - 1]"
  by (simp add: edge_dofs_def tet_defs edgesMatch_def verticesEqual_eval upt3 two coord_def
       map_dofs_def write_dof_def vec_get_def vec_set_def upt_rec)

lemma tet_run:
  "SetInterfaceToSurfaceDOFMap triSpace tetSpace tetMesh 1 {|0|} nd_fec = Inr [1, 0, - 1]"
proof -
  have a: "GetParMesh tetSpace = tetMesh" "GetParMesh triSpace = triangleMesh"
     "GetVSize triSpace = 3" "nd_fec POINT = 0" "nd_fec SEGMENT = 1"
     "nd_fec (GetFaceGeometryType tetMesh 0) = 0"
    by (simp_all add: tetSpace_def triSpace_def nd_fec_def tetMesh_def)
  have s: "sorted_list_of_fset {|0::int|} = [0]" by (simp add: sorted_list_of_fset.rep_eq)
  have r: "replicate 3 (- 1 :: int) = [- 1, - 1, - 1]" by (simp add: numeral_3_eq_3)
  show ?thesis
    by (simp add: SetInterfaceToSurfaceDOFMap_def tet_maps tet_sdElem a s r tet_find
          face_stages_def tet_edge_dofs)
qed



lemmas sliverTet_defs = sliverTet_def sliverSpace_def sliver_vertices_def tet_defs

lemma sliverTet_faces_match:
  "FacesCoincideGeometrically sliverTet 0 triangleMesh 0"
  "FacesCoincideGeometrically sliverTet 1 triangleMesh 0"
  "FacesCoincideGeometrically sliverTet 2 triangleMesh 0"
  "FacesCoincideGeometrically sliverTet 3 triangleMesh 0"
  by (simp_all add: FacesCoincideGeometrically_def vertexFound_loop_def verticesEqual_eval
        sliverTet_defs upt3 coord_def)

lemma sliverTet_find: "find_sdMeshFace sliverTet triangleMesh 0 0 = Inr 1"
proof -
  have f: "GetElementFaces sliverTet 0 = [0, 2, 3, 1]" by (simp add: sliverTet_def)
  show ?thesis by (simp add: find_sdMeshFace_def sdMeshFace_loop_def f sliverTet_faces_match)
qed

lemma sliverTet_maps:
  "pmeshElem_loop sliverTet 1 {|0|} [0..GetNE sliverTet - 1] (Map.empty, {||}) = Inr ([0 \<mapsto> 0], {|0|})"
  by (simp add: sliverTet_def tetMesh_def)

lemma sliverTet_sdElem: "sdElem_loop sliverTet {|0|} = [0 \<mapsto> 0]"
  by (simp add: sdElem_loop_def sliverTet_def tetMesh_def)

lemma sliverTet_edge_dofs: "edge_dofs triSpace sliverSpace 0 1 [- 1, - 1, - 1] = Inr [4, 0, 3]"
  by (simp add: edge_dofs_def sliverTet_defs edgesMatch_def verticesEqual_eval upt3 two coord_def
       map_dofs_def write_dof_def vec_get_def vec_set_def upt_rec)

text \<open>
  Claim C4 asks that more than one matching face be fatal.  The search keeps the last
  matching face and the check after it only rejects the case of no match.  On the
  sliver tetrahedron, whose element lists its faces in the order 0, 2, 3, 1, all four
  faces of element 0 coincide (in the sense of the matcher) with interface face 0.
  The search succeeds with face 1, the vertex, edge and face stages that follow succeed
  too, and the whole function returns the table \<open>[4, 0, 3]\<close>: the interface DOFs are
  mapped to the edges of face 1, not to those of face 0 (edges 2, 0 and 1), on which
  the interface lies.  Nothing aborts.
\<close>

theorem SetInterfaceToSurfaceDOFMap_accepts_several_matches:
  "GetElementFaces sliverTet 0 = [0, 2, 3, 1] \<and>
   FacesCoincideGeometrically sliverTet 0 triangleMesh 0 \<and>
   FacesCoincideGeometrically sliverTet 2 triangleMesh 0 \<and>
   FacesCoincideGeometrically sliverTet 3 triangleMesh 0 \<and>
   FacesCoincideGeometrically sliverTet 1 triangleMesh 0 \<and>
   find_sdMeshFace sliverTet triangleMesh 0 0 = Inr 1 \<and>
   GetFaceEdges sliverTet 0 = [0, 1, 2] \<and> GetFaceEdges sliverTet 1 = [0, 3, 4] \<and>
   SetInterfaceToSurfaceDOFMap triSpace sliverSpace sliverTet 1 {|0|} nd_fec = Inr [4, 0, 3]"
proof -
  have a: "GetParMesh sliverSpace = sliverTet" "GetParMesh triSpace = triangleMesh"
     "GetVSize triSpace = 3" "nd_fec POINT = 0" "nd_fec SEGMENT = 1"
     "nd_fec (GetFaceGeometryType sliverTet 0) = 0"
    by (simp_all add: sliverSpace_def triSpace_def nd_fec_def sliverTet_def tetMesh_def)
  have s: "sorted_list_of_fset {|0::int|} = [0]" by (simp add: sorted_list_of_fset.rep_eq)
  have r: "replicate 3 (- 1 :: int) = [- 1, - 1, - 1]" by (simp add: numeral_3_eq_3)
  have run: "SetInterfaceToSurfaceDOFMap triSpace sliverSpace sliverTet 1 {|0|} nd_fec = Inr [4, 0, 3]"
    by (simp add: SetInterfaceToSurfaceDOFMap_def sliverTet_maps sliverTet_sdElem a s r sliverTet_find
          face_stages_def sliverTet_edge_dofs)
  have e: "GetElementFaces sliverTet 0 = [0, 2, 3, 1]"
    "GetFaceEdges sliverTet 0 = [0, 1, 2]" "GetFaceEdges sliverTet 1 = [0, 3, 4]"
    by (simp_all add: sliverTet_def tetMesh_def tet_face_edges_def)
  from run e sliverTet_faces_match sliverTet_find show ?thesis by simp
qed

lemma dofmap_extends_nth:
  "dofmap_extends d d' \<longleftrightarrow> length d' = length d \<and>
     (\<forall>k<length d. (d ! k \<noteq> - 1 \<longrightarrow> d' ! k = d ! k) \<and> (d ! k = - 1 \<longrightarrow> d' ! k = - 1 \<or> d' ! k \<ge> 0))"
  by (auto simp: dofmap_extends_def)

lemma dofmap_extends_refl: "dofmap_extends d d"
  by (simp add: dofmap_extends_nth)

lemma dofmap_extends_trans:
  "dofmap_extends d d' \<Longrightarrow> dofmap_extends d' d'' \<Longrightarrow> dofmap_extends d d''"
  unfolding dofmap_extends_nth by (metis add.inverse_inverse neg_0_le_iff_le not_one_le_zero)

lemma write_dof_cases:
  assumes "write_dof fes ifdof sddof dofmap = Inr dofmap'"
  shows "(GetLocalTDofNumber fes sddof < 0 \<and> dofmap' = dofmap) \<or>
         (GetLocalTDofNumber fes sddof \<ge> 0 \<and> 0 \<le> ifdof \<and> ifdof < int (length dofmap) \<and>
          (dofmap ! nat ifdof = - 1 \<or> dofmap ! nat ifdof = GetLocalTDofNumber fes sddof) \<and>
          dofmap' = dofmap[nat ifdof := GetLocalTDofNumber fes sddof])"
  using assms
  by (auto simp: write_dof_def Let_def vec_get_def vec_set_def bind_err_Inr split: if_splits)

lemma write_dof_extends:
  assumes "write_dof fes ifdof sddof dofmap = Inr dofmap'"
  shows "dofmap_extends dofmap dofmap'"
  using write_dof_cases[OF assms]
  by (auto simp: dofmap_extends_nth nth_list_update)

lemma write_dof_conflict:
  assumes "0 \<le> ifdof" "ifdof < int (length dofmap)" "GetLocalTDofNumber fes sddof \<ge> 0"
    "dofmap ! nat ifdof \<noteq> - 1" "dofmap ! nat ifdof \<noteq> GetLocalTDofNumber fes sddof"
  shows "write_dof fes ifdof sddof dofmap = Inl VerifyFailed"
  using assms by (simp add: write_dof_def vec_get_def)

lemma dofs_loop_extends:
  "dofs_loop fes pairs dofmap = Inr dofmap' \<Longrightarrow> dofmap_extends dofmap dofmap'"
proof (induction pairs arbitrary: dofmap)
  case Nil
  then show ?case by (simp add: dofmap_extends_refl)
next
  case (Cons p pairs)
  obtain i s where p: "p = (i, s)" by (cases p)
  from Cons.prems p obtain d1 where d1: "write_dof fes i s dofmap = Inr d1"
      "dofs_loop fes pairs d1 = Inr dofmap'"
    by (auto simp: bind_err_Inr)
  from write_dof_extends[OF d1(1)] Cons.IH[OF d1(2)] show ?case
    by (rule dofmap_extends_trans)
qed

lemma dofs_loop_agrees:
  "dofs_loop fes pairs dofmap = Inr dofmap' \<Longrightarrow> (i, s) \<in> set pairs
     \<Longrightarrow> GetLocalTDofNumber fes s \<ge> 0
     \<Longrightarrow> dofmap' ! nat i = GetLocalTDofNumber fes s"
proof (induction pairs arbitrary: dofmap)
  case Nil
  then show ?case by simp
next
  case (Cons p pairs)
  obtain j t where p: "p = (j, t)" by (cases p)
  from Cons.prems(1) p obtain d1 where d1: "write_dof fes j t dofmap = Inr d1"
      "dofs_loop fes pairs d1 = Inr dofmap'"
    by (auto simp: bind_err_Inr)
  show ?case
  proof (cases "(i, s) \<in> set pairs")
    case True
    from Cons.IH[OF d1(2) True Cons.prems(3)] show ?thesis .
  next
    case False
    with Cons.prems(2) p have e: "j = i" "t = s" by auto
    from write_dof_cases[OF d1(1)] e Cons.prems(3)
    have w: "0 \<le> i" "i < int (length dofmap)" "d1 = dofmap[nat i := GetLocalTDofNumber fes s]"
      by auto
    then have "d1 ! nat i = GetLocalTDofNumber fes s" "nat i < length d1" by auto
    moreover have "dofmap_extends d1 dofmap'" by (rule dofs_loop_extends[OF d1(2)])
    ultimately show ?thesis using Cons.prems(3) by (auto simp: dofmap_extends_nth)
  qed
qed

lemma map_dofs_extends:
  "map_dofs fes ifdofs sddofs dofmap = Inr dofmap' \<Longrightarrow> dofmap_extends dofmap dofmap'"
  by (auto simp: map_dofs_def split: if_splits dest: dofs_loop_extends)

lemma sdVert_loop_extends:
  "sdVert_loop ifes fes v sdVert (found, dofmap) = Inr (found', dofmap')
     \<Longrightarrow> dofmap_extends dofmap dofmap'"
proof (induction sdVert arbitrary: found dofmap)
  case Nil
  then show ?case by (simp add: dofmap_extends_refl)
next
  case (Cons w sdVert)
  show ?case
  proof (cases "verticesEqual (GetVertex (GetParMesh ifes) v) (GetVertex (GetParMesh fes) w) vertexTol")
    case True
    with Cons.prems obtain d1 where d1:
      "map_dofs fes (GetVertexDofs ifes v) (GetVertexDofs fes w) dofmap = Inr d1"
      "sdVert_loop ifes fes v sdVert (True, d1) = Inr (found', dofmap')"
      by (auto simp: bind_err_Inr)
    from map_dofs_extends[OF d1(1)] Cons.IH[OF d1(2)] show ?thesis
      by (rule dofmap_extends_trans)
  next
    case False
    with Cons.prems Cons.IH show ?thesis by simp
  qed
qed

lemma ifVert_loop_extends:
  "ifVert_loop ifes fes sdVert ifVert dofmap = Inr dofmap' \<Longrightarrow> dofmap_extends dofmap dofmap'"
proof (induction ifVert arbitrary: dofmap)
  case Nil
  then show ?case by (simp add: dofmap_extends_refl)
next
  case (Cons v ifVert)
  from Cons.prems obtain found d1 where d1:
    "sdVert_loop ifes fes v sdVert (False, dofmap) = Inr (found, d1)"
    "ifVert_loop ifes fes sdVert ifVert d1 = Inr dofmap'"
    by (auto simp: bind_err_Inr split: if_splits)
  from sdVert_loop_extends[OF d1(1)] Cons.IH[OF d1(2)] show ?case
    by (rule dofmap_extends_trans)
qed

lemma vertex_dofs_extends:
  "vertex_dofs ifes fes i sdMeshFace dofmap = Inr dofmap' \<Longrightarrow> dofmap_extends dofmap dofmap'"
  by (auto simp: vertex_dofs_def Let_def split: if_splits dest: ifVert_loop_extends)

lemma ifEdge_loop_extends:
  "ifEdge_loop ifes fes sdEdge ifEdge dofmap = Inr dofmap' \<Longrightarrow> dofmap_extends dofmap dofmap'"
proof (induction ifEdge arbitrary: dofmap)
  case Nil
  then show ?case by (simp add: dofmap_extends_refl)
next
  case (Cons e ifEdge)
  from Cons.prems obtain sd_k d1 where d1:
    "map_dofs fes (GetEdgeDofs ifes e) (GetEdgeDofs fes (sdEdge ! nat sd_k)) dofmap = Inr d1"
    "ifEdge_loop ifes fes sdEdge ifEdge d1 = Inr dofmap'"
    by (auto simp: bind_err_Inr Let_def split: if_splits)
  from map_dofs_extends[OF d1(1)] Cons.IH[OF d1(2)] show ?case
    by (rule dofmap_extends_trans)
qed

lemma edge_dofs_extends:
  "edge_dofs ifes fes i sdMeshFace dofmap = Inr dofmap' \<Longrightarrow> dofmap_extends dofmap dofmap'"
  by (auto simp: edge_dofs_def Let_def split: if_splits dest: ifEdge_loop_extends)

lemma face_dofs_extends:
  "face_dofs ifes fes i sdMeshFace dofmap = Inr dofmap' \<Longrightarrow> dofmap_extends dofmap dofmap'"
  by (auto simp: face_dofs_def dest: map_dofs_extends)

lemma face_stages_extends:
  assumes "face_stages ifes fes fec i sdMeshFace dofmap = Inr dofmap'"
  shows "dofmap_extends dofmap dofmap'"
proof -
  from assms obtain d1 d2 where
    a: "(if fec POINT > 0 then vertex_dofs ifes fes i sdMeshFace dofmap else Inr dofmap) = Inr d1"
    and b: "(if fec SEGMENT > 0 then edge_dofs ifes fes i sdMeshFace d1 else Inr d1) = Inr d2"
    and c: "(if fec (GetFaceGeometryType (GetParMesh fes) 0) > 0
             then face_dofs ifes fes i sdMeshFace d2 else Inr d2) = Inr dofmap'"
    unfolding face_stages_def bind_err_Inr by blast
  have "dofmap_extends dofmap d1"
    using a by (auto split: if_splits intro: vertex_dofs_extends dofmap_extends_refl)
  moreover have "dofmap_extends d1 d2"
    using b by (auto split: if_splits intro: edge_dofs_extends dofmap_extends_refl)
  moreover have "dofmap_extends d2 dofmap'"
    using c by (auto split: if_splits intro: face_dofs_extends dofmap_extends_refl)
  ultimately show ?thesis by (blast intro: dofmap_extends_trans)
qed

lemma interface_loop_extends:
  "interface_loop ifes fes fec m1 m2 fcs i dofmap = Inr dofmap'
     \<Longrightarrow> dofmap_extends dofmap dofmap'"
proof (induction fcs arbitrary: i dofmap)
  case Nil
  then show ?case by (simp add: dofmap_extends_refl)
next
  case (Cons f fcs)
  show ?case
  proof (cases "m1 f")
    case None
    with Cons.prems Cons.IH show ?thesis by simp
  next
    case (Some pmeshElem)
    with Cons.prems obtain sdMeshElem sdMeshFace d1 where
      d1: "face_stages ifes fes fec i sdMeshFace dofmap = Inr d1"
          "interface_loop ifes fes fec m1 m2 fcs (i + 1) d1 = Inr dofmap'"
      by (auto simp: bind_err_Inr split: option.splits)
    from face_stages_extends[OF d1(1)] Cons.IH[OF d1(2)] show ?thesis
      by (rule dofmap_extends_trans)
  qed
qed

lemma SetInterfaceToSurfaceDOFMap_entries:
  assumes "SetInterfaceToSurfaceDOFMap ifes fes pm sdAttribute fcs fec = Inr dofmap"
  shows "length dofmap = nat (GetVSize ifes) \<and> (\<forall>k<length dofmap. dofmap ! k = - 1 \<or> dofmap ! k \<ge> 0)"
proof -
  from assms obtain m1 E where
    "interface_loop ifes fes fec m1 (sdElem_loop (GetParMesh fes) E)
       (sorted_list_of_fset fcs) 0 (replicate (nat (GetVSize ifes)) (- 1)) = Inr dofmap"
    by (auto simp: SetInterfaceToSurfaceDOFMap_def Let_def bind_err_Inr)
  from interface_loop_extends[OF this] show ?thesis
    by (auto simp: dofmap_extends_nth)
qed


lemma dofmap_agrees_extends:
  assumes "dofmap_agrees fes a b d" "dofmap_extends d D"
  shows "dofmap_agrees fes a b D"
  using assms unfolding dofmap_agrees_def dofmap_extends_nth
  by (metis atLeastLessThan_iff neg_0_le_iff_le not_one_le_zero add.inverse_inverse)

lemma dofs_loop_agrees_bounds:
  "dofs_loop fes pairs dofmap = Inr dofmap' \<Longrightarrow> (i, s) \<in> set pairs
     \<Longrightarrow> GetLocalTDofNumber fes s \<ge> 0
     \<Longrightarrow> 0 \<le> i \<and> nat i < length dofmap' \<and> dofmap' ! nat i = GetLocalTDofNumber fes s"
proof (induction pairs arbitrary: dofmap)
  case Nil
  then show ?case by simp
next
  case (Cons p pairs)
  obtain j t where p: "p = (j, t)" by (cases p)
  from Cons.prems(1) p obtain d1 where d1: "write_dof fes j t dofmap = Inr d1"
      "dofs_loop fes pairs d1 = Inr dofmap'"
    by (auto simp: bind_err_Inr)
  show ?case
  proof (cases "(i, s) \<in> set pairs")
    case True
    from Cons.IH[OF d1(2) True Cons.prems(3)] show ?thesis .
  next
    case False
    with Cons.prems(2) p have e: "j = i" "t = s" by auto
    from write_dof_cases[OF d1(1)] e Cons.prems(3)
    have w: "0 \<le> i" "i < int (length dofmap)" "d1 = dofmap[nat i := GetLocalTDofNumber fes s]"
      by auto
    then have "d1 ! nat i = GetLocalTDofNumber fes s" "nat i < length d1" by auto
    moreover have "dofmap_extends d1 dofmap'" by (rule dofs_loop_extends[OF d1(2)])
    ultimately show ?thesis using Cons.prems(3) w(1) by (auto simp: dofmap_extends_nth)
  qed
qed

lemma map_dofs_agrees:
  assumes "map_dofs fes a b d = Inr d'"
  shows "dofmap_agrees fes a b d'"
proof -
  from assms have l: "length a = length b" and r: "dofs_loop fes (zip a b) d = Inr d'"
    by (auto simp: map_dofs_def split: if_splits)
  have "0 \<le> a ! k \<and> nat (a ! k) < length d' \<and> d' ! nat (a ! k) = GetLocalTDofNumber fes (b ! k)"
    if "k < length a" "GetLocalTDofNumber fes (b ! k) \<ge> 0" for k
  proof -
    have "(a ! k, b ! k) \<in> set (zip a b)" using that(1) l by (auto simp: in_set_zip)
    from dofs_loop_agrees_bounds[OF r this that(2)] show ?thesis .
  qed
  with l show ?thesis by (simp add: dofmap_agrees_def)
qed

lemma sdVert_loop_agrees:
  "sdVert_loop ifes fes v sdVert (found, dofmap) = Inr (found', dofmap')
     \<Longrightarrow> w \<in> set sdVert
     \<Longrightarrow> verticesEqual (GetVertex (GetParMesh ifes) v) (GetVertex (GetParMesh fes) w) vertexTol
     \<Longrightarrow> dofmap_agrees fes (GetVertexDofs ifes v) (GetVertexDofs fes w) dofmap'"
proof (induction sdVert arbitrary: found dofmap)
  case Nil
  then show ?case by simp
next
  case (Cons u sdVert)
  show ?case
  proof (cases "verticesEqual (GetVertex (GetParMesh ifes) v) (GetVertex (GetParMesh fes) u) vertexTol")
    case True
    with Cons.prems(1) obtain d1 where d1:
      "map_dofs fes (GetVertexDofs ifes v) (GetVertexDofs fes u) dofmap = Inr d1"
      "sdVert_loop ifes fes v sdVert (True, d1) = Inr (found', dofmap')"
      by (auto simp: bind_err_Inr)
    show ?thesis
    proof (cases "w \<in> set sdVert")
      case True
      from Cons.IH[OF d1(2) True Cons.prems(3)] show ?thesis .
    next
      case False
      with Cons.prems(2) have "w = u" by simp
      with map_dofs_agrees[OF d1(1)] sdVert_loop_extends[OF d1(2)] show ?thesis
        by (auto intro: dofmap_agrees_extends)
    qed
  next
    case False
    with Cons.prems have r: "sdVert_loop ifes fes v sdVert (found, dofmap) = Inr (found', dofmap')"
      and "w \<in> set sdVert"
      by auto
    from Cons.IH[OF r this(2) Cons.prems(3)] show ?thesis .
  qed
qed

lemma ifVert_loop_agrees:
  "ifVert_loop ifes fes sdVert ifVert dofmap = Inr dofmap'
     \<Longrightarrow> v \<in> set ifVert \<Longrightarrow> w \<in> set sdVert
     \<Longrightarrow> verticesEqual (GetVertex (GetParMesh ifes) v) (GetVertex (GetParMesh fes) w) vertexTol
     \<Longrightarrow> dofmap_agrees fes (GetVertexDofs ifes v) (GetVertexDofs fes w) dofmap'"
proof (induction ifVert arbitrary: dofmap)
  case Nil
  then show ?case by simp
next
  case (Cons u ifVert)
  from Cons.prems(1) obtain found d1 where d1:
    "sdVert_loop ifes fes u sdVert (False, dofmap) = Inr (found, d1)"
    "ifVert_loop ifes fes sdVert ifVert d1 = Inr dofmap'"
    by (auto simp: bind_err_Inr split: if_splits)
  show ?case
  proof (cases "v \<in> set ifVert")
    case True
    from Cons.IH[OF d1(2) True Cons.prems(3,4)] show ?thesis .
  next
    case False
    with Cons.prems(2) have "v = u" by simp
    with sdVert_loop_agrees[OF d1(1) Cons.prems(3)] Cons.prems(4) ifVert_loop_extends[OF d1(2)]
    show ?thesis by (auto intro: dofmap_agrees_extends)
  qed
qed

lemma sdEdge_loop_unique:
  "sdEdge_loop ifMesh sdMesh ifVert sdEdge ks sd_k = Inr r
     \<Longrightarrow> (sd_k \<noteq> - 1 \<longrightarrow> r = sd_k)
       \<and> (\<forall>k\<in>set ks. edgesMatch ifMesh sdMesh ifVert (GetEdgeVertices sdMesh (sdEdge ! k))
             \<longrightarrow> r = int k)"
proof (induction ks arbitrary: sd_k)
  case Nil
  then show ?case by simp
next
  case (Cons k ks)
  show ?case
  proof (cases "edgesMatch ifMesh sdMesh ifVert (GetEdgeVertices sdMesh (sdEdge ! k))")
    case True
    with Cons.prems have s: "sd_k = - 1" and r: "sdEdge_loop ifMesh sdMesh ifVert sdEdge ks (int k) = Inr r"
      by (auto simp: Let_def split: if_splits)
    from Cons.IH[OF r] have "r = int k"
      "\<forall>k'\<in>set ks. edgesMatch ifMesh sdMesh ifVert (GetEdgeVertices sdMesh (sdEdge ! k')) \<longrightarrow> r = int k'"
      by auto
    with s show ?thesis by auto
  next
    case False
    with Cons.prems have r: "sdEdge_loop ifMesh sdMesh ifVert sdEdge ks sd_k = Inr r"
      by (auto simp: Let_def split: if_splits)
    from Cons.IH[OF r] False show ?thesis by auto
  qed
qed

lemma ifEdge_loop_agrees:
  "ifEdge_loop ifes fes sdEdge ifEdge dofmap = Inr dofmap'
     \<Longrightarrow> e \<in> set ifEdge \<Longrightarrow> g \<in> set sdEdge
     \<Longrightarrow> edgesMatch (GetParMesh ifes) (GetParMesh fes)
           (GetEdgeVertices (GetParMesh ifes) e) (GetEdgeVertices (GetParMesh fes) g)
     \<Longrightarrow> dofmap_agrees fes (GetEdgeDofs ifes e) (GetEdgeDofs fes g) dofmap'"
proof (induction ifEdge arbitrary: dofmap)
  case Nil
  then show ?case by simp
next
  case (Cons u ifEdge)
  from Cons.prems(1) obtain sd_k d1 where
    k: "sdEdge_loop (GetParMesh ifes) (GetParMesh fes) (GetEdgeVertices (GetParMesh ifes) u) sdEdge
          [0..<length sdEdge] (- 1) = Inr sd_k" "0 \<le> sd_k"
    and d1: "map_dofs fes (GetEdgeDofs ifes u) (GetEdgeDofs fes (sdEdge ! nat sd_k)) dofmap = Inr d1"
      "ifEdge_loop ifes fes sdEdge ifEdge d1 = Inr dofmap'"
    by (auto simp: bind_err_Inr Let_def split: if_splits)
  show ?case
  proof (cases "e \<in> set ifEdge")
    case True
    from Cons.IH[OF d1(2) True Cons.prems(3,4)] show ?thesis .
  next
    case False
    with Cons.prems(2) have eu: "e = u" by simp
    from Cons.prems(3) obtain n where n: "n < length sdEdge" "sdEdge ! n = g"
      by (auto simp: in_set_conv_nth)
    from sdEdge_loop_unique[OF k(1)] n Cons.prems(4) eu have "sd_k = int n" by auto
    then have "sdEdge ! nat sd_k = g" using n by simp
    with map_dofs_agrees[OF d1(1)] eu ifEdge_loop_extends[OF d1(2)] show ?thesis
      by (auto intro: dofmap_agrees_extends)
  qed
qed

lemma matched_pairs_agree_extends:
  "matched_pairs_agree ifes fes fec i sdf d \<Longrightarrow> dofmap_extends d D
     \<Longrightarrow> matched_pairs_agree ifes fes fec i sdf D"
  unfolding matched_pairs_agree_def by (blast intro: dofmap_agrees_extends)

lemma face_stages_agrees:
  assumes "face_stages ifes fes fec i sdf dofmap = Inr dofmap'"
  shows "matched_pairs_agree ifes fes fec i sdf dofmap'"
proof -
  from assms obtain d1 d2 where
    a: "(if fec POINT > 0 then vertex_dofs ifes fes i sdf dofmap else Inr dofmap) = Inr d1"
    and b: "(if fec SEGMENT > 0 then edge_dofs ifes fes i sdf d1 else Inr d1) = Inr d2"
    and c: "(if fec (GetFaceGeometryType (GetParMesh fes) 0) > 0
             then face_dofs ifes fes i sdf d2 else Inr d2) = Inr dofmap'"
    unfolding face_stages_def bind_err_Inr by blast
  have e12: "dofmap_extends d1 d2"
    using b by (auto split: if_splits intro: edge_dofs_extends dofmap_extends_refl)
  have e2: "dofmap_extends d2 dofmap'"
    using c by (auto split: if_splits intro: face_dofs_extends dofmap_extends_refl)
  have e1: "dofmap_extends d1 dofmap'" using e12 e2 by (rule dofmap_extends_trans)
  have v: "dofmap_agrees fes (GetVertexDofs ifes v) (GetVertexDofs fes w) dofmap'"
    if "fec POINT > 0" "v \<in> set (GetFaceVertices (GetParMesh ifes) i)"
       "w \<in> set (GetFaceVertices (GetParMesh fes) sdf)"
       "verticesEqual (GetVertex (GetParMesh ifes) v) (GetVertex (GetParMesh fes) w) vertexTol" for v w
  proof -
    from a that(1) have "ifVert_loop ifes fes (GetFaceVertices (GetParMesh fes) sdf)
        (GetFaceVertices (GetParMesh ifes) i) dofmap = Inr d1"
      by (auto simp: vertex_dofs_def Let_def split: if_splits)
    from ifVert_loop_agrees[OF this that(2,3,4)] e1 show ?thesis by (rule dofmap_agrees_extends)
  qed
  have e: "dofmap_agrees fes (GetEdgeDofs ifes e) (GetEdgeDofs fes g) dofmap'"
    if "fec SEGMENT > 0" "e \<in> set (GetElementEdges (GetParMesh ifes) i)"
       "g \<in> set (GetFaceEdges (GetParMesh fes) sdf)"
       "edgesMatch (GetParMesh ifes) (GetParMesh fes)
           (GetEdgeVertices (GetParMesh ifes) e) (GetEdgeVertices (GetParMesh fes) g)" for e g
  proof -
    from b that(1) have "ifEdge_loop ifes fes (GetFaceEdges (GetParMesh fes) sdf)
        (GetElementEdges (GetParMesh ifes) i) d1 = Inr d2"
      by (auto simp: edge_dofs_def Let_def split: if_splits)
    from ifEdge_loop_agrees[OF this that(2,3,4)] e2 show ?thesis by (rule dofmap_agrees_extends)
  qed
  have f: "dofmap_agrees fes (GetFaceDofs ifes i) (GetFaceDofs fes sdf) dofmap'"
    if "fec (GetFaceGeometryType (GetParMesh fes) 0) > 0"
    using c that by (auto simp: face_dofs_def intro: map_dofs_agrees)
  show ?thesis unfolding matched_pairs_agree_def using v e f by blast
qed

lemma interface_loop_agrees:
  "interface_loop ifes fes fec m1 m2 fcs i0 dofmap = Inr dofmap'
     \<Longrightarrow> n < length fcs \<Longrightarrow> m1 (fcs ! n) = Some pe
     \<Longrightarrow> \<exists>sde sdf. m2 pe = Some sde
           \<and> find_sdMeshFace (GetParMesh fes) (GetParMesh ifes) (i0 + int n) sde = Inr sdf
           \<and> matched_pairs_agree ifes fes fec (i0 + int n) sdf dofmap'"
proof (induction fcs arbitrary: i0 dofmap n)
  case Nil
  then show ?case by simp
next
  case (Cons f fcs)
  show ?case
  proof (cases n)
    case 0
    with Cons.prems(3) have m: "m1 f = Some pe" by simp
    with Cons.prems(1) obtain sde sdf d1 where
      s: "m2 pe = Some sde" "find_sdMeshFace (GetParMesh fes) (GetParMesh ifes) i0 sde = Inr sdf"
      and d1: "face_stages ifes fes fec i0 sdf dofmap = Inr d1"
          "interface_loop ifes fes fec m1 m2 fcs (i0 + 1) d1 = Inr dofmap'"
      by (auto simp: bind_err_Inr split: option.splits)
    from face_stages_agrees[OF d1(1)] interface_loop_extends[OF d1(2)]
    have "matched_pairs_agree ifes fes fec i0 sdf dofmap'" by (rule matched_pairs_agree_extends)
    with s 0 show ?thesis by simp
  next
    case (Suc k)
    have r: "\<exists>d1. interface_loop ifes fes fec m1 m2 fcs (i0 + 1) d1 = Inr dofmap'"
      using Cons.prems(1) by (auto simp: bind_err_Inr split: option.splits)
    then obtain d1 where d1: "interface_loop ifes fes fec m1 m2 fcs (i0 + 1) d1 = Inr dofmap'" ..
    from Cons.prems(2,3) Suc have k: "k < length fcs" "m1 (fcs ! k) = Some pe" by simp_all
    have e: "i0 + 1 + int k = i0 + int n" using Suc by simp
    from Cons.IH[OF d1 k] show ?thesis unfolding e .
  qed
qed

lemma SetInterfaceToSurfaceDOFMap_agrees:
  assumes "SetInterfaceToSurfaceDOFMap ifes fes pm sdAttribute fcs fec = Inr dofmap"
  shows "\<exists>pmeshFaceToElem E.
     pmeshElem_loop pm sdAttribute fcs [0..GetNE pm - 1] (Map.empty, {||}) = Inr (pmeshFaceToElem, E)
     \<and> (\<forall>n<length (sorted_list_of_fset fcs). \<forall>pe.
           pmeshFaceToElem (sorted_list_of_fset fcs ! n) = Some pe
           \<longrightarrow> (\<exists>sde sdf. sdElem_loop (GetParMesh fes) E pe = Some sde
                 \<and> find_sdMeshFace (GetParMesh fes) (GetParMesh ifes) (int n) sde = Inr sdf
                 \<and> matched_pairs_agree ifes fes fec (int n) sdf dofmap))"
proof -
  from assms obtain m1 E where
    p: "pmeshElem_loop pm sdAttribute fcs [0..GetNE pm - 1] (Map.empty, {||}) = Inr (m1, E)"
    and r: "interface_loop ifes fes fec m1 (sdElem_loop (GetParMesh fes) E)
       (sorted_list_of_fset fcs) 0 (replicate (nat (GetVSize ifes)) (- 1)) = Inr dofmap"
    by (auto simp: SetInterfaceToSurfaceDOFMap_def Let_def bind_err_Inr)
  have "\<exists>sde sdf. sdElem_loop (GetParMesh fes) E pe = Some sde
                 \<and> find_sdMeshFace (GetParMesh fes) (GetParMesh ifes) (int n) sde = Inr sdf
                 \<and> matched_pairs_agree ifes fes fec (int n) sdf dofmap"
    if "n < length (sorted_list_of_fset fcs)" "m1 (sorted_list_of_fset fcs ! n) = Some pe" for n pe
    using interface_loop_agrees[OF r that] by simp
  with p show ?thesis by blast
qed

lemma dofs_loop_conflict:
  assumes "(i, s) \<in> set pairs" "(i, s') \<in> set pairs"
    "GetLocalTDofNumber fes s \<ge> 0" "GetLocalTDofNumber fes s' \<ge> 0"
    "GetLocalTDofNumber fes s \<noteq> GetLocalTDofNumber fes s'"
  shows "isl (dofs_loop fes pairs dofmap)"
proof (rule ccontr)
  assume "\<not> isl (dofs_loop fes pairs dofmap)"
  then obtain d' where d': "dofs_loop fes pairs dofmap = Inr d'"
    by (cases "dofs_loop fes pairs dofmap") auto
  from dofs_loop_agrees_bounds[OF d' assms(1,3)] dofs_loop_agrees_bounds[OF d' assms(2,4)] assms(5)
  show False by simp
qed

lemma conflict_run:
  "SetInterfaceToSurfaceDOFMap conflictSpace tetSpace tetMesh 1 {|0|} nd_fec = Inl VerifyFailed"
proof -
  have a: "GetParMesh tetSpace = tetMesh" "GetParMesh conflictSpace = triangleMesh"
     "GetVSize conflictSpace = 3" "nd_fec POINT = 0" "nd_fec SEGMENT = 1"
     "nd_fec (GetFaceGeometryType tetMesh 0) = 0"
    by (simp_all add: tetSpace_def conflictSpace_def triSpace_def nd_fec_def tetMesh_def)
  have s: "sorted_list_of_fset {|0::int|} = [0]" by (simp add: sorted_list_of_fset.rep_eq)
  have r: "replicate 3 (- 1 :: int) = [- 1, - 1, - 1]" by (simp add: numeral_3_eq_3)
  have e: "edge_dofs conflictSpace tetSpace 0 0 [- 1, - 1, - 1] = Inl VerifyFailed"
    by (simp add: edge_dofs_def conflictSpace_def tet_defs edgesMatch_def verticesEqual_eval upt3 two
        coord_def map_dofs_def write_dof_def vec_get_def vec_set_def upt_rec)
  show ?thesis
    by (simp add: SetInterfaceToSurfaceDOFMap_def tet_maps tet_sdElem a s r tet_find
          face_stages_def e)
qed

text \<open>
  Claim C5.  Every write into the table goes through the same guarded step: when the
  step writes the true-DOF target \<open>t\<close> into an entry, the entry held the sentinel \<open>-1\<close>
  or \<open>t\<close> before, and a write of \<open>t\<close> over a different non-sentinel value fails; a
  list of DOF pairs that gives one interface DOF two different true-DOF targets makes
  the loop over the pairs fail.  The vertex, the edge and the face matching, and the
  whole loop over the interface faces started from any table, leave every mapped entry
  as it is.  When the whole function returns a table, every entry of it is the sentinel
  or a true-DOF number, and the table agrees with every DOF pair the algorithm has
  matched: for every interface face that has a neighbouring element, with the face of
  the subdomain element that the search has found, the DOFs of every pair of equal
  vertices, of every pair of matching edges, and of the two faces are mapped onto each
  other wherever the subdomain DOF is a true DOF.  So no entry has received two targets
  at any point of the run.
\<close>

theorem dofmap_single_target:
  "(\<forall>dofmap dofmap'. write_dof fes ifdof sddof dofmap = Inr dofmap'
        \<and> GetLocalTDofNumber fes sddof \<ge> 0 \<longrightarrow>
      0 \<le> ifdof \<and> ifdof < int (length dofmap) \<and>
      (dofmap ! nat ifdof = - 1 \<or> dofmap ! nat ifdof = GetLocalTDofNumber fes sddof) \<and>
      dofmap' = dofmap[nat ifdof := GetLocalTDofNumber fes sddof]) \<and>
   (\<forall>dofmap. 0 \<le> ifdof \<and> ifdof < int (length dofmap) \<and> GetLocalTDofNumber fes sddof \<ge> 0 \<and>
      dofmap ! nat ifdof \<noteq> - 1 \<and> dofmap ! nat ifdof \<noteq> GetLocalTDofNumber fes sddof \<longrightarrow>
      write_dof fes ifdof sddof dofmap = Inl VerifyFailed) \<and>
   (\<forall>pairs dofmap s s'. (ifdof, s) \<in> set pairs \<and> (ifdof, s') \<in> set pairs \<and>
      GetLocalTDofNumber fes s \<ge> 0 \<and> GetLocalTDofNumber fes s' \<ge> 0 \<and>
      GetLocalTDofNumber fes s \<noteq> GetLocalTDofNumber fes s'
      \<longrightarrow> isl (dofs_loop fes pairs dofmap)) \<and>
   (\<forall>ifdofs sddofs dofmap dofmap'. map_dofs fes ifdofs sddofs dofmap = Inr dofmap'
      \<longrightarrow> dofmap_agrees fes ifdofs sddofs dofmap' \<and> dofmap_extends dofmap dofmap') \<and>
   (\<forall>dofmap dofmap'. vertex_dofs ifes fes i sdMeshFace dofmap = Inr dofmap'
      \<longrightarrow> dofmap_extends dofmap dofmap') \<and>
   (\<forall>dofmap dofmap'. edge_dofs ifes fes i sdMeshFace dofmap = Inr dofmap'
      \<longrightarrow> dofmap_extends dofmap dofmap') \<and>
   (\<forall>dofmap dofmap'. face_dofs ifes fes i sdMeshFace dofmap = Inr dofmap'
      \<longrightarrow> dofmap_extends dofmap dofmap') \<and>
   (\<forall>dofmap dofmap'. face_stages ifes fes fec i sdMeshFace dofmap = Inr dofmap'
      \<longrightarrow> dofmap_extends dofmap dofmap' \<and> matched_pairs_agree ifes fes fec i sdMeshFace dofmap') \<and>
   (\<forall>dofmap dofmap'.
      interface_loop ifes fes fec pmeshFaceToElem pmeshElemToSDmesh fcs i dofmap = Inr dofmap'
      \<longrightarrow> dofmap_extends dofmap dofmap') \<and>
   (\<forall>dofmap. SetInterfaceToSurfaceDOFMap ifes fes pm sdAttribute pmeshFacesInInterface fec
        = Inr dofmap
      \<longrightarrow> length dofmap = nat (GetVSize ifes) \<and>
          (\<forall>k<length dofmap. dofmap ! k = - 1 \<or> dofmap ! k \<ge> 0) \<and>
          (\<exists>faceToElem E.
             pmeshElem_loop pm sdAttribute pmeshFacesInInterface [0..GetNE pm - 1] (Map.empty, {||})
               = Inr (faceToElem, E)
             \<and> (\<forall>n<length (sorted_list_of_fset pmeshFacesInInterface). \<forall>pe.
                   faceToElem (sorted_list_of_fset pmeshFacesInInterface ! n) = Some pe
                   \<longrightarrow> (\<exists>sde sdf. sdElem_loop (GetParMesh fes) E pe = Some sde
                         \<and> find_sdMeshFace (GetParMesh fes) (GetParMesh ifes) (int n) sde = Inr sdf
                         \<and> matched_pairs_agree ifes fes fec (int n) sdf dofmap))))"
proof (intro conjI allI impI)
  fix dofmap dofmap'
  assume a: "write_dof fes ifdof sddof dofmap = Inr dofmap' \<and> GetLocalTDofNumber fes sddof \<ge> 0"
  from write_dof_cases[of fes ifdof sddof dofmap dofmap'] a
  show "0 \<le> ifdof" "ifdof < int (length dofmap)"
    "dofmap ! nat ifdof = - 1 \<or> dofmap ! nat ifdof = GetLocalTDofNumber fes sddof"
    "dofmap' = dofmap[nat ifdof := GetLocalTDofNumber fes sddof]"
    by auto
next
  fix dofmap
  assume "0 \<le> ifdof \<and> ifdof < int (length dofmap) \<and> GetLocalTDofNumber fes sddof \<ge> 0 \<and>
      dofmap ! nat ifdof \<noteq> - 1 \<and> dofmap ! nat ifdof \<noteq> GetLocalTDofNumber fes sddof"
  then show "write_dof fes ifdof sddof dofmap = Inl VerifyFailed"
    by (simp add: write_dof_conflict)
next
  fix pairs dofmap s s'
  assume "(ifdof, s) \<in> set pairs \<and> (ifdof, s') \<in> set pairs \<and>
      GetLocalTDofNumber fes s \<ge> 0 \<and> GetLocalTDofNumber fes s' \<ge> 0 \<and>
      GetLocalTDofNumber fes s \<noteq> GetLocalTDofNumber fes s'"
  then show "isl (dofs_loop fes pairs dofmap)" by (blast intro: dofs_loop_conflict)
next
  fix dofmap
  assume r: "SetInterfaceToSurfaceDOFMap ifes fes pm sdAttribute pmeshFacesInInterface fec
        = Inr dofmap"
  from SetInterfaceToSurfaceDOFMap_entries[OF r]
  show "length dofmap = nat (GetVSize ifes)"
    and "\<And>k. k < length dofmap \<Longrightarrow> dofmap ! k = - 1 \<or> dofmap ! k \<ge> 0"
    by auto
  from SetInterfaceToSurfaceDOFMap_agrees[OF r]
  show "\<exists>faceToElem E.
             pmeshElem_loop pm sdAttribute pmeshFacesInInterface [0..GetNE pm - 1] (Map.empty, {||})
               = Inr (faceToElem, E)
             \<and> (\<forall>n<length (sorted_list_of_fset pmeshFacesInInterface). \<forall>pe.
                   faceToElem (sorted_list_of_fset pmeshFacesInInterface ! n) = Some pe
                   \<longrightarrow> (\<exists>sde sdf. sdElem_loop (GetParMesh fes) E pe = Some sde
                         \<and> find_sdMeshFace (GetParMesh fes) (GetParMesh ifes) (int n) sde = Inr sdf
                         \<and> matched_pairs_agree ifes fes fec (int n) sdf dofmap))" .
qed (auto intro: vertex_dofs_extends edge_dofs_extends face_dofs_extends interface_loop_extends
       face_stages_extends face_stages_agrees map_dofs_agrees map_dofs_extends)

theorem dofmap_single_target_witness:
  "SetInterfaceToSurfaceDOFMap triSpace tetSpace tetMesh 1 {|0|} nd_fec = Inr [1, 0, - 1] \<and>
   matched_pairs_agree triSpace tetSpace nd_fec 0 0 [1, 0, - 1] \<and>
   dofmap_extends [- 1, - 1, - 1] [1, 0, - 1] \<and>
   write_dof tetSpace 0 2 [1, 0, - 1] = Inr [1, 0, - 1] \<and>
   write_dof tetSpace 0 4 [1, 0, - 1] = Inl VerifyFailed \<and>
   isl (dofs_loop tetSpace [(0, 2), (0, 4)] [- 1, - 1, - 1]) \<and>
   SetInterfaceToSurfaceDOFMap conflictSpace tetSpace tetMesh 1 {|0|} nd_fec = Inl VerifyFailed"
proof -
  have t: "GetLocalTDofNumber tetSpace 4 = 3" "GetLocalTDofNumber tetSpace 2 = 1"
    by (simp_all add: tetSpace_def)
  have w: "write_dof tetSpace 0 2 [1, 0, - 1] = Inr [1, 0, - 1]"
    by (simp add: write_dof_def t vec_get_def vec_set_def)
  have a: "GetParMesh tetSpace = tetMesh" "GetParMesh triSpace = triangleMesh"
    by (simp_all add: tetSpace_def triSpace_def)
  have s: "sorted_list_of_fset {|0::int|} = [0]" by (simp add: sorted_list_of_fset.rep_eq)
  have g: "GetNE tetMesh = 1" by (simp add: tetMesh_def)
  note T = dofmap_single_target[of tetSpace 0 4 triSpace 0 0 nd_fec Map.empty Map.empty "[]" tetMesh 1 "{|0|}"]
  from T have T3: "\<forall>pairs dofmap s s'. (0, s) \<in> set pairs \<and> (0, s') \<in> set pairs \<and>
      GetLocalTDofNumber tetSpace s \<ge> 0 \<and> GetLocalTDofNumber tetSpace s' \<ge> 0 \<and>
      GetLocalTDofNumber tetSpace s \<noteq> GetLocalTDofNumber tetSpace s'
      \<longrightarrow> isl (dofs_loop tetSpace pairs dofmap)"
    apply (elim conjE)
    apply assumption
    done
  from T have TL: "\<forall>dofmap. SetInterfaceToSurfaceDOFMap triSpace tetSpace tetMesh 1 {|0|} nd_fec
        = Inr dofmap
      \<longrightarrow> length dofmap = nat (GetVSize triSpace) \<and>
          (\<forall>k<length dofmap. dofmap ! k = - 1 \<or> dofmap ! k \<ge> 0) \<and>
          (\<exists>faceToElem E.
             pmeshElem_loop tetMesh 1 {|0|} [0..GetNE tetMesh - 1] (Map.empty, {||})
               = Inr (faceToElem, E)
             \<and> (\<forall>n<length (sorted_list_of_fset {|0::int|}). \<forall>pe.
                   faceToElem (sorted_list_of_fset {|0|} ! n) = Some pe
                   \<longrightarrow> (\<exists>sde sdf. sdElem_loop (GetParMesh tetSpace) E pe = Some sde
                         \<and> find_sdMeshFace (GetParMesh tetSpace) (GetParMesh triSpace) (int n) sde = Inr sdf
                         \<and> matched_pairs_agree triSpace tetSpace nd_fec (int n) sdf dofmap)))"
    apply (elim conjE)
    apply assumption
    done
  from TL[rule_format, OF tet_run] obtain f2e E where
    p: "pmeshElem_loop tetMesh 1 {|0|} [0..GetNE tetMesh - 1] (Map.empty, {||}) = Inr (f2e, E)"
    and q: "\<forall>n<length (sorted_list_of_fset {|0::int|}). \<forall>pe.
                   f2e (sorted_list_of_fset {|0|} ! n) = Some pe
                   \<longrightarrow> (\<exists>sde sdf. sdElem_loop (GetParMesh tetSpace) E pe = Some sde
                         \<and> find_sdMeshFace (GetParMesh tetSpace) (GetParMesh triSpace) (int n) sde = Inr sdf
                         \<and> matched_pairs_agree triSpace tetSpace nd_fec (int n) sdf [1, 0, - 1])"
    by blast
  from p tet_maps have fe: "f2e = [0 \<mapsto> 0]" "E = {|0|}" by simp_all
  from q[rule_format, of 0 0] fe obtain sde sdf where
    m: "sdElem_loop tetMesh {|0|} 0 = Some sde"
       "find_sdMeshFace tetMesh triangleMesh 0 sde = Inr sdf"
       "matched_pairs_agree triSpace tetSpace nd_fec 0 sdf [1, 0, - 1]"
    by (auto simp: s a)
  from m(1) tet_sdElem have "sde = 0" by simp
  with m(2) tet_find have "sdf = 0" by simp
  with m(3) have ag: "matched_pairs_agree triSpace tetSpace nd_fec 0 0 [1, 0, - 1]" by simp
  have c: "isl (dofs_loop tetSpace [(0, 2), (0, 4)] [- 1, - 1, - 1])"
    using T3[rule_format, where pairs = "[(0, 2), (0, 4)]" and s = 2 and s' = 4
        and dofmap = "[- 1, - 1, - 1]"] t
    by simp
  have x: "dofmap_extends [- 1, - 1, - 1] [1, 0, - 1]"
    by (simp add: dofmap_extends_nth less_Suc_eq numeral_3_eq_3)
  have v: "write_dof tetSpace 0 4 [1, 0, - 1] = Inl VerifyFailed"
    by (simp add: write_dof_def t vec_get_def)
  from tet_run ag x w v c conflict_run show ?thesis by simp
qed

section \<open>The global block offsets\<close>


lemma fold_err_inv:
  assumes "fold_err f xs s = Inr s'" "P s"
    and "\<And>x s s'. x \<in> set xs \<Longrightarrow> P s \<Longrightarrow> f x s = Inr s' \<Longrightarrow> P s'"
  shows "P s'"
  using assms
proof (induction xs arbitrary: s)
  case Nil
  then show ?case by simp
next
  case (Cons x xs)
  from Cons.prems(1) obtain s1 where s1: "f x s = Inr s1" "fold_err f xs s1 = Inr s'"
    by (auto simp: bind_err_Inr)
  have "P s1" using Cons.prems(2,3) s1(1) by auto
  with Cons.IH[OF s1(2)] Cons.prems(3) show ?case by auto
qed

lemma fold_err_sum:
  fixes g :: "'s \<Rightarrow> int"
  assumes "fold_err f xs s = Inr s'" "P s"
    and "\<And>x s s'. x \<in> set xs \<Longrightarrow> P s \<Longrightarrow> f x s = Inr s' \<Longrightarrow> P s' \<and> g s' = g s + w x"
  shows "P s' \<and> g s' = g s + sum_list (map w xs)"
  using assms
proof (induction xs arbitrary: s)
  case Nil
  then show ?case by simp
next
  case (Cons x xs)
  from Cons.prems(1) obtain s1 where s1: "f x s = Inr s1" "fold_err f xs s1 = Inr s'"
    by (auto simp: bind_err_Inr)
  have p: "P s1 \<and> g s1 = g s + w x" using Cons.prems(2,3) s1(1) by auto
  have "P s' \<and> g s' = g s1 + sum_list (map w xs)"
    using Cons.IH[OF s1(2)] p Cons.prems(3) by auto
  with p show ?case by simp
qed

lemma vec_get_Inr: "vec_get v i = Inr a \<longleftrightarrow> 0 \<le> i \<and> i < int (length v) \<and> v ! nat i = a"
  by (auto simp: vec_get_def)





lemma int32_add_left: "int32 (int32 x + y) = int32 (x + y)"
proof -
  have "(int32 x + y + 2 ^ 31) mod 2 ^ 32 = ((x + 2 ^ 31) mod 2 ^ 32 + y) mod 2 ^ 32"
    by (simp add: int32_def)
  also have "\<dots> = (x + 2 ^ 31 + y) mod 2 ^ 32" by (rule mod_add_left_eq)
  also have "\<dots> = (x + y + 2 ^ 31) mod 2 ^ 32" by (simp add: ac_simps)
  finally have e: "(int32 x + y + 2 ^ 31) mod 2 ^ 32 = (x + y + 2 ^ 31) mod 2 ^ 32" .
  have "int32 (int32 x + y) = (int32 x + y + 2 ^ 31) mod 2 ^ 32 - 2 ^ 31" by (rule int32_def)
  also have "\<dots> = (x + y + 2 ^ 31) mod 2 ^ 32 - 2 ^ 31" by (simp only: e)
  also have "\<dots> = int32 (x + y)" by (rule int32_def[symmetric])
  finally show ?thesis .
qed

lemma int32_add_right: "int32 (x + int32 y) = int32 (x + y)"
  using int32_add_left[of y x] by (simp add: add.commute)






















section \<open>The subdomain block operator\<close>


lemma SetBlock_Inr:
  "SetBlock B r c A k = Inr B' \<longleftrightarrow>
     0 \<le> r \<and> nat r < NumRowBlocks B \<and> 0 \<le> c \<and> nat c < NumColBlocks B \<and>
     B' = B\<lparr>block_op := (block_op B)(nat r := (block_op B (nat r))(nat c := Some A)),
            block_coef := (block_coef B)(nat r := (block_coef B (nat r))(nat c := k))\<rparr>"
  by (auto simp: SetBlock_def)

lemma sd_blocks_step_Inr:
  assumes "sd_blocks_step a injs (i, idx) blk = Inr blk'"
  shows "i < length injs"
    and "block_op blk' 0 (2 * i + 2)
           = Some (ProductOperator (Inj_as_Operator (injs ! i)) (ifNDH1grad a idx))"
    and "block_coef blk' 0 (2 * i + 2) = - gamma a"
    and "block_op blk' (2 * i + 1) (2 * i + 1) = Some (ifNDmass a idx)"
    and "block_coef blk' (2 * i + 1) (2 * i + 1) = 1 / alpha a"
    and "block_op blk' (2 * i + 2) (2 * i + 2) = Some (ifH1mass a idx)"
    and "\<And>r c. \<not> sd_touched i r c \<Longrightarrow>
           block_op blk' r c = block_op blk r c \<and> block_coef blk' r c = block_coef blk r c"
  using assms unfolding sd_blocks_step_def
  by (auto simp: bind_err_Inr SetBlock_Inr vec_get_Inr sd_touched_def nat_add_distrib nat_mult_distrib)


lemma sd_touched_disjoint: "sd_touched i r c \<Longrightarrow> sd_touched j r c \<Longrightarrow> i = j"
  by (auto simp: sd_touched_def)

lemma sd_blocks_fold_untouched:
  assumes "fold_err (sd_blocks_step a injs) ps blk = Inr blk'"
    and "\<forall>p\<in>set ps. \<not> sd_touched (fst p) r c"
  shows "block_op blk' r c = block_op blk r c \<and> block_coef blk' r c = block_coef blk r c"
  using assms
proof (induction ps arbitrary: blk)
  case Nil
  then show ?case by simp
next
  case (Cons p ps)
  obtain i idx where p: "p = (i, idx)" by (cases p)
  from Cons.prems(1) p obtain b1 where b1: "sd_blocks_step a injs (i, idx) blk = Inr b1"
      "fold_err (sd_blocks_step a injs) ps b1 = Inr blk'"
    by (auto simp: bind_err_Inr)
  have "\<not> sd_touched i r c" using Cons.prems(2) p by simp
  from sd_blocks_step_Inr(7)[OF b1(1) this] Cons.IH[OF b1(2)] Cons.prems(2)
  show ?case by simp
qed

lemma sd_blocks_fold_touched:
  assumes "fold_err (sd_blocks_step a injs) ps blk = Inr blk'"
    and "(i, idx) \<in> set ps" and "distinct (map fst ps)"
  shows "i < length injs
    \<and> block_op blk' 0 (2 * i + 2)
           = Some (ProductOperator (Inj_as_Operator (injs ! i)) (ifNDH1grad a idx))
    \<and> block_coef blk' 0 (2 * i + 2) = - gamma a
    \<and> block_op blk' (2 * i + 1) (2 * i + 1) = Some (ifNDmass a idx)
    \<and> block_coef blk' (2 * i + 1) (2 * i + 1) = 1 / alpha a
    \<and> block_op blk' (2 * i + 2) (2 * i + 2) = Some (ifH1mass a idx)"
  using assms
proof (induction ps arbitrary: blk)
  case Nil
  then show ?case by simp
next
  case (Cons p ps)
  obtain j jdx where p: "p = (j, jdx)" by (cases p)
  from Cons.prems(1) p obtain b1 where b1: "sd_blocks_step a injs (j, jdx) blk = Inr b1"
      "fold_err (sd_blocks_step a injs) ps b1 = Inr blk'"
    by (auto simp: bind_err_Inr)
  show ?case
  proof (cases "(i, idx) \<in> set ps")
    case True
    with Cons.IH[OF b1(2)] Cons.prems(3) show ?thesis by simp
  next
    case False
    with Cons.prems(2) p have e: "j = i" "jdx = idx" by auto
    have nt: "\<forall>q\<in>set ps. \<not> sd_touched (fst q) r c" if "sd_touched i r c" for r c
    proof
      fix q assume q: "q \<in> set ps"
      then have "fst q \<noteq> i" using Cons.prems(3) p e by auto
      with sd_touched_disjoint[OF _ that] show "\<not> sd_touched (fst q) r c" by blast
    qed
    have t: "sd_touched i 0 (2 * i + 2)" "sd_touched i (2 * i + 1) (2 * i + 1)"
      "sd_touched i (2 * i + 2) (2 * i + 2)"
      by (simp_all add: sd_touched_def)
    from sd_blocks_fold_untouched[OF b1(2) nt[OF t(1)]]
      sd_blocks_fold_untouched[OF b1(2) nt[OF t(2)]]
      sd_blocks_fold_untouched[OF b1(2) nt[OF t(3)]]
      sd_blocks_step_Inr(1-6)[OF b1(1)[unfolded e]]
    show ?thesis by simp
  qed
qed

lemma CreateSubdomainOperator_Inr:
  assumes "CreateSubdomainOperator a d subdomain = Inr A"
  shows "\<exists>offs blk. 0 \<le> subdomain \<and> nat subdomain < length (subdomainLocalInterfaces d)
      \<and> nat subdomain < length (InterfaceToSurfaceInjection d)
      \<and> SetBlock (new_BlockOperator (PartialSum offs)) 0 0 (sdND a subdomain) 1 = Inr blk
      \<and> fold_err (sd_blocks_step a (InterfaceToSurfaceInjection d ! nat subdomain))
           (zip [0..<length (subdomainLocalInterfaces d ! nat subdomain)]
                (subdomainLocalInterfaces d ! nat subdomain)) blk = Inr A"
  using assms unfolding CreateSubdomainOperator_def Let_def
  by (auto simp: bind_err_Inr vec_get_Inr)

lemma CreateSubdomainOperator_blocks:
  assumes c: "CreateSubdomainOperator a d subdomain = Inr A"
    and i: "i < length (subdomainLocalInterfaces d ! nat subdomain)"
  shows "block_op A 0 (2 * i + 1) = None
    \<and> block_op A 0 (2 * i + 2)
         = Some (ProductOperator
                   (Inj_as_Operator (InterfaceToSurfaceInjection d ! nat subdomain ! i))
                   (ifNDH1grad a (subdomainLocalInterfaces d ! nat subdomain ! i)))
    \<and> block_coef A 0 (2 * i + 2) = - gamma a
    \<and> block_op A (2 * i + 1) (2 * i + 1)
         = Some (ifNDmass a (subdomainLocalInterfaces d ! nat subdomain ! i))
    \<and> block_coef A (2 * i + 1) (2 * i + 1) = 1 / alpha a
    \<and> block_op A (2 * i + 2) (2 * i + 2)
         = Some (ifH1mass a (subdomainLocalInterfaces d ! nat subdomain ! i))"
proof -
  let ?idxs = "subdomainLocalInterfaces d ! nat subdomain"
  let ?injs = "InterfaceToSurfaceInjection d ! nat subdomain"
  let ?ps = "zip [0..<length ?idxs] ?idxs"
  from CreateSubdomainOperator_Inr[OF c] obtain offs blk where
    b: "SetBlock (new_BlockOperator (PartialSum offs)) 0 0 (sdND a subdomain) 1 = Inr blk"
    and f: "fold_err (sd_blocks_step a ?injs) ?ps blk = Inr A"
    by blast
  have d: "distinct (map fst ?ps)" by simp
  have m: "(i, ?idxs ! i) \<in> set ?ps" using i by (auto simp: set_zip intro!: exI[of _ i])
  have nt: "\<forall>p\<in>set ?ps. \<not> sd_touched (fst p) 0 (2 * i + 1)"
    by (auto simp: sd_touched_def) presburger
  have "block_op blk 0 (2 * i + 1) = None"
    using b by (auto simp: SetBlock_Inr new_BlockOperator_def new_BlockOperator2_def)
  with sd_blocks_fold_untouched[OF f nt] sd_blocks_fold_touched[OF f m d]
  show ?thesis by simp
qed


section \<open>The construction on the example of two subdomains\<close>


lemmas two_defs = two_args_def pmesh2_def tetMeshB_def tetSpaceB_def triH1Space_def

lemma two_fields:
  "numSubdomains two_args = 2" "numInterfaces two_args = 1" "pmesh two_args = pmesh2"
  "fespace two_args = [Some tetSpace, Some tetSpaceB]" "ifespace two_args = [Some triSpace]"
  "iH1fespace two_args = [Some triH1Space]" "fecbdry two_args = nd_fec"
  "localInterfaces two_args = [\<lparr>FirstSubdomain = 0, SecondSubdomain = 1, faces = {|0|}\<rparr>]"
  "interfaceLocalIndex two_args = [0]"
  "GMRESSolver two_args = (\<lambda>m A. IdentityOperator (Height A))"
  by (simp_all add: two_args_def)

lemma upto_01: "[0..1] = [0, 1]" "[0..0] = [0]" "[0..(- 1)] = []"
  by (simp_all add: upto.simps)

lemma two_phaseA:
  "fold_err (interface_index_step two_args) [0..numInterfaces two_args - 1] (initial_members two_args)
     = Inr two_A"
  by (simp add: two_A_def initial_members_def two_fields upto_01 interface_index_step_def vec_get_def vec_set_def numeral_2_eq_2)

lemma tetB_faces_match:
  "FacesCoincideGeometrically tetMeshB 0 triangleMesh 0"
  "\<not> FacesCoincideGeometrically tetMeshB 1 triangleMesh 0"
  "\<not> FacesCoincideGeometrically tetMeshB 2 triangleMesh 0"
  "\<not> FacesCoincideGeometrically tetMeshB 3 triangleMesh 0"
  by (simp_all add: FacesCoincideGeometrically_def vertexFound_loop_def verticesEqual_eval
        tetMeshB_def tet_defs upt3 coord_def)

lemma tetB_find: "find_sdMeshFace tetMeshB triangleMesh 0 0 = Inr 0"
proof -
  have f: "GetElementFaces tetMeshB 0 = [0, 1, 2, 3]" by (simp add: tetMeshB_def tetMesh_def)
  show ?thesis by (simp add: find_sdMeshFace_def sdMeshFace_loop_def f tetB_faces_match)
qed

lemma tetB_edge_dofs: "edge_dofs triSpace tetSpaceB 0 0 [- 1, - 1, - 1] = Inr [1, 0, - 1]"
  by (simp add: edge_dofs_def tetSpaceB_def tetMeshB_def tet_defs edgesMatch_def verticesEqual_eval upt3 two coord_def
       map_dofs_def write_dof_def vec_get_def vec_set_def upt_rec)

lemma two_dofmap0:
  "SetInterfaceToSurfaceDOFMap triSpace tetSpace pmesh2 1 {|0|} nd_fec = Inr [1, 0, - 1]"
proof -
  have a: "GetParMesh tetSpace = tetMesh" "GetParMesh triSpace = triangleMesh"
     "GetVSize triSpace = 3" "nd_fec POINT = 0" "nd_fec SEGMENT = 1"
     "nd_fec (GetFaceGeometryType tetMesh 0) = 0"
    by (simp_all add: tetSpace_def triSpace_def nd_fec_def tetMesh_def)
  have s: "sorted_list_of_fset {|0::int|} = [0]" by (simp add: sorted_list_of_fset.rep_eq)
  have r: "replicate 3 (- 1 :: int) = [- 1, - 1, - 1]" by (simp add: numeral_3_eq_3)
  have m: "pmeshElem_loop pmesh2 1 {|0|} [0..GetNE pmesh2 - 1] (Map.empty, {||}) = Inr ([0 \<mapsto> 0], {|0|})"
    by (simp add: pmesh2_def upto_01)
  show ?thesis
    by (simp add: SetInterfaceToSurfaceDOFMap_def m tet_sdElem a s r tet_find
          face_stages_def tet_edge_dofs)
qed

lemma two_dofmap1:
  "SetInterfaceToSurfaceDOFMap triSpace tetSpaceB pmesh2 2 {|0|} nd_fec = Inr [1, 0, - 1]"
proof -
  have a: "GetParMesh tetSpaceB = tetMeshB" "GetParMesh triSpace = triangleMesh"
     "GetVSize triSpace = 3" "nd_fec POINT = 0" "nd_fec SEGMENT = 1"
     "nd_fec (GetFaceGeometryType tetMeshB 0) = 0"
    by (simp_all add: tetSpaceB_def tetMeshB_def tetSpace_def triSpace_def nd_fec_def tetMesh_def)
  have s: "sorted_list_of_fset {|0::int|} = [0]" by (simp add: sorted_list_of_fset.rep_eq)
  have r: "replicate 3 (- 1 :: int) = [- 1, - 1, - 1]" by (simp add: numeral_3_eq_3)
  have m: "pmeshElem_loop pmesh2 2 {|0|} [0..GetNE pmesh2 - 1] (Map.empty, {||}) = Inr ([0 \<mapsto> 1], {|1|})"
    by (simp add: pmesh2_def upto_01)
  have e: "sdElem_loop tetMeshB {|1|} = [1 \<mapsto> 0]"
    by (simp add: sdElem_loop_def tetMeshB_def tetMesh_def)
  show ?thesis
    by (simp add: SetInterfaceToSurfaceDOFMap_def m e a s r tetB_find
          face_stages_def tetB_edge_dofs)
qed

lemma two_phaseB:
  "fold_err (subdomain_interfaces_step two_args) [0..numSubdomains two_args - 1] two_A = Inr two_B"
proof -
  have t: "GetTrueVSize triSpace = 3" "GetTrueVSize triH1Space = 3" "GetTrueVSize tetSpace = 5"
    "GetTrueVSize tetSpaceB = 5" "GetVSize triSpace = 3"
    by (simp_all add: triSpace_def triH1Space_def tetSpace_def tetSpaceB_def)
  show ?thesis
    by (simp add: two_fields upto_01 subdomain_interfaces_step_def interface_setup_def two_A_def int32_def
        initial_members_def vec_get_def vec_set_def deref_def numeral_2_eq_2 numeral_3_eq_3
        two_dofmap0 two_dofmap1 new_InjectionOperator_def t two_B_def two_J_def)
qed



lemma two_B_fields:
  "subdomainLocalInterfaces two_B = [[0], [0]]"
  "InterfaceToSurfaceInjection two_B = [[two_J], [two_J]]"
  "block_trueOffsets two_B = [0, 6, 6]" "size_acc two_B = 12"
  "tdofsBdry two_B = []" "tdofsBdryInjection two_B = []" "Asd two_B = []" "invAsd two_B = []"
  "globalInterfaceIndex two_B = [0]"
  by (simp_all add: two_B_def two_A_def initial_members_def)

lemma two_matrices:
  "sdND two_args = (\<lambda>m. IdentityOperator 5)" "ifNDmass two_args = (\<lambda>i. IdentityOperator 3)"
  "ifNDcurlcurl two_args = (\<lambda>i. IdentityOperator 3)" "ifNDH1grad two_args = (\<lambda>i. IdentityOperator 3)"
  "ifH1mass two_args = (\<lambda>i. IdentityOperator 3)" "alpha two_args = 1" "beta two_args = 1" "gamma two_args = 1"
  by (simp_all add: two_args_def)

lemma two_sizes:
  "GetTrueVSize triSpace = 3" "GetTrueVSize triH1Space = 3" "GetTrueVSize tetSpace = 5"
  "GetTrueVSize tetSpaceB = 5" "GetVSize triSpace = 3"
  by (simp_all add: triSpace_def triH1Space_def tetSpace_def tetSpaceB_def)

lemma two_sd_offsets:
  "fold_err (sd_offsets_step two_args) [(0, 0)] [0, 5, 0, 0] = Inr [0, 5, 3, 3]"
  by (simp add: sd_offsets_step_def two_fields vec_get_def vec_set_def two_sizes int32_def
        numeral_eq_Suc)

lemma two_PartialSum: "PartialSum [0, 5, 3, 3] = [0, 5, 8, 11]"
  by (simp add: PartialSum_def int32_def)

lemma SetBlock_ok:
  "0 \<le> r \<Longrightarrow> nat r < length (row_offsets B) - 1 \<Longrightarrow> 0 \<le> c \<Longrightarrow> nat c < length (col_offsets B) - 1
   \<Longrightarrow> \<exists>B'. SetBlock B r c A k = Inr B' \<and> row_offsets B' = row_offsets B \<and> col_offsets B' = col_offsets B"
  by (simp add: SetBlock_def NumRowBlocks_def NumColBlocks_def)

lemma two_sd_blocks:
  assumes "length (row_offsets blk) = 4" "length (col_offsets blk) = 4"
  shows "\<not> isl (fold_err (sd_blocks_step two_args [two_J]) [(0, 0)] blk)"
proof -
  obtain b1 where b1: "SetBlock blk 0 (int (2 * 0 + 2))
                 (ProductOperator (Inj_as_Operator two_J) (ifNDH1grad two_args 0)) (- gamma two_args) = Inr b1"
     "row_offsets b1 = row_offsets blk" "col_offsets b1 = col_offsets blk"
    using SetBlock_ok[of 0 blk "int (2 * 0 + 2)"] assms by auto
  obtain b2 where b2: "SetBlock b1 (int (2 * 0 + 1)) (int (2 * 0 + 2))
                 (ifNDH1grad two_args 0) (gamma two_args / alpha two_args) = Inr b2"
     "row_offsets b2 = row_offsets blk" "col_offsets b2 = col_offsets blk"
    using SetBlock_ok[of "int (2 * 0 + 1)" b1 "int (2 * 0 + 2)"] assms b1 by auto
  obtain b3 where b3: "SetBlock b2 (int (2 * 0 + 1)) 0
                 (ProductOperator
                    (SumOperator (ifNDmass two_args 0) (ifNDcurlcurl two_args 0) 1 (beta two_args / alpha two_args))
                    (TransposeOperator (Inj_as_Operator two_J))) 1 = Inr b3"
     "row_offsets b3 = row_offsets blk" "col_offsets b3 = col_offsets blk"
    using SetBlock_ok[of "int (2 * 0 + 1)" b2 0] assms b2 by auto
  obtain b4 where b4: "SetBlock b3 (int (2 * 0 + 2)) (int (2 * 0 + 1))
                 (TransposeOperator (ifNDH1grad two_args 0)) 1 = Inr b4"
     "row_offsets b4 = row_offsets blk" "col_offsets b4 = col_offsets blk"
    using SetBlock_ok[of "int (2 * 0 + 2)" b3 "int (2 * 0 + 1)"] assms b3 by auto
  obtain b5 where b5: "SetBlock b4 (int (2 * 0 + 1)) (int (2 * 0 + 1))
                 (ifNDmass two_args 0) (1 / alpha two_args) = Inr b5"
     "row_offsets b5 = row_offsets blk" "col_offsets b5 = col_offsets blk"
    using SetBlock_ok[of "int (2 * 0 + 1)" b4 "int (2 * 0 + 1)"] assms b4 by auto
  obtain b6 where b6: "SetBlock b5 (int (2 * 0 + 2)) (int (2 * 0 + 2)) (ifH1mass two_args 0) 1 = Inr b6"
    using SetBlock_ok[of "int (2 * 0 + 2)" b5 "int (2 * 0 + 2)"] assms b5 by auto
  show ?thesis
    using b1(1) b2(1) b3(1) b4(1) b5(1) b6
    by (simp add: sd_blocks_step_def vec_get_def)
qed

lemma two_CreateSubdomainOperator:
  assumes "subdomainLocalInterfaces d = [[0], [0]]"
    and "InterfaceToSurfaceInjection d = [[two_J], [two_J]]" and "m = 0 \<or> m = 1"
  shows "\<not> isl (CreateSubdomainOperator two_args d m)"
proof -
  obtain blk where blk: "SetBlock (new_BlockOperator [0, 5, 8, 11]) 0 0 (IdentityOperator 5) 1 = Inr blk"
     "row_offsets blk = [0, 5, 8, 11]" "col_offsets blk = [0, 5, 8, 11]"
    using SetBlock_ok[of 0 "new_BlockOperator [0, 5, 8, 11]" 0 "IdentityOperator 5" 1]
    by (auto simp: new_BlockOperator_def new_BlockOperator2_def)
  have f: "\<not> isl (fold_err (sd_blocks_step two_args [two_J]) [(0, 0)] blk)"
    by (rule two_sd_blocks) (simp_all add: blk)
  have r: "replicate 2 (0::int) = [0, 0]" by (simp add: numeral_2_eq_2)
  have e: "bind_err (fold_err (sd_offsets_step two_args) [(0, 0)] [0, 5, 0, 0])
            (\<lambda>offs. bind_err (SetBlock (new_BlockOperator (PartialSum offs)) 0 0 (IdentityOperator 5) 1)
               (fold_err (sd_blocks_step two_args [two_J]) [(0, 0)]))
         = fold_err (sd_blocks_step two_args [two_J]) [(0, 0)] blk"
    by (simp only: two_sd_offsets bind_err.simps two_PartialSum blk(1))
  from assms(3) show ?thesis
    using assms(1,2) f
    by (auto simp: CreateSubdomainOperator_def two_fields vec_get_def deref_def two_sizes Let_def r e
          two_matrices(1) simp del: fold_err.simps)
qed


lemma upto_03: "[0..3] = [0, 1, 2, 3]"
  by (simp add: upto.simps)

lemma two_bdry:
  "FindBoundaryTrueDOFs tetSpace {||} = {|0, 1, 2, 3, 4|}"
  "FindBoundaryTrueDOFs tetSpaceB {||} = {|0, 1, 2, 3, 4|}"
  by (auto simp: FindBoundaryTrueDOFs_def bdr_dofs_loop_def tetSpace_def tetSpaceB_def tetMeshB_def
        tetMesh_def tet_face_edges_def upto_03 Let_def)

lemma two_fcard: "fcard {|0, 1, 2, 3, 4 :: int|} = 5"
  by (simp add: fcard.rep_eq)

lemma two_setup:
  assumes "subdomainLocalInterfaces d = [[0], [0]]"
    and "InterfaceToSurfaceInjection d = [[two_J], [two_J]]"
    and "length (block_trueOffsets d) = 3" and "m = 0 \<or> m = 1"
  shows "\<exists>A. subdomain_setup two_args m d =
     Inr (d\<lparr>size_acc := int32 (size_acc d + 5),
            block_trueOffsets := (block_trueOffsets d)[nat (m + 1) := int32 (block_trueOffsets d ! nat (m + 1) + 5)],
            tdofsBdry := tdofsBdry d @ [{|0, 1, 2, 3, 4|}],
            tdofsBdryInjection := tdofsBdryInjection d
               @ [Some \<lparr>set_height = 5, set_width = 5, set_id = {|0, 1, 2, 3, 4|}\<rparr>],
            Asd := Asd d @ [Some (Block_as_Operator A)],
            invAsd := invAsd d @ [Some (IdentityOperator (Height (Block_as_Operator A)))]\<rparr>)"
proof -
  from two_CreateSubdomainOperator[OF assms(1,2,4)]
  obtain A where A: "CreateSubdomainOperator two_args d m = Inr A"
    by (cases "CreateSubdomainOperator two_args d m") auto
  from assms(4) show ?thesis
    using assms(3) A
    by (auto simp: subdomain_setup_def two_fields vec_get_def vec_set_def two_bdry two_fcard
          new_SetInjectionOperator_def two_sizes Let_def)
qed


lemma two_phaseC:
  "\<exists>d A0 A1 I0 I1. fold_err (subdomain_setup two_args) [0..numSubdomains two_args - 1] two_B = Inr d
     \<and> subdomainLocalInterfaces d = [[0], [0]] \<and> block_trueOffsets d = [0, 11, 11] \<and> size_acc d = 22
     \<and> globalInterfaceIndex d = [0] \<and> InterfaceToSurfaceInjection d = [[two_J], [two_J]]
     \<and> tdofsBdry d = [{|0, 1, 2, 3, 4|}, {|0, 1, 2, 3, 4|}]
     \<and> tdofsBdryInjection d = [Some \<lparr>set_height = 5, set_width = 5, set_id = {|0, 1, 2, 3, 4|}\<rparr>,
                                Some \<lparr>set_height = 5, set_width = 5, set_id = {|0, 1, 2, 3, 4|}\<rparr>]
     \<and> Asd d = [Some A0, Some A1] \<and> invAsd d = [Some I0, Some I1]"
proof -
  from two_setup[of two_B 0] obtain A0 d0 where
    s0: "subdomain_setup two_args 0 two_B = Inr d0"
    and d0: "d0 = two_B\<lparr>size_acc := int32 (size_acc two_B + 5),
            block_trueOffsets := (block_trueOffsets two_B)[nat (0 + 1) := int32 (block_trueOffsets two_B ! nat (0 + 1) + 5)],
            tdofsBdry := tdofsBdry two_B @ [{|0, 1, 2, 3, 4|}],
            tdofsBdryInjection := tdofsBdryInjection two_B
               @ [Some \<lparr>set_height = 5, set_width = 5, set_id = {|0, 1, 2, 3, 4|}\<rparr>],
            Asd := Asd two_B @ [Some (Block_as_Operator A0)],
            invAsd := invAsd two_B @ [Some (IdentityOperator (Height (Block_as_Operator A0)))]\<rparr>"
    by (auto simp: two_B_fields)
  have f0: "subdomainLocalInterfaces d0 = [[0], [0]]"
    "InterfaceToSurfaceInjection d0 = [[two_J], [two_J]]" "block_trueOffsets d0 = [0, 11, 6]"
    "size_acc d0 = 17"
    by (simp_all add: d0 two_B_fields int32_def)
  from two_setup[of d0 1] obtain A1 d1 where
    s1: "subdomain_setup two_args 1 d0 = Inr d1"
    and d1: "d1 = d0\<lparr>size_acc := int32 (size_acc d0 + 5),
            block_trueOffsets := (block_trueOffsets d0)[nat (1 + 1) := int32 (block_trueOffsets d0 ! nat (1 + 1) + 5)],
            tdofsBdry := tdofsBdry d0 @ [{|0, 1, 2, 3, 4|}],
            tdofsBdryInjection := tdofsBdryInjection d0
               @ [Some \<lparr>set_height = 5, set_width = 5, set_id = {|0, 1, 2, 3, 4|}\<rparr>],
            Asd := Asd d0 @ [Some (Block_as_Operator A1)],
            invAsd := invAsd d0 @ [Some (IdentityOperator (Height (Block_as_Operator A1)))]\<rparr>"
    by (auto simp: f0)
  have "fold_err (subdomain_setup two_args) [0..numSubdomains two_args - 1] two_B = Inr d1"
    by (simp add: two_fields upto_01 s0 s1)
  moreover have "block_trueOffsets d1 = [0, 11, 11]" "size_acc d1 = 22"
    "subdomainLocalInterfaces d1 = [[0], [0]]"
    "globalInterfaceIndex d1 = [0]" "InterfaceToSurfaceInjection d1 = [[two_J], [two_J]]"
    "tdofsBdry d1 = [{|0, 1, 2, 3, 4|}, {|0, 1, 2, 3, 4|}]"
    "tdofsBdryInjection d1 = [Some \<lparr>set_height = 5, set_width = 5, set_id = {|0, 1, 2, 3, 4|}\<rparr>,
                                Some \<lparr>set_height = 5, set_width = 5, set_id = {|0, 1, 2, 3, 4|}\<rparr>]"
    "Asd d1 = [Some (Block_as_Operator A0), Some (Block_as_Operator A1)]"
    "invAsd d1 = [Some (IdentityOperator (Height (Block_as_Operator A0))),
                  Some (IdentityOperator (Height (Block_as_Operator A1)))]"
    by (simp_all add: d1 d0 f0 two_B_fields numeral_2_eq_2 int32_def)
  ultimately show ?thesis by blast
qed

lemma two_subdomain_inj:
  assumes "subdomainLocalInterfaces d = [[0], [0]]"
    and "tdofsBdry d = [{|0, 1, 2, 3, 4|}, {|0, 1, 2, 3, 4|}]"
    and "tdofsBdryInjection d = [Some S0, Some S1]" and "m = 0 \<or> m = 1"
  shows "\<not> isl (subdomain_inj two_args d m)"
proof -
  have p: "PartialSum [0, 5, 6] = [0, 5, 11]" by (simp add: PartialSum_def int32_def)
  have b: "\<not> isl (bind_err (SetBlock (new_BlockOperator2 [0, 5, 11] [0, 5, 11]) 0 0 A 1)
              (\<lambda>b1. SetBlock b1 1 1 B 1))" for A B
    by (simp add: SetBlock_def NumRowBlocks_def NumColBlocks_def new_BlockOperator2_def)
  from assms(4) show ?thesis
    using assms(1-3)
    by (auto simp: subdomain_inj_def two_fields vec_get_def deref_def ifsize_step_def two_sizes
          two_fcard p b Let_def int32_def)
qed


lemma two_sub0_created:
  "CreateSubdomainOperator two_args two_B 0 = Inr (projr (CreateSubdomainOperator two_args two_B 0))"
  using two_CreateSubdomainOperator[of two_B 0] by (simp add: two_B_fields)



section \<open>The coupling of the volumetric block with the interface blocks\<close>

text \<open>
  Claim C3, as stated, fails.  For subdomain 0 of the example and its interface, the
  block in row 0 and the column of the \<open>f\<close>-block (column 1, the block whose diagonal
  entry is the interface mass scaled by \<open>1/alpha\<close>) is null; the product of the
  surface injection with the mixed gradient matrix sits in column 2, the \<open>\<rho>\<close>-block.
\<close>

theorem CreateSubdomainOperator_f_column_null:
  "CreateSubdomainOperator two_args two_B 0 = Inr (projr (CreateSubdomainOperator two_args two_B 0)) \<and>
   block_op (projr (CreateSubdomainOperator two_args two_B 0)) 0 1 = None \<and>
   block_op (projr (CreateSubdomainOperator two_args two_B 0)) 0 2
     = Some (ProductOperator (Inj_as_Operator two_J) (ifNDH1grad two_args 0))"
  using CreateSubdomainOperator_blocks[OF two_sub0_created, of 0] two_sub0_created
  by (simp add: two_B_fields numeral_2_eq_2)

text \<open>
  Claim C3, amended.  In the block operator built for a subdomain, for its \<open>i\<close>-th
  incident interface, the block in row 0 (the volumetric field unknown) and column
  \<open>2i+2\<close>, the \<open>\<rho>\<close>-block of the interface, is the surface-injection operator composed with
  the mixed gradient matrix of the interface, with the coefficient \<open>-gamma\<close>.  The block
  in row 0 and column \<open>2i+1\<close>, the \<open>f\<close>-block, is null.  (The \<open>f\<close>-block is the one whose
  diagonal block is the interface mass with the coefficient \<open>1/alpha\<close>, the \<open>\<rho>\<close>-block the
  one whose diagonal block is the scalar mass matrix.)
\<close>

theorem CreateSubdomainOperator_row0:
  assumes "CreateSubdomainOperator a d subdomain = Inr A"
    and "i < length (subdomainLocalInterfaces d ! nat subdomain)"
  shows "block_op A 0 (2 * i + 1) = None
    \<and> block_op A 0 (2 * i + 2)
         = Some (ProductOperator
                   (Inj_as_Operator (InterfaceToSurfaceInjection d ! nat subdomain ! i))
                   (ifNDH1grad a (subdomainLocalInterfaces d ! nat subdomain ! i)))
    \<and> block_coef A 0 (2 * i + 2) = - gamma a
    \<and> block_op A (2 * i + 1) (2 * i + 1)
         = Some (ifNDmass a (subdomainLocalInterfaces d ! nat subdomain ! i))
    \<and> block_coef A (2 * i + 1) (2 * i + 1) = 1 / alpha a
    \<and> block_op A (2 * i + 2) (2 * i + 2)
         = Some (ifH1mass a (subdomainLocalInterfaces d ! nat subdomain ! i))"
  using assms by (rule CreateSubdomainOperator_blocks)

theorem CreateSubdomainOperator_row0_witness:
  "CreateSubdomainOperator two_args two_B 0 = Inr (projr (CreateSubdomainOperator two_args two_B 0)) \<and>
   block_coef (projr (CreateSubdomainOperator two_args two_B 0)) 0 2 = - 1 \<and>
   block_op (projr (CreateSubdomainOperator two_args two_B 0)) 1 1 = Some (IdentityOperator 3)"
  using CreateSubdomainOperator_row0[OF two_sub0_created, of 0] two_sub0_created
  by (simp add: two_B_fields two_matrices numeral_2_eq_2)

section \<open>The coupling blocks and the global operator on the example\<close>

lemma two_interface_offsets:
  "interface_offset_step two_args 0 (0, 0) (- 1, 0, 0) = Inr (0, 0, 6)"
  by (simp add: interface_offset_step_def two_fields vec_get_def deref_def two_sizes int32_def)

lemma two_CreateCij:
  assumes "globalInterfaceIndex d = [0]"
  shows "\<exists>Cij. CreateCij two_args d 0 ori = Inr Cij"
  using assms
  by (simp add: CreateCij_def two_fields vec_get_def deref_def two_sizes PartialSum_def int32_def
        SetBlock_def NumRowBlocks_def NumColBlocks_def new_BlockOperator2_def Let_def)

lemma two_offsets:
  "PartialSum [0, 3, 6] = [0, 3, 9]" "PartialSum [0, 5, 6] = [0, 5, 11]"
  "PartialSum [0, 5, 3] = [0, 5, 8]" "PartialSum [0, 3, 3] = [0, 3, 6]"
  "PartialSum [0, 5, 0, 3, 3] = [0, 5, 5, 8, 11]" "PartialSum [0, 5, 0, 6, 0] = [0, 5, 5, 11, 11]"
  by (simp_all add: PartialSum_def int32_def)

lemma length_11:
  "length (x :: 'a list) = 11 \<Longrightarrow> \<exists>a0 a1 a2 a3 a4 a5 a6 a7 a8 a9 a10. x = [a0, a1, a2, a3, a4, a5, a6, a7, a8, a9, a10]"
  by (auto simp: length_Suc_conv numeral_eq_Suc)

lemma two_CreateInterfaceOperator:
  assumes "subdomainLocalInterfaces d = [[0], [0]]" and "globalInterfaceIndex d = [0]"
    and "tdofsBdry d = [{|0, 1, 2, 3, 4|}, {|0, 1, 2, 3, 4|}]"
    and "tdofsBdryInjection d = [Some \<lparr>set_height = 5, set_width = 5, set_id = {|0, 1, 2, 3, 4|}\<rparr>,
                                 Some \<lparr>set_height = 5, set_width = 5, set_id = {|0, 1, 2, 3, 4|}\<rparr>]"
    and "InterfaceToSurfaceInjection d = [[two_J], [two_J]]"
    and "ori = 0 \<or> ori = 1"
  shows "\<exists>C. CreateInterfaceOperator two_args d 0 ori = Inr C
             \<and> (\<forall>x. length x = 11 \<longrightarrow> Mult C x = Inl OutOfBounds)"
proof -
  from two_CreateCij[OF assms(2)] obtain Cij where c: "CreateCij two_args d 0 ori = Inr Cij" by blast
  have i: "int32 (3 + 3) = 6" "int32 5 = 5" "int32 3 = 3" "int32 0 = 0" "int32 6 = 6"
    by (simp_all add: int32_def)
  have s: "sorted_list_of_fset {|0, 1, 2, 3, 4 :: int|} = [0, 1, 2, 3, 4]"
    by (simp add: sorted_list_of_fset.rep_eq)
  have u: "[0..2] = [0, 1, 2]" by (simp add: upto.simps)
  have r: "replicate 5 (0::real) = [0,0,0,0,0]"
    "replicate 3 (0::real) = [0,0,0]" "replicate 6 (0::real) = [0,0,0,0,0,0]"
    by (simp_all add: numeral_eq_Suc)
  let ?C = "projr (CreateInterfaceOperator two_args d 0 ori)"
  have e: "CreateInterfaceOperator two_args d 0 ori = Inr ?C
       \<and> Mult ?C [a0, a1, a2, a3, a4, a5, a6, a7, a8, a9, a10] = Inl OutOfBounds"
    for a0 a1 a2 a3 a4 a5 a6 a7 a8 a9 a10
    using assms(6) assms(1-5) c
    apply (elim disjE)
     apply (simp_all add: CreateInterfaceOperator_def two_fields vec_get_def deref_def two_sizes Let_def
        two_interface_offsets two_fcard i two_offsets SetBlock_def NumRowBlocks_def NumColBlocks_def
        new_BlockOperator2_def)
     apply (simp_all add: TripleProductOperator_def Block_as_Operator_def BlockOperator_Mult_def
        NumRowBlocks_def NumColBlocks_def GetBlock_def block_size_def upt_rec r
        IdentityOperator_def ProductOperator_def TransposeOperator_def Set_as_Operator_def
        Inj_as_Operator_def SetInjectionOperator_Mult_def InjectionOperator_MultTranspose_def
        two_J_def s u vec_get_def vec_set_def)
    done
  show ?thesis
  proof (intro exI[of _ ?C] conjI allI impI)
    show "CreateInterfaceOperator two_args d 0 ori = Inr ?C" using e by blast
    fix x :: Vector assume "length x = 11"
    from length_11[OF this] e show "Mult ?C x = Inl OutOfBounds" by blast
  qed
qed

lemma two_globalInterfaceOp:
  assumes "subdomainLocalInterfaces d = [[0], [0]]" and "globalInterfaceIndex d = [0]"
    and "tdofsBdry d = [{|0, 1, 2, 3, 4|}, {|0, 1, 2, 3, 4|}]"
    and "tdofsBdryInjection d = [Some \<lparr>set_height = 5, set_width = 5, set_id = {|0, 1, 2, 3, 4|}\<rparr>,
                                 Some \<lparr>set_height = 5, set_width = 5, set_id = {|0, 1, 2, 3, 4|}\<rparr>]"
    and "InterfaceToSurfaceInjection d = [[two_J], [two_J]]"
    and "block_trueOffsets d = [0, 11, 22]"
  shows "\<exists>C. new_globalInterfaceOp two_args d = Inr C
             \<and> (\<forall>x. length x = 22 \<longrightarrow> BlockOperator_Mult C x = Inl OutOfBounds)"
proof -
  from two_CreateInterfaceOperator[OF assms(1-5), of 0] obtain C01 where
    c01: "CreateInterfaceOperator two_args d 0 0 = Inr C01"
      "\<forall>x. length x = 11 \<longrightarrow> Mult C01 x = Inl OutOfBounds"
    by auto
  from two_CreateInterfaceOperator[OF assms(1-5), of 1] obtain C10 where
    c10: "CreateInterfaceOperator two_args d 0 1 = Inr C10"
    by auto
  show ?thesis
    using c01 c10 assms(6)
    by (simp add: new_globalInterfaceOp_def two_fields upto_01 globalInterfaceOp_step_def
          vec_get_def SetBlock_def NumRowBlocks_def NumColBlocks_def new_BlockOperator_def
          new_BlockOperator2_def BlockOperator_Mult_def upt_rec GetBlock_def block_size_def)
qed

lemma two_globalOp:
  assumes "subdomainLocalInterfaces d = [[0], [0]]" and "globalInterfaceIndex d = [0]"
    and "tdofsBdry d = [{|0, 1, 2, 3, 4|}, {|0, 1, 2, 3, 4|}]"
    and "tdofsBdryInjection d = [Some \<lparr>set_height = 5, set_width = 5, set_id = {|0, 1, 2, 3, 4|}\<rparr>,
                                 Some \<lparr>set_height = 5, set_width = 5, set_id = {|0, 1, 2, 3, 4|}\<rparr>]"
    and "InterfaceToSurfaceInjection d = [[two_J], [two_J]]"
    and "block_trueOffsets d = [0, 11, 22]"
    and "Asd d = [Some A0, Some A1]" and "invAsd d = [Some I0, Some I1]"
  shows "\<exists>g. new_globalOp two_args d = Inr (d\<lparr>globalOp := Some g\<rparr>)
             \<and> (\<forall>x. length x = 22 \<longrightarrow> Mult g x = Inl OutOfBounds)"
proof -
  from two_globalInterfaceOp[OF assms(1-6)] obtain C where
    c: "new_globalInterfaceOp two_args d = Inr C"
      "\<forall>x. length x = 22 \<longrightarrow> BlockOperator_Mult C x = Inl OutOfBounds"
    by blast
  obtain j0 where j0: "subdomain_inj two_args d 0 = Inr j0"
    using two_subdomain_inj[OF assms(1,3,4), of 0] by (cases "subdomain_inj two_args d 0") auto
  obtain j1 where j1: "subdomain_inj two_args d 1 = Inr j1"
    using two_subdomain_inj[OF assms(1,3,4), of 1] by (cases "subdomain_inj two_args d 1") auto
  have "\<not> isl (new_globalSubdomainOp two_args d)"
    using assms(6-8) j0 j1
    by (simp add: new_globalSubdomainOp_def two_fields upto_01 globalSubdomainOp_step_def
          vec_get_def deref_def SetBlock_def NumRowBlocks_def NumColBlocks_def new_BlockOperator_def
          new_BlockOperator2_def)
  then obtain S where s: "new_globalSubdomainOp two_args d = Inr S"
    by (cases "new_globalSubdomainOp two_args d") auto
  show ?thesis
    using c s
    by (intro exI[of _ "SumOperator (ProductOperator (Block_as_Operator S) (Block_as_Operator C))
                          (IdentityOperator (size_acc d)) 1 1"])
       (simp add: new_globalOp_def SumOperator_def ProductOperator_def Block_as_Operator_def)
qed

lemma two_constructed:
  "\<exists>d. new_DDMInterfaceOperator two_args = Inr d \<and> block_trueOffsets d = [0, 11, 22]
      \<and> height d = 22 \<and> width d = 22
      \<and> subdomainLocalInterfaces d = [[0], [0]] \<and> globalInterfaceIndex d = [0]
      \<and> InterfaceToSurfaceInjection d = [[two_J], [two_J]]
      \<and> tdofsBdry d = [{|0, 1, 2, 3, 4|}, {|0, 1, 2, 3, 4|}]
      \<and> tdofsBdryInjection d = [Some \<lparr>set_height = 5, set_width = 5, set_id = {|0, 1, 2, 3, 4|}\<rparr>,
                                 Some \<lparr>set_height = 5, set_width = 5, set_id = {|0, 1, 2, 3, 4|}\<rparr>]
      \<and> (\<forall>x. length x = 22 \<longrightarrow> DDMInterfaceOperator_Mult d x = Inl OutOfBounds)"
proof -
  from two_phaseC obtain d A0 A1 I0 I1 where
    c: "fold_err (subdomain_setup two_args) [0..numSubdomains two_args - 1] two_B = Inr d"
    and f: "subdomainLocalInterfaces d = [[0], [0]]" "block_trueOffsets d = [0, 11, 11]"
      "size_acc d = 22" "globalInterfaceIndex d = [0]"
      "InterfaceToSurfaceInjection d = [[two_J], [two_J]]"
      "tdofsBdry d = [{|0, 1, 2, 3, 4|}, {|0, 1, 2, 3, 4|}]"
      "tdofsBdryInjection d = [Some \<lparr>set_height = 5, set_width = 5, set_id = {|0, 1, 2, 3, 4|}\<rparr>,
                                Some \<lparr>set_height = 5, set_width = 5, set_id = {|0, 1, 2, 3, 4|}\<rparr>]"
      "Asd d = [Some A0, Some A1]" "invAsd d = [Some I0, Some I1]"
    by blast
  have p: "PartialSum [0, 11, 11] = [0, 11, 22]" by (simp add: PartialSum_def int32_def)
  let ?e = "d\<lparr>height := 22, width := 22, block_trueOffsets := [0, 11, 22]\<rparr>"
  have fin: "finish_offsets d = Inr ?e"
    by (simp add: finish_offsets_def f p)
  have "\<exists>g. new_globalOp two_args ?e = Inr (?e\<lparr>globalOp := Some g\<rparr>)
             \<and> (\<forall>x. length x = 22 \<longrightarrow> Mult g x = Inl OutOfBounds)"
    by (rule two_globalOp[where ?A0.0 = A0 and ?A1.0 = A1 and ?I0.0 = I0 and ?I1.0 = I1])
       (simp_all add: f)
  then obtain g where g: "new_globalOp two_args ?e = Inr (?e\<lparr>globalOp := Some g\<rparr>)"
      "\<forall>x. length x = 22 \<longrightarrow> Mult g x = Inl OutOfBounds"
    by blast
  let ?d = "?e\<lparr>globalOp := Some g\<rparr>"
  have "new_DDMInterfaceOperator two_args = Inr ?d"
    using two_phaseA two_phaseB c fin g(1)
    by (simp add: new_DDMInterfaceOperator_def two_fields)
  moreover have "\<forall>x. length x = 22 \<longrightarrow> DDMInterfaceOperator_Mult ?d x = Inl OutOfBounds"
    using g(2) by (simp add: DDMInterfaceOperator_Mult_def deref_def)
  ultimately show ?thesis using f by (intro exI[of _ ?d]) simp
qed

lemma two_ddm_constructed: "new_DDMInterfaceOperator two_args = Inr two_ddm"
  using two_constructed by (auto simp: two_ddm_def)

lemma two_ddm_fields:
  "block_trueOffsets two_ddm = [0, 11, 22]" "height two_ddm = 22" "width two_ddm = 22"
  "subdomainLocalInterfaces two_ddm = [[0], [0]]" "globalInterfaceIndex two_ddm = [0]"
  "InterfaceToSurfaceInjection two_ddm = [[two_J], [two_J]]"
  "tdofsBdry two_ddm = [{|0, 1, 2, 3, 4|}, {|0, 1, 2, 3, 4|}]"
  "tdofsBdryInjection two_ddm = [Some \<lparr>set_height = 5, set_width = 5, set_id = {|0, 1, 2, 3, 4|}\<rparr>,
                                 Some \<lparr>set_height = 5, set_width = 5, set_id = {|0, 1, 2, 3, 4|}\<rparr>]"
  "\<forall>x. length x = 22 \<longrightarrow> DDMInterfaceOperator_Mult two_ddm x = Inl OutOfBounds"
  using two_constructed by (auto simp: two_ddm_def)

lemma two_coupling_block:
  "\<forall>x. length x = 11
     \<longrightarrow> bind_err (CreateInterfaceOperator two_args two_ddm 0 0) (\<lambda>C01. Mult C01 x) = Inl OutOfBounds"
  using two_CreateInterfaceOperator[OF two_ddm_fields(4,5,7,8,6), of 0] by auto

lemma CreateCij_globalOp [simp]: "CreateCij a (d\<lparr>globalOp := g\<rparr>) = CreateCij a d"
  by (rule ext, rule ext) (simp add: CreateCij_def)

lemma CreateInterfaceOperator_globalOp [simp]:
  "CreateInterfaceOperator a (d\<lparr>globalOp := g\<rparr>) = CreateInterfaceOperator a d"
  by (rule ext, rule ext)
     (simp add: CreateInterfaceOperator_def Let_def cong: if_cong option.case_cong prod.case_cong)

lemma subdomain_inj_globalOp [simp]: "subdomain_inj a (d\<lparr>globalOp := g\<rparr>) = subdomain_inj a d"
  by (rule ext) (simp add: subdomain_inj_def)

lemma globalSubdomainOp_step_globalOp [simp]:
  "globalSubdomainOp_step a (d\<lparr>globalOp := g\<rparr>) = globalSubdomainOp_step a d"
  by (rule ext, rule ext) (simp add: globalSubdomainOp_step_def cong: option.case_cong)

lemma globalInterfaceOp_step_globalOp [simp]:
  "globalInterfaceOp_step a (d\<lparr>globalOp := g\<rparr>) = globalInterfaceOp_step a d"
  by (rule ext, rule ext) (simp add: globalInterfaceOp_step_def Let_def cong: if_cong)

lemma globalOp_composition:
  assumes "new_DDMInterfaceOperator a = Inr d"
  shows "new_globalSubdomainOp a d = Inr (projr (new_globalSubdomainOp a d))
       \<and> new_globalInterfaceOp a d = Inr (projr (new_globalInterfaceOp a d))
       \<and> globalOp d = Some (SumOperator
            (ProductOperator (Block_as_Operator (projr (new_globalSubdomainOp a d)))
                             (Block_as_Operator (projr (new_globalInterfaceOp a d))))
            (IdentityOperator (height d)) 1 1)"
proof -
  from assms obtain d2 d3 where p3: "finish_offsets d2 = Inr d3" and p4: "new_globalOp a d3 = Inr d"
    by (auto simp: new_DDMInterfaceOperator_def bind_err_Inr split: if_splits)
  from p3 have h: "size_acc d3 = height d3"
    by (auto simp: finish_offsets_def Let_def split: if_splits)
  from p4 obtain C S where c: "new_globalInterfaceOp a d3 = Inr C" and s: "new_globalSubdomainOp a d3 = Inr S"
    and d: "d = d3\<lparr>globalOp := Some (SumOperator (ProductOperator (Block_as_Operator S) (Block_as_Operator C))
                       (IdentityOperator (size_acc d3)) 1 1)\<rparr>"
    by (auto simp: new_globalOp_def bind_err_Inr)
  have "new_globalInterfaceOp a d = Inr C" "new_globalSubdomainOp a d = Inr S"
    using c s by (simp_all add: d new_globalInterfaceOp_def new_globalSubdomainOp_def)
  then show ?thesis using h by (simp add: d)
qed

text \<open>
  Claim C1 fails in the code.  The assembled operator is the sum of the product of
  \<^verbatim>\<open>globalSubdomainOp\<close> and \<^verbatim>\<open>globalInterfaceOp\<close> and the identity, as claimed, but applying it
  does not give \<open>x + S(C(x))\<close>, and \<open>Mult(0)\<close> is not \<open>0\<close>: in the example of two subdomains
  that share one interface the construction succeeds (with the global block offsets
  \<open>0, 11, 22\<close>), the table of the interface-to-surface injection of either subdomain is
  \<open>[1, 0, -1]\<close>, and the coupling block of the interface applies the transpose of that
  injection, whose loop \<^verbatim>\<open>gf[i] = x[id[i]]\<close> reads \<open>x[-1]\<close>: outside the vector, for every
  vector of the size of the block.  So does \<^verbatim>\<open>Mult\<close> of the global operator, for every
  vector \<open>x\<close> of its width, the zero vector among them.
\<close>

theorem globalOp_Mult_reads_outside_vector:
  "new_DDMInterfaceOperator two_args = Inr two_ddm
   \<and> block_trueOffsets two_ddm = [0, 11, 22] \<and> height two_ddm = 22 \<and> width two_ddm = 22
   \<and> globalOp two_ddm = Some (SumOperator
        (ProductOperator (Block_as_Operator (projr (new_globalSubdomainOp two_args two_ddm)))
                         (Block_as_Operator (projr (new_globalInterfaceOp two_args two_ddm))))
        (IdentityOperator 22) 1 1)
   \<and> InterfaceToSurfaceInjection two_ddm = [[two_J], [two_J]] \<and> inj_id two_J = [1, 0, - 1]
   \<and> (\<forall>x. length x = 11
         \<longrightarrow> bind_err (CreateInterfaceOperator two_args two_ddm 0 0) (\<lambda>C01. Mult C01 x)
               = Inl OutOfBounds)
   \<and> (\<forall>x. length x = 22 \<longrightarrow> DDMInterfaceOperator_Mult two_ddm x = Inl OutOfBounds)"
  using two_ddm_constructed two_ddm_fields two_coupling_block globalOp_composition[OF two_ddm_constructed]
  by (simp add: two_J_def)

theorem globalOp_Mult_reads_outside_vector_witness:
  "new_DDMInterfaceOperator two_args = Inr two_ddm
   \<and> bind_err (CreateInterfaceOperator two_args two_ddm 0 0) (\<lambda>C01. Mult C01 (replicate 11 0))
        = Inl OutOfBounds
   \<and> DDMInterfaceOperator_Mult two_ddm (replicate 22 0) = Inl OutOfBounds
   \<and> DDMInterfaceOperator_Mult two_ddm (map real [1..<23]) = Inl OutOfBounds"
  using globalOp_Mult_reads_outside_vector by simp

section \<open>The global block offsets on the example\<close>





end
